theory Spec2Isabelle
  imports Main "HOL-Library.Word" "HOL-Library.Sublist" "HOL-Library.Multiset"
begin

section \<open>The graphics collaborator\<close>

text \<open>
  The tutorials drive an external GPU binding (package \<open>wgpu\<close>). Its objects are opaque
  pointers; a Go pointer is modelled as \<open>handle option\<close>, \<open>None\<close> being \<open>nil\<close>. The
  binding is a recording mock: it appends every call it receives to \<open>gpu_log\<close>, hands out
  fresh handles from \<open>next_id\<close>, and decides whether a call that can return an error
  succeeds by consuming one entry of \<open>script\<close> (\<open>None\<close>: the call succeeds, \<open>Some msg\<close>:
  it fails with the message \<open>msg\<close> and returns a \<open>nil\<close> object). An exhausted script is a
  healthy backend: every further call succeeds.

  \<open>resize_calls\<close> is a ghost component: the arguments of the invocations of
  \<open>(*State).Resize\<close> so far. It is written by \<open>Resize\<close> only and read by nothing.
\<close>

type_synonym u32 = "32 word"
type_synonym u16 = "16 word"
type_synonym handle = nat

record PhysicalSize =
  Width :: u32
  Height :: u32

text \<open>
  The enumerations of the binding: the constants the tutorials name, and any other value
  by its numeric code (texture formats, present and alpha modes come from the adapter).
\<close>

datatype TextureUsage = TextureUsage_RenderAttachment | TextureUsage_Bits nat
datatype PresentMode = PresentMode_Fifo | PresentMode_Code nat
type_synonym TextureFormat = nat
type_synonym AlphaMode = nat

record SwapChainDescriptor =
  Usage :: TextureUsage
  Format :: TextureFormat
  Width :: u32
  Height :: u32
  PresentMode :: PresentMode
  AlphaMode :: AlphaMode

datatype LoadOp = LoadOp_Clear | LoadOp_Load
datatype StoreOp = StoreOp_Store | StoreOp_Discard

text \<open>
  The contents of a buffer: the 16-bit indices of an index buffer, the number of
  vertices of a vertex buffer (their coordinates and colours are floating point), or the
  matrix of a uniform buffer (floating point as well).
\<close>

datatype buffer_data = Indices "u16 list" | Vertices nat | Uniform

datatype gpu_call =
    Call_CreateInstance handle
  | Call_CreateSurface handle handle
  | Call_RequestAdapter handle "handle option" "string + handle"
  | Call_RequestDevice handle "string + handle"
  | Call_GetQueue handle handle
  | Call_GetPreferredFormat handle handle
  | Call_GetCapabilities handle handle
  | Call_CreateSwapChain handle "handle option" SwapChainDescriptor "string + handle"
  | Call_CreateBindGroupLayout handle string "string + handle"
  | Call_CreateTexture handle string u32 u32 "string + handle"
  | Call_WriteTexture handle "handle option"
  | Call_CreateView handle handle
  | Call_CreateSampler handle "string + handle"
  | Call_CreateBindGroup handle string handle "handle option list" "string + handle"
  | Call_CreateShaderModule handle string "string + handle"
  | Call_CreatePipelineLayout handle "handle list" "string + handle"
  | Call_CreateRenderPipeline handle handle handle "string + handle"
  | Call_CreateBufferInit handle string buffer_data "string + handle"
  | Call_WriteBuffer handle "handle option"
  | Call_GetCurrentTextureView handle "string + handle"
  | Call_CreateCommandEncoder handle "string + handle"
  | Call_BeginRenderPass handle handle LoadOp StoreOp handle
  | Call_SetPipeline handle "handle option"
  | Call_SetBindGroup handle nat "handle option"
  | Call_SetVertexBuffer handle nat "handle option"
  | Call_SetIndexBuffer handle "handle option"
  | Call_DrawIndexed handle u32 u32 u32 u32 u32
  | Call_End handle
  | Call_Finish handle handle
  | Call_Submit handle handle
  | Call_Present handle
  | Call_Drop handle

record world =
  script :: "string option list"
  next_id :: handle
  gpu_log :: "gpu_call list"
  stdout :: "string list"
  resize_calls :: "PhysicalSize list"

datatype panic = PanicErr string | NilDeref | IndexOutOfRange

datatype 'a res = Done 'a | Panic panic

definition emit :: "gpu_call \<Rightarrow> world \<Rightarrow> world" where
  "emit c w = w\<lparr>gpu_log := gpu_log w @ [c]\<rparr>"

definition fresh :: "world \<Rightarrow> handle \<times> world" where
  "fresh w = (next_id w, w\<lparr>next_id := Suc (next_id w)\<rparr>)"

definition fallible :: "world \<Rightarrow> (string + handle) \<times> world" where
  "fallible w =
     (case script w of
        [] \<Rightarrow> (Inr (next_id w), w\<lparr>next_id := Suc (next_id w)\<rparr>)
      | None # rest \<Rightarrow> (Inr (next_id w), w\<lparr>script := rest, next_id := Suc (next_id w)\<rparr>)
      | Some msg # rest \<Rightarrow> (Inl msg, w\<lparr>script := rest\<rparr>))"

text \<open>A call that returns a new object and cannot fail.\<close>

definition gpu_new :: "(handle \<Rightarrow> gpu_call) \<Rightarrow> world \<Rightarrow> handle \<times> world" where
  "gpu_new c w = (case fresh w of (h, w') \<Rightarrow> (h, emit (c h) w'))"

text \<open>A call that returns \<open>(object, error)\<close>.\<close>

definition gpu_try :: "((string + handle) \<Rightarrow> gpu_call) \<Rightarrow> world \<Rightarrow> (string + handle) \<times> world" where
  "gpu_try c w = (case fallible w of (r, w') \<Rightarrow> (r, emit (c r) w'))"

text \<open>A call that returns nothing.\<close>

definition gpu_do :: "gpu_call \<Rightarrow> world \<Rightarrow> world" where
  "gpu_do c w = emit c w"

definition Drop :: "handle \<Rightarrow> world \<Rightarrow> world" where
  "Drop h w = gpu_do (Call_Drop h) w"

definition Println :: "string \<Rightarrow> world \<Rightarrow> world" where
  "Println str w = w\<lparr>stdout := stdout w @ [str]\<rparr>"

definition CreateSwapChain ::
  "handle \<Rightarrow> handle option \<Rightarrow> SwapChainDescriptor \<Rightarrow> world \<Rightarrow> (string + handle) \<times> world" where
  "CreateSwapChain dev surf cfg w = gpu_try (Call_CreateSwapChain dev surf cfg) w"

definition new_calls :: "world \<Rightarrow> world \<Rightarrow> gpu_call list" where
  "new_calls w w' = drop (length (gpu_log w)) (gpu_log w')"

text \<open>The error the next fallible call will return, if it will fail.\<close>

definition next_error :: "world \<Rightarrow> string option" where
  "next_error w = (case script w of Some msg # rest \<Rightarrow> Some msg | _ \<Rightarrow> None)"

text \<open>The backend at process start, with the outcomes \<open>sc\<close> to come.\<close>

definition boot :: "string option list \<Rightarrow> world" where
  "boot sc = \<lparr>script = sc, next_id = 0, gpu_log = [], stdout = [], resize_calls = []\<rparr>"

section \<open>The state shared by the tutorials\<close>

text \<open>
  Every tutorial declares its own \<open>State\<close> struct; they all begin with the fields below,
  and each tutorial's struct is an extension of this record.
\<close>

record State =
  surface :: "handle option"
  swapChain :: "handle option"
  device :: "handle option"
  queue :: "handle option"
  config :: "SwapChainDescriptor option"
  size' :: PhysicalSize
  renderPipeline :: "handle option"
  vertexBuffer :: "handle option"
  indexBuffer :: "handle option"
  numIndices :: u32

text \<open>
  \<open>VERTICES\<close> (five vertices \<open>A\<close> to \<open>E\<close>, named here by their letters) and \<open>INDICES\<close>,
  the same in every tutorial.
\<close>

definition VERTICES :: "string list" where
  "VERTICES = [''A'', ''B'', ''C'', ''D'', ''E'']"

definition INDICES :: "u16 list" where
  "INDICES = [0, 1, 4, 1, 2, 4, 2, 3, 4]"

subsection \<open>\<open>(*State).Resize\<close>\<close>

text \<open>
  The same body in tutorial4-challenge and in \<open>src/unnamed/part_000\<close>. A store through the
  \<open>nil\<close> pointer \<open>s.config\<close> and a method call on the \<open>nil\<close> pointer \<open>s.device\<close> are
  Go run-time panics; \<open>panic(err)\<close> carries the message of the error.
\<close>

definition Resize ::
  "PhysicalSize \<Rightarrow> 'a State_scheme \<Rightarrow> world \<Rightarrow> unit res \<times> 'a State_scheme \<times> world" where
  "Resize newSize s0 w0 =
     (let w1 = w0\<lparr>resize_calls := resize_calls w0 @ [newSize]\<rparr> in
      if 0 < PhysicalSize.Width newSize \<and> 0 < PhysicalSize.Height newSize then
        (let s1 = s0\<lparr>size' := newSize\<rparr> in
         case config s1 of
           None \<Rightarrow> (Panic NilDeref, s1, w1)
         | Some c \<Rightarrow>
            (let cfg = c\<lparr>Width := PhysicalSize.Width newSize,
                         Height := PhysicalSize.Height newSize\<rparr>;
                 s2 = s1\<lparr>config := Some cfg\<rparr>;
                 w2 = (case swapChain s2 of None \<Rightarrow> w1 | Some sc \<Rightarrow> Drop sc w1)
             in case device s2 of
                  None \<Rightarrow> (Panic NilDeref, s2, w2)
                | Some d \<Rightarrow>
                   (case CreateSwapChain d (surface s2) cfg w2 of
                      (Inl err, w3) \<Rightarrow> (Panic (PanicErr err), s2\<lparr>swapChain := None\<rparr>, w3)
                    | (Inr sc, w3) \<Rightarrow> (Done (), s2\<lparr>swapChain := Some sc\<rparr>, w3))))
      else (Done (), s0, w1))"


section \<open>The textures challenge (\<open>src/unnamed/part_000\<close>, \<open>texture.go\<close>)\<close>

subsection \<open>\<open>Texture\<close>\<close>

record Texture =
  texture :: "handle option"
  view :: "handle option"
  sampler :: "handle option"

text \<open>\<open>if p != nil { p.Drop(); p = nil }\<close>, the step every destroy routine is made of.\<close>

definition drop_field :: "handle option \<Rightarrow> world \<Rightarrow> handle option \<times> world" where
  "drop_field p w = (case p of None \<Rightarrow> (p, w) | Some h \<Rightarrow> (None, Drop h w))"

definition Texture_Destroy :: "Texture \<Rightarrow> world \<Rightarrow> Texture \<times> world" where
  "Texture_Destroy t0 w0 =
     (case drop_field (sampler t0) w0 of (p1, w1) \<Rightarrow>
      case drop_field (view t0) w1 of (p2, w2) \<Rightarrow>
      case drop_field (texture t0) w2 of (p3, w3) \<Rightarrow>
        (t0\<lparr>sampler := p1, view := p2, texture := p3\<rparr>, w3))"

text \<open>
  An image is represented by the extent of its bounds, an encoded image by what
  \<open>png.Decode\<close> returns on it. The pixel conversion has no effect on the GPU calls.
\<close>

record Image =
  Dx :: int
  Dy :: int

type_synonym encoded = "string + Image"

text \<open>
  The deferred closure of \<open>TextureFromImage\<close> and \<open>CreateDepthTexture\<close>, run on the named
  results \<open>(t, err)\<close> when the function returns.
\<close>

definition Texture_return ::
  "Texture \<Rightarrow> string option \<Rightarrow> world \<Rightarrow> Texture option \<times> string option \<times> world" where
  "Texture_return t err w =
     (case err of
        None \<Rightarrow> (Some t, None, w)
      | Some e \<Rightarrow> (case Texture_Destroy t w of (t', w') \<Rightarrow> (None, Some e, w')))"

definition TextureFromImage ::
  "handle \<Rightarrow> handle \<Rightarrow> Image \<Rightarrow> string \<Rightarrow> world \<Rightarrow> Texture option \<times> string option \<times> world" where
  "TextureFromImage dev q img label w0 =
     (let t0 = \<lparr>texture = None, view = None, sampler = None\<rparr>;
          width = Dx img;
          height = Dy img
      in case gpu_try (Call_CreateTexture dev label (word_of_int width) (word_of_int height)) w0 of
           (Inl err, w1) \<Rightarrow> Texture_return t0 (Some err) w1
         | (Inr tex, w1) \<Rightarrow>
            (let t1 = t0\<lparr>texture := Some tex\<rparr>;
                 w2 = gpu_do (Call_WriteTexture q (texture t1)) w1
             in case gpu_new (Call_CreateView tex) w2 of (v, w3) \<Rightarrow>
                (let t2 = t1\<lparr>view := Some v\<rparr>
                 in case gpu_try (Call_CreateSampler dev) w3 of
                      (Inl err, w4) \<Rightarrow> Texture_return t2 (Some err) w4
                    | (Inr smp, w4) \<Rightarrow> Texture_return (t2\<lparr>sampler := Some smp\<rparr>) None w4)))"

definition TextureFromPNGBytes ::
  "handle \<Rightarrow> handle \<Rightarrow> encoded \<Rightarrow> string \<Rightarrow> world \<Rightarrow> Texture option \<times> string option \<times> world" where
  "TextureFromPNGBytes dev q buf label w =
     (case buf of
        Inl err \<Rightarrow> (None, Some err, w)
      | Inr img \<Rightarrow> TextureFromImage dev q img label w)"

subsection \<open>\<open>State\<close>\<close>

record State5 = State +
  diffuseTexture :: "Texture option"
  diffuseBindGroup :: "handle option"
  cartoonTexture :: "Texture option"
  cartoonBindGroup :: "handle option"
  isSpacePressed :: bool

text \<open>\<open>&State{}\<close>: every field has its zero value.\<close>

definition State5_zero :: State5 where
  "State5_zero =
     \<lparr>surface = None, swapChain = None, device = None, queue = None, config = None,
      size' = \<lparr>PhysicalSize.Width = 0, PhysicalSize.Height = 0\<rparr>,
      renderPipeline = None, vertexBuffer = None, indexBuffer = None, numIndices = 0,
      diffuseTexture = None, diffuseBindGroup = None,
      cartoonTexture = None, cartoonBindGroup = None, isSpacePressed = False\<rparr>"

text \<open>\<open>if s.tex != nil { s.tex.Destroy(); s.tex = nil }\<close>\<close>

definition destroy_texture_field :: "Texture option \<Rightarrow> world \<Rightarrow> Texture option \<times> world" where
  "destroy_texture_field p w =
     (case p of None \<Rightarrow> (p, w) | Some t \<Rightarrow> (None, snd (Texture_Destroy t w)))"

definition Destroy5 :: "State5 \<Rightarrow> world \<Rightarrow> State5 \<times> world" where
  "Destroy5 s w0 =
     (case drop_field (indexBuffer s) w0 of (ib, w1) \<Rightarrow>
      case drop_field (vertexBuffer s) w1 of (vb, w2) \<Rightarrow>
      case drop_field (renderPipeline s) w2 of (rp, w3) \<Rightarrow>
      case drop_field (cartoonBindGroup s) w3 of (cbg, w4) \<Rightarrow>
      case destroy_texture_field (cartoonTexture s) w4 of (ct, w5) \<Rightarrow>
      case drop_field (diffuseBindGroup s) w5 of (dbg, w6) \<Rightarrow>
      case destroy_texture_field (diffuseTexture s) w6 of (dt, w7) \<Rightarrow>
      case drop_field (swapChain s) w7 of (sc, w8) \<Rightarrow>
      case drop_field (device s) w8 of (dev, w9) \<Rightarrow>
      case drop_field (surface s) w9 of (surf, w10) \<Rightarrow>
        (s\<lparr>indexBuffer := ib, vertexBuffer := vb, renderPipeline := rp,
           cartoonBindGroup := cbg, cartoonTexture := ct,
           diffuseBindGroup := dbg, diffuseTexture := dt,
           swapChain := sc, config := None, queue := None, device := dev,
           surface := surf\<rparr>, w10))"

subsection \<open>\<open>(*State).Render\<close>\<close>

text \<open>
  \<open>Render5_body\<close> is the function after \<open>defer view.Drop()\<close>; \<open>Render5\<close> runs the deferred
  call on whatever way the body leaves, a panic included. A method call on a \<open>nil\<close>
  receiver panics. The clear colour (floating point) is left out of the recorded pass.
\<close>

definition Render5_body :: "handle \<Rightarrow> handle \<Rightarrow> State5 \<Rightarrow> world \<Rightarrow> string option res \<times> world" where
  "Render5_body sc view_h s w1 =
     (case device s of
        None \<Rightarrow> (Panic NilDeref, w1)
      | Some d \<Rightarrow>
         (case gpu_try (Call_CreateCommandEncoder d) w1 of
            (Inl err, w2) \<Rightarrow> (Done (Some err), w2)
          | (Inr encoder, w2) \<Rightarrow>
             (case gpu_new (Call_BeginRenderPass encoder view_h LoadOp_Clear StoreOp_Store) w2 of
                (renderPass, w3) \<Rightarrow>
                  (let w4 = gpu_do (Call_SetPipeline renderPass (renderPipeline s)) w3;
                       w5 = (if isSpacePressed s
                             then gpu_do (Call_SetBindGroup renderPass 0 (cartoonBindGroup s)) w4
                             else gpu_do (Call_SetBindGroup renderPass 0 (diffuseBindGroup s)) w4);
                       w6 = gpu_do (Call_SetVertexBuffer renderPass 0 (vertexBuffer s)) w5;
                       w7 = gpu_do (Call_SetIndexBuffer renderPass (indexBuffer s)) w6;
                       w8 = gpu_do (Call_DrawIndexed renderPass (numIndices s) 1 0 0 0) w7;
                       w9 = gpu_do (Call_End renderPass) w8
                   in case gpu_new (Call_Finish encoder) w9 of
                        (cb, w10) \<Rightarrow>
                          (case queue s of
                             None \<Rightarrow> (Panic NilDeref, w10)
                           | Some q \<Rightarrow>
                              (Done None, gpu_do (Call_Present sc) (gpu_do (Call_Submit q cb) w10)))))))"

definition Render5 :: "State5 \<Rightarrow> world \<Rightarrow> string option res \<times> world" where
  "Render5 s w0 =
     (case swapChain s of
        None \<Rightarrow> (Panic NilDeref, w0)
      | Some sc \<Rightarrow>
         (case gpu_try (Call_GetCurrentTextureView sc) w0 of
            (Inl err, w1) \<Rightarrow> (Done (Some err), w1)
          | (Inr view_h, w1) \<Rightarrow>
             (case Render5_body sc view_h s w1 of (r, w2) \<Rightarrow> (r, Drop view_h w2))))"


subsection \<open>\<open>InitState\<close>\<close>

text \<open>
  \<open>InitState5_return deferred s err\<close> is a \<open>return s, err\<close> of \<open>InitState\<close>: the deferred
  \<open>Drop\<close> calls run last-deferred first (\<open>deferred\<close> lists their objects in that order),
  then the closure deferred first, which destroys \<open>s\<close> and returns \<open>nil\<close> in its place
  when \<open>err\<close> is not \<open>nil\<close>. \<open>InitState5_panic\<close> is a run-time panic inside \<open>InitState\<close>:
  the deferred calls run while \<open>err\<close> is \<open>nil\<close>.

  The function is long; it is cut at its blank lines into consecutive parts, each ending
  in the call of the next. The parameters are what the window, the adapter and the embedded
  files supply: the inner size, the preferred format and the two encoded images.
\<close>

type_synonym init5 = "(State5 option \<times> string option) res \<times> world"

definition InitState5_return :: "handle list \<Rightarrow> State5 \<Rightarrow> string option \<Rightarrow> world \<Rightarrow> init5" where
  "InitState5_return deferred s err w0 =
     (let w1 = fold Drop deferred w0
      in case err of
           None \<Rightarrow> (Done (Some s, None), w1)
         | Some e \<Rightarrow> (case Destroy5 s w1 of (s', w2) \<Rightarrow> (Done (None, Some e), w2)))"

definition InitState5_panic :: "handle list \<Rightarrow> world \<Rightarrow> init5" where
  "InitState5_panic deferred w0 = (Panic NilDeref, fold Drop deferred w0)"

text \<open>The vertex and index buffers, \<open>numIndices\<close> and the final \<open>return s, nil\<close>.\<close>

definition InitState5_buffers :: "handle list \<Rightarrow> handle \<Rightarrow> State5 \<Rightarrow> world \<Rightarrow> init5" where
  "InitState5_buffers deferred dev s w0 =
     (case gpu_try (Call_CreateBufferInit dev ''Vertex Buffer'' (Vertices (length VERTICES))) w0 of
        (Inl err, w1) \<Rightarrow> InitState5_return deferred (s\<lparr>vertexBuffer := None\<rparr>) (Some err) w1
      | (Inr vb, w1) \<Rightarrow>
         (case gpu_try (Call_CreateBufferInit dev ''Index Buffer'' (Indices INDICES)) w1 of
            (Inl err, w2) \<Rightarrow>
              InitState5_return deferred (s\<lparr>vertexBuffer := Some vb, indexBuffer := None\<rparr>)
                (Some err) w2
          | (Inr ib, w2) \<Rightarrow>
              InitState5_return deferred
                (s\<lparr>vertexBuffer := Some vb, indexBuffer := Some ib, numIndices := of_nat (length INDICES)\<rparr>) None w2))"

text \<open>The shader module, the pipeline layout and the render pipeline.\<close>

definition InitState5_pipeline :: "handle list \<Rightarrow> handle \<Rightarrow> handle \<Rightarrow> State5 \<Rightarrow> world \<Rightarrow> init5" where
  "InitState5_pipeline deferred dev textureBindGroupLayout s w0 =
     (case gpu_try (Call_CreateShaderModule dev ''shader.wgsl'') w0 of
        (Inl err, w1) \<Rightarrow> InitState5_return deferred s (Some err) w1
      | (Inr shader, w1) \<Rightarrow>
         (case gpu_try (Call_CreatePipelineLayout dev [textureBindGroupLayout]) w1 of
            (Inl err, w2) \<Rightarrow> InitState5_return (shader # deferred) s (Some err) w2
          | (Inr renderPipelineLayout, w2) \<Rightarrow>
             (case gpu_try (Call_CreateRenderPipeline dev renderPipelineLayout shader) w2 of
                (Inl err, w3) \<Rightarrow>
                  InitState5_return (renderPipelineLayout # shader # deferred)
                    (s\<lparr>renderPipeline := None\<rparr>) (Some err) w3
              | (Inr rp, w3) \<Rightarrow>
                  InitState5_buffers (renderPipelineLayout # shader # deferred) dev
                    (s\<lparr>renderPipeline := Some rp\<rparr>) w3)))"

text \<open>
  The cartoon texture and its bind group. Reading \<open>s.cartoonTexture.view\<close> through a \<open>nil\<close>
  texture would panic.
\<close>

definition InitState5_cartoon ::
  "handle list \<Rightarrow> handle \<Rightarrow> handle \<Rightarrow> handle \<Rightarrow> encoded \<Rightarrow> State5 \<Rightarrow> world \<Rightarrow> init5" where
  "InitState5_cartoon deferred dev q textureBindGroupLayout happyTreeCartoonPng s w0 =
     (case TextureFromPNGBytes dev q happyTreeCartoonPng ''happy-tree-cartoon.png'' w0 of
        (tx, err1, w1) \<Rightarrow>
          (case err1 of
             Some err \<Rightarrow> InitState5_return deferred (s\<lparr>cartoonTexture := tx\<rparr>) (Some err) w1
           | None \<Rightarrow>
              (case tx of
                 None \<Rightarrow> InitState5_panic deferred w1
               | Some ct \<Rightarrow>
                  (case gpu_try (Call_CreateBindGroup dev ''CartoonBindGroup''
                                   textureBindGroupLayout [view ct, sampler ct]) w1 of
                     (Inl err, w2) \<Rightarrow>
                       InitState5_return deferred
                         (s\<lparr>cartoonTexture := tx, cartoonBindGroup := None\<rparr>) (Some err) w2
                   | (Inr cbg, w2) \<Rightarrow>
                       InitState5_pipeline deferred dev textureBindGroupLayout
                         (s\<lparr>cartoonTexture := tx, cartoonBindGroup := Some cbg\<rparr>) w2))))"

text \<open>The bind group layout, the diffuse texture and its bind group.\<close>

definition InitState5_diffuse ::
  "handle list \<Rightarrow> handle \<Rightarrow> handle \<Rightarrow> encoded \<Rightarrow> encoded \<Rightarrow> State5 \<Rightarrow> world \<Rightarrow> init5" where
  "InitState5_diffuse deferred dev q happyTreePng happyTreeCartoonPng s w0 =
     (case gpu_try (Call_CreateBindGroupLayout dev ''TextureBindGroupLayout'') w0 of
        (Inl err, w1) \<Rightarrow> InitState5_return deferred s (Some err) w1
      | (Inr textureBindGroupLayout, w1) \<Rightarrow>
         (case TextureFromPNGBytes dev q happyTreePng ''happy-tree.png'' w1 of
            (tx, err2, w2) \<Rightarrow>
              (case err2 of
                 Some err \<Rightarrow>
                   InitState5_return (textureBindGroupLayout # deferred)
                     (s\<lparr>diffuseTexture := tx\<rparr>) (Some err) w2
               | None \<Rightarrow>
                  (case tx of
                     None \<Rightarrow> InitState5_panic (textureBindGroupLayout # deferred) w2
                   | Some dt \<Rightarrow>
                      (case gpu_try (Call_CreateBindGroup dev ''DiffuseBindGroup''
                                       textureBindGroupLayout [view dt, sampler dt]) w2 of
                         (Inl err, w3) \<Rightarrow>
                           InitState5_return (textureBindGroupLayout # deferred)
                             (s\<lparr>diffuseTexture := tx, diffuseBindGroup := None\<rparr>) (Some err) w3
                       | (Inr dbg, w3) \<Rightarrow>
                           InitState5_cartoon (textureBindGroupLayout # deferred) dev q
                             textureBindGroupLayout happyTreeCartoonPng
                             (s\<lparr>diffuseTexture := tx, diffuseBindGroup := Some dbg\<rparr>) w3)))))"

text \<open>The swap chain descriptor and the swap chain.\<close>

definition InitState5_swapChain ::
  "handle list \<Rightarrow> handle \<Rightarrow> handle \<Rightarrow> TextureFormat \<Rightarrow> encoded \<Rightarrow> encoded \<Rightarrow> State5 \<Rightarrow> world \<Rightarrow>
   init5" where
  "InitState5_swapChain deferred dev q fmt happyTreePng happyTreeCartoonPng s w0 =
     (let cfg = \<lparr>Usage = TextureUsage_RenderAttachment, Format = fmt,
                 Width = PhysicalSize.Width (size' s), Height = PhysicalSize.Height (size' s),
                 PresentMode = PresentMode_Fifo, AlphaMode = 0\<rparr>
      in case CreateSwapChain dev (surface s) cfg w0 of
           (Inl err, w1) \<Rightarrow>
             InitState5_return deferred (s\<lparr>config := Some cfg, swapChain := None\<rparr>) (Some err) w1
         | (Inr sc, w1) \<Rightarrow>
             InitState5_diffuse deferred dev q happyTreePng happyTreeCartoonPng
               (s\<lparr>config := Some cfg, swapChain := Some sc\<rparr>) w1)"

text \<open>The instance, the surface, the adapter, the device and its queue.\<close>

definition InitState5 ::
  "PhysicalSize \<Rightarrow> TextureFormat \<Rightarrow> encoded \<Rightarrow> encoded \<Rightarrow> world \<Rightarrow> init5" where
  "InitState5 innerSize fmt happyTreePng happyTreeCartoonPng w0 =
     (case gpu_new Call_CreateInstance w0 of
        (instance, w1) \<Rightarrow>
          (case gpu_new (Call_CreateSurface instance) w1 of
             (surf, w2) \<Rightarrow>
               (let s1 = State5_zero\<lparr>size' := innerSize, surface := Some surf\<rparr>
                in case gpu_try (Call_RequestAdapter instance (surface s1)) w2 of
                     (Inl err, w3) \<Rightarrow> InitState5_return [instance] s1 (Some err) w3
                   | (Inr adaper, w3) \<Rightarrow>
                      (case gpu_try (Call_RequestDevice adaper) w3 of
                         (Inl err, w4) \<Rightarrow>
                           InitState5_return [adaper, instance] (s1\<lparr>device := None\<rparr>) (Some err) w4
                       | (Inr dev, w4) \<Rightarrow>
                          (case gpu_new (Call_GetQueue dev) w4 of
                             (q, w5) \<Rightarrow>
                               InitState5_swapChain [adaper, instance] dev q fmt
                                 happyTreePng happyTreeCartoonPng
                                 (s1\<lparr>device := Some dev, queue := Some q\<rparr>)
                                 (gpu_do (Call_GetPreferredFormat surf adaper) w5))))))"

subsection \<open>\<open>main\<close>\<close>

text \<open>\<open>strings.Contains(s, substr)\<close>\<close>

fun Contains :: "string \<Rightarrow> string \<Rightarrow> bool" where
  "Contains [] substr = (substr = [])"
| "Contains (c # s) substr = (prefix substr (c # s) \<or> Contains s substr)"

text \<open>
  The window collaborator: one \<open>d.Poll()\<close> delivers the pending events to the callbacks
  \<open>main\<close> has registered and returns whether the display is still alive. A run of the
  loop is driven by the list of what each \<open>Poll\<close> delivers and returns; when the list is
  used up the loop is still \<open>Running\<close>. Creating the display and the window is outside
  the model.
\<close>

datatype ButtonState = ButtonStatePressed | ButtonStateReleased

datatype VirtualKey =
    VirtualKeySpace
  | VirtualKeyW | VirtualKeyA | VirtualKeyS | VirtualKeyD
  | VirtualKeyUp | VirtualKeyLeft | VirtualKeyDown | VirtualKeyRight
  | VirtualKeyCode nat

datatype window_event =
    KeyboardInput ButtonState VirtualKey
  | Resized u32 u32
  | CloseRequested

type_synonym poll = "window_event list \<times> bool"

datatype exit = Running | Exited | Crashed panic

text \<open>The three callbacks of \<open>main\<close>.\<close>

fun callback5 :: "window_event \<Rightarrow> State5 \<Rightarrow> world \<Rightarrow> unit res \<times> State5 \<times> world" where
  "callback5 (KeyboardInput state virtualKeyCode) s w =
     (if virtualKeyCode = VirtualKeySpace
      then (Done (), s\<lparr>isSpacePressed := (state = ButtonStatePressed)\<rparr>, w)
      else (Done (), s, w))"
| "callback5 (Resized physicalWidth physicalHeight) s w =
     Resize \<lparr>PhysicalSize.Width = physicalWidth, PhysicalSize.Height = physicalHeight\<rparr> s w"
| "callback5 CloseRequested s w = (Done (), s, w)"

fun Poll5 :: "window_event list \<Rightarrow> State5 \<Rightarrow> world \<Rightarrow> unit res \<times> State5 \<times> world" where
  "Poll5 [] s w = (Done (), s, w)"
| "Poll5 (e # es) s w =
     (case callback5 e s w of
        (Panic p, s', w') \<Rightarrow> (Panic p, s', w')
      | (Done u, s', w') \<Rightarrow> Poll5 es s' w')"

text \<open>The body of the loop after \<open>Poll\<close>: \<open>s.Render()\<close> and the \<open>switch\<close> on its error.\<close>

definition frame5 :: "State5 \<Rightarrow> world \<Rightarrow> unit res \<times> State5 \<times> world" where
  "frame5 s w0 =
     (case Render5 s w0 of
        (Panic p, w1) \<Rightarrow> (Panic p, s, w1)
      | (Done err, w1) \<Rightarrow>
         (case err of
            None \<Rightarrow> (Done (), s, w1)
          | Some errstr \<Rightarrow>
             (let w2 = Println errstr w1
              in if Contains errstr ''Lost'' then Resize (size' s) s w2
                 else if Contains errstr ''Outdated'' then Resize (size' s) s w2
                 else if Contains errstr ''Timeout'' then (Done (), s, w2)
                 else (Panic (PanicErr errstr), s, w2))))"

text \<open>
  The loop. Leaving \<open>main\<close>, by \<open>break\<close> or by a panic, runs the deferred \<open>s.Destroy()\<close>.
\<close>

fun main_loop5 :: "poll list \<Rightarrow> State5 \<Rightarrow> world \<Rightarrow> exit \<times> State5 \<times> world" where
  "main_loop5 [] s w = (Running, s, w)"
| "main_loop5 ((events, alive) # polls) s w =
     (case Poll5 events s w of
        (Panic p, s1, w1) \<Rightarrow> (Crashed p, Destroy5 s1 w1)
      | (Done u, s1, w1) \<Rightarrow>
         (if \<not> alive then (Exited, Destroy5 s1 w1)
          else (case frame5 s1 w1 of
                  (Panic p, s2, w2) \<Rightarrow> (Crashed p, Destroy5 s2 w2)
                | (Done u', s2, w2) \<Rightarrow> main_loop5 polls s2 w2)))"

definition main5 ::
  "PhysicalSize \<Rightarrow> TextureFormat \<Rightarrow> encoded \<Rightarrow> encoded \<Rightarrow> poll list \<Rightarrow> world \<Rightarrow>
   exit \<times> State5 option \<times> world" where
  "main5 innerSize fmt happyTreePng happyTreeCartoonPng polls w0 =
     (case InitState5 innerSize fmt happyTreePng happyTreeCartoonPng w0 of
        (Panic p, w1) \<Rightarrow> (Crashed p, None, w1)
      | (Done (sp, err), w1) \<Rightarrow>
         (case err of
            Some e \<Rightarrow> (Crashed (PanicErr e), sp, w1)
          | None \<Rightarrow>
             (case sp of
                None \<Rightarrow> (Crashed NilDeref, None, w1)
              | Some s \<Rightarrow>
                 (case main_loop5 polls s w1 of (x, s', w') \<Rightarrow> (x, Some s', w')))))"



section \<open>The buffers challenge (\<open>tutorial4-challenge/main.go\<close>)\<close>

record State4 = State +
  challengeVertexBuffer :: "handle option"
  challengeIndexBuffer :: "handle option"
  numChallengeIndices :: u32
  useComplex :: bool

definition State4_zero :: State4 where
  "State4_zero =
     \<lparr>surface = None, swapChain = None, device = None, queue = None, config = None,
      size' = \<lparr>PhysicalSize.Width = 0, PhysicalSize.Height = 0\<rparr>,
      renderPipeline = None, vertexBuffer = None, indexBuffer = None, numIndices = 0,
      challengeVertexBuffer = None, challengeIndexBuffer = None,
      numChallengeIndices = 0, useComplex = False\<rparr>"

definition Destroy4 :: "State4 \<Rightarrow> world \<Rightarrow> State4 \<times> world" where
  "Destroy4 s w0 =
     (case drop_field (challengeIndexBuffer s) w0 of (cib, w1) \<Rightarrow>
      case drop_field (challengeVertexBuffer s) w1 of (cvb, w2) \<Rightarrow>
      case drop_field (indexBuffer s) w2 of (ib, w3) \<Rightarrow>
      case drop_field (vertexBuffer s) w3 of (vb, w4) \<Rightarrow>
      case drop_field (renderPipeline s) w4 of (rp, w5) \<Rightarrow>
      case drop_field (swapChain s) w5 of (sc, w6) \<Rightarrow>
      case drop_field (device s) w6 of (dev, w7) \<Rightarrow>
      case drop_field (surface s) w7 of (surf, w8) \<Rightarrow>
        (s\<lparr>challengeIndexBuffer := cib, challengeVertexBuffer := cvb,
           indexBuffer := ib, vertexBuffer := vb, renderPipeline := rp,
           swapChain := sc, config := None, queue := None, device := dev,
           surface := surf\<rparr>, w8))"

subsection \<open>The procedural geometry of \<open>InitState\<close>\<close>

definition numVertices :: nat where
  "numVertices = 100"

definition numTriangles :: nat where
  "numTriangles = numVertices - 2"

text \<open>
  The loop that fills \<open>challengeIndices\<close>: \<open>i\<close> is a \<open>uint16\<close>, \<open>index\<close> an \<open>int\<close>, the array
  has a fixed length and a store outside it panics.
\<close>

function challengeIndices_loop :: "u16 \<Rightarrow> nat \<Rightarrow> u16 list \<Rightarrow> u16 list res" where
  "challengeIndices_loop i index arr =
     (if i < of_nat (numTriangles + 1) then
        (if index + 2 < length arr
         then challengeIndices_loop (i + 1) (index + 3)
                (arr[index := i + 1, index + 1 := i, index + 2 := 0])
         else Panic IndexOutOfRange)
      else Done arr)"
  by pat_completeness auto
termination
proof (relation "measure (\<lambda>(i, index, arr). 99 - unat i)")
  show "wf (measure (\<lambda>(i, index, arr). 99 - unat i))" by simp
next
  fix i :: u16 and index :: nat and arr :: "u16 list"
  assume "i < of_nat (numTriangles + 1)"
  then have "i < 99" by (simp add: numTriangles_def numVertices_def)
  then have "unat i < 99" by (simp add: word_less_nat_alt)
  then have "unat (i + 1) = unat i + 1" by (simp add: unat_word_ariths)
  with \<open>unat i < 99\<close>
  show "((i + 1, index + 3, arr[index := i + 1, index + 1 := i, index + 2 := 0]), (i, index, arr))
        \<in> measure (\<lambda>(i, index, arr). 99 - unat i)"
    by simp
qed

text \<open>\<open>var challengeIndices [numTriangles * 3]uint16\<close> and the block that fills it.\<close>

definition challengeIndices :: "u16 list res" where
  "challengeIndices = challengeIndices_loop 1 0 (replicate (numTriangles * 3) 0)"

subsection \<open>\<open>InitState\<close>\<close>

text \<open>
  What \<open>s.surface.GetCapabilities(adaper)\<close> returns. \<open>InitState\<close> takes the first entry of
  each list; indexing an empty list panics.
\<close>

record SurfaceCapabilities =
  Formats :: "TextureFormat list"
  PresentModes :: "PresentMode list"
  AlphaModes :: "AlphaMode list"

type_synonym init4 = "(State4 option \<times> string option) res \<times> world"

definition InitState4_return :: "handle list \<Rightarrow> State4 \<Rightarrow> string option \<Rightarrow> world \<Rightarrow> init4" where
  "InitState4_return deferred s err w0 =
     (let w1 = fold Drop deferred w0
      in case err of
           None \<Rightarrow> (Done (Some s, None), w1)
         | Some e \<Rightarrow> (case Destroy4 s w1 of (s', w2) \<Rightarrow> (Done (None, Some e), w2)))"

definition InitState4_panic :: "panic \<Rightarrow> handle list \<Rightarrow> world \<Rightarrow> init4" where
  "InitState4_panic p deferred w0 = (Panic p, fold Drop deferred w0)"

text \<open>The challenge geometry and its two buffers, and the final \<open>return s, nil\<close>.\<close>

definition InitState4_challenge :: "handle list \<Rightarrow> handle \<Rightarrow> State4 \<Rightarrow> world \<Rightarrow> init4" where
  "InitState4_challenge deferred dev s w0 =
     (case challengeIndices of
        Panic p \<Rightarrow> InitState4_panic p deferred w0
      | Done indices \<Rightarrow>
         (case gpu_try (Call_CreateBufferInit dev ''Challenge Vertex Buffer''
                          (Vertices numVertices)) w0 of
            (Inl err, w1) \<Rightarrow>
              InitState4_return deferred (s\<lparr>challengeVertexBuffer := None\<rparr>) (Some err) w1
          | (Inr cvb, w1) \<Rightarrow>
             (case gpu_try (Call_CreateBufferInit dev ''Challenge Index Buffer''
                              (Indices indices)) w1 of
                (Inl err, w2) \<Rightarrow>
                  InitState4_return deferred
                    (s\<lparr>challengeVertexBuffer := Some cvb, challengeIndexBuffer := None\<rparr>)
                    (Some err) w2
              | (Inr cib, w2) \<Rightarrow>
                  InitState4_return deferred
                    (s\<lparr>challengeVertexBuffer := Some cvb, challengeIndexBuffer := Some cib\<rparr>)
                    None w2)))"

text \<open>The vertex and index buffers and \<open>numIndices\<close>.\<close>

definition InitState4_buffers :: "handle list \<Rightarrow> handle \<Rightarrow> State4 \<Rightarrow> world \<Rightarrow> init4" where
  "InitState4_buffers deferred dev s w0 =
     (case gpu_try (Call_CreateBufferInit dev ''Vertex Buffer'' (Vertices (length VERTICES))) w0 of
        (Inl err, w1) \<Rightarrow> InitState4_return deferred (s\<lparr>vertexBuffer := None\<rparr>) (Some err) w1
      | (Inr vb, w1) \<Rightarrow>
         (case gpu_try (Call_CreateBufferInit dev ''Index Buffer'' (Indices INDICES)) w1 of
            (Inl err, w2) \<Rightarrow>
              InitState4_return deferred (s\<lparr>vertexBuffer := Some vb, indexBuffer := None\<rparr>)
                (Some err) w2
          | (Inr ib, w2) \<Rightarrow>
              InitState4_challenge deferred dev
                (s\<lparr>vertexBuffer := Some vb, indexBuffer := Some ib,
                   numIndices := of_nat (length INDICES)\<rparr>) w2))"

text \<open>The shader module, the pipeline layout and the render pipeline.\<close>

definition InitState4_pipeline :: "handle list \<Rightarrow> handle \<Rightarrow> State4 \<Rightarrow> world \<Rightarrow> init4" where
  "InitState4_pipeline deferred dev s w0 =
     (case gpu_try (Call_CreateShaderModule dev ''shader.wgsl'') w0 of
        (Inl err, w1) \<Rightarrow> InitState4_return deferred s (Some err) w1
      | (Inr shader, w1) \<Rightarrow>
         (case gpu_try (Call_CreatePipelineLayout dev []) w1 of
            (Inl err, w2) \<Rightarrow> InitState4_return (shader # deferred) s (Some err) w2
          | (Inr renderPipelineLayout, w2) \<Rightarrow>
             (case gpu_try (Call_CreateRenderPipeline dev renderPipelineLayout shader) w2 of
                (Inl err, w3) \<Rightarrow>
                  InitState4_return (renderPipelineLayout # shader # deferred)
                    (s\<lparr>renderPipeline := None\<rparr>) (Some err) w3
              | (Inr rp, w3) \<Rightarrow>
                  InitState4_buffers (renderPipelineLayout # shader # deferred) dev
                    (s\<lparr>renderPipeline := Some rp\<rparr>) w3)))"

text \<open>The swap chain descriptor, from the capabilities of the surface, and the swap chain.\<close>

definition InitState4_swapChain ::
  "handle list \<Rightarrow> handle \<Rightarrow> SurfaceCapabilities \<Rightarrow> State4 \<Rightarrow> world \<Rightarrow> init4" where
  "InitState4_swapChain deferred dev surfaceCaps s w0 =
     (case Formats surfaceCaps of
        [] \<Rightarrow> InitState4_panic IndexOutOfRange deferred w0
      | format # fs \<Rightarrow>
         (case PresentModes surfaceCaps of
            [] \<Rightarrow> InitState4_panic IndexOutOfRange deferred w0
          | presentMode # ps \<Rightarrow>
             (case AlphaModes surfaceCaps of
                [] \<Rightarrow> InitState4_panic IndexOutOfRange deferred w0
              | alphaMode # as \<Rightarrow>
                 (let cfg = \<lparr>Usage = TextureUsage_RenderAttachment, Format = format,
                             Width = PhysicalSize.Width (size' s),
                             Height = PhysicalSize.Height (size' s),
                             PresentMode = presentMode, AlphaMode = alphaMode\<rparr>
                  in case CreateSwapChain dev (surface s) cfg w0 of
                       (Inl err, w1) \<Rightarrow>
                         InitState4_return deferred
                           (s\<lparr>config := Some cfg, swapChain := None\<rparr>) (Some err) w1
                     | (Inr sc, w1) \<Rightarrow>
                         InitState4_pipeline deferred dev
                           (s\<lparr>config := Some cfg, swapChain := Some sc\<rparr>) w1))))"

text \<open>The instance, the surface, the adapter, the device and its queue.\<close>

definition InitState4 :: "PhysicalSize \<Rightarrow> SurfaceCapabilities \<Rightarrow> world \<Rightarrow> init4" where
  "InitState4 innerSize surfaceCaps w0 =
     (case gpu_new Call_CreateInstance w0 of
        (instance, w1) \<Rightarrow>
          (case gpu_new (Call_CreateSurface instance) w1 of
             (surf, w2) \<Rightarrow>
               (let s1 = State4_zero\<lparr>size' := innerSize, surface := Some surf\<rparr>
                in case gpu_try (Call_RequestAdapter instance (surface s1)) w2 of
                     (Inl err, w3) \<Rightarrow> InitState4_return [instance] s1 (Some err) w3
                   | (Inr adaper, w3) \<Rightarrow>
                      (case gpu_try (Call_RequestDevice adaper) w3 of
                         (Inl err, w4) \<Rightarrow>
                           InitState4_return [adaper, instance] (s1\<lparr>device := None\<rparr>) (Some err) w4
                       | (Inr dev, w4) \<Rightarrow>
                          (case gpu_new (Call_GetQueue dev) w4 of
                             (q, w5) \<Rightarrow>
                               InitState4_swapChain [adaper, instance] dev surfaceCaps
                                 (s1\<lparr>device := Some dev, queue := Some q\<rparr>)
                                 (gpu_do (Call_GetCapabilities surf adaper) w5))))))"

subsection \<open>\<open>(*State).Render\<close>\<close>

definition Render4_body :: "handle \<Rightarrow> handle \<Rightarrow> State4 \<Rightarrow> world \<Rightarrow> string option res \<times> world" where
  "Render4_body sc view_h s w1 =
     (case device s of
        None \<Rightarrow> (Panic NilDeref, w1)
      | Some d \<Rightarrow>
         (case gpu_try (Call_CreateCommandEncoder d) w1 of
            (Inl err, w2) \<Rightarrow> (Done (Some err), w2)
          | (Inr encoder, w2) \<Rightarrow>
             (case gpu_new (Call_BeginRenderPass encoder view_h LoadOp_Clear StoreOp_Store) w2 of
                (renderPass, w3) \<Rightarrow>
                  (let w4 = gpu_do (Call_SetPipeline renderPass (renderPipeline s)) w3;
                       w7 = (if useComplex s
                             then gpu_do (Call_DrawIndexed renderPass (numChallengeIndices s) 1 0 0 0)
                                   (gpu_do (Call_SetIndexBuffer renderPass (challengeIndexBuffer s))
                                     (gpu_do (Call_SetVertexBuffer renderPass 0 (challengeVertexBuffer s)) w4))
                             else gpu_do (Call_DrawIndexed renderPass (numIndices s) 1 0 0 0)
                                   (gpu_do (Call_SetIndexBuffer renderPass (indexBuffer s))
                                     (gpu_do (Call_SetVertexBuffer renderPass 0 (vertexBuffer s)) w4)));
                       w8 = gpu_do (Call_End renderPass) w7
                   in case gpu_new (Call_Finish encoder) w8 of
                        (cb, w9) \<Rightarrow>
                          (case queue s of
                             None \<Rightarrow> (Panic NilDeref, w9)
                           | Some q \<Rightarrow>
                              (Done None, gpu_do (Call_Present sc) (gpu_do (Call_Submit q cb) w9)))))))"

definition Render4 :: "State4 \<Rightarrow> world \<Rightarrow> string option res \<times> world" where
  "Render4 s w0 =
     (case swapChain s of
        None \<Rightarrow> (Panic NilDeref, w0)
      | Some sc \<Rightarrow>
         (case gpu_try (Call_GetCurrentTextureView sc) w0 of
            (Inl err, w1) \<Rightarrow> (Done (Some err), w1)
          | (Inr view_h, w1) \<Rightarrow>
             (case Render4_body sc view_h s w1 of (r, w2) \<Rightarrow> (r, Drop view_h w2))))"

subsection \<open>\<open>main\<close>\<close>

fun callback4 :: "window_event \<Rightarrow> State4 \<Rightarrow> world \<Rightarrow> unit res \<times> State4 \<times> world" where
  "callback4 (KeyboardInput state virtualKeyCode) s w =
     (if virtualKeyCode = VirtualKeySpace
      then (Done (), s\<lparr>useComplex := (state = ButtonStatePressed)\<rparr>, w)
      else (Done (), s, w))"
| "callback4 (Resized physicalWidth physicalHeight) s w =
     Resize \<lparr>PhysicalSize.Width = physicalWidth, PhysicalSize.Height = physicalHeight\<rparr> s w"
| "callback4 CloseRequested s w = (Done (), s, w)"

fun Poll4 :: "window_event list \<Rightarrow> State4 \<Rightarrow> world \<Rightarrow> unit res \<times> State4 \<times> world" where
  "Poll4 [] s w = (Done (), s, w)"
| "Poll4 (e # es) s w =
     (case callback4 e s w of
        (Panic p, s', w') \<Rightarrow> (Panic p, s', w')
      | (Done u, s', w') \<Rightarrow> Poll4 es s' w')"

definition frame4 :: "State4 \<Rightarrow> world \<Rightarrow> unit res \<times> State4 \<times> world" where
  "frame4 s w0 =
     (case Render4 s w0 of
        (Panic p, w1) \<Rightarrow> (Panic p, s, w1)
      | (Done err, w1) \<Rightarrow>
         (case err of
            None \<Rightarrow> (Done (), s, w1)
          | Some errstr \<Rightarrow>
             (let w2 = Println errstr w1
              in if Contains errstr ''Lost'' then Resize (size' s) s w2
                 else if Contains errstr ''Outdated'' then Resize (size' s) s w2
                 else if Contains errstr ''Timeout'' then (Done (), s, w2)
                 else (Panic (PanicErr errstr), s, w2))))"

fun main_loop4 :: "poll list \<Rightarrow> State4 \<Rightarrow> world \<Rightarrow> exit \<times> State4 \<times> world" where
  "main_loop4 [] s w = (Running, s, w)"
| "main_loop4 ((events, alive) # polls) s w =
     (case Poll4 events s w of
        (Panic p, s1, w1) \<Rightarrow> (Crashed p, Destroy4 s1 w1)
      | (Done u, s1, w1) \<Rightarrow>
         (if \<not> alive then (Exited, Destroy4 s1 w1)
          else (case frame4 s1 w1 of
                  (Panic p, s2, w2) \<Rightarrow> (Crashed p, Destroy4 s2 w2)
                | (Done u', s2, w2) \<Rightarrow> main_loop4 polls s2 w2)))"

definition main4 ::
  "PhysicalSize \<Rightarrow> SurfaceCapabilities \<Rightarrow> poll list \<Rightarrow> world \<Rightarrow> exit \<times> State4 option \<times> world" where
  "main4 innerSize surfaceCaps polls w0 =
     (case InitState4 innerSize surfaceCaps w0 of
        (Panic p, w1) \<Rightarrow> (Crashed p, None, w1)
      | (Done (sp, err), w1) \<Rightarrow>
         (case err of
            Some e \<Rightarrow> (Crashed (PanicErr e), sp, w1)
          | None \<Rightarrow>
             (case sp of
                None \<Rightarrow> (Crashed NilDeref, None, w1)
              | Some s \<Rightarrow>
                 (case main_loop4 polls s w1 of (x, s', w') \<Rightarrow> (x, Some s', w')))))"


section \<open>The camera challenge (\<open>tutorial6-challenge/main.go\<close>)\<close>

text \<open>
  The camera is floating-point data. Of a \<open>Camera\<close> the model keeps the aspect ratio, as
  the two dimensions it is the quotient of; of a \<open>CameraStaging\<close> the camera and the
  rotation, counted in the steps of two degrees added to it; of a \<open>CameraController\<close>
  the four key flags; of a \<open>CameraUniform\<close> nothing but its existence. The positions and
  the matrix are left out: no call to the backend depends on them but through the
  contents of the camera buffer.
\<close>

datatype aspect_ratio = Aspect u32 u32

record Camera =
  aspect :: aspect_ratio

record CameraStaging =
  camera :: "Camera option"
  modelRotationDeg :: nat

record CameraController =
  isForwardPressed :: bool
  isBackwardPressed :: bool
  isLeftPressed :: bool
  isRightPressed :: bool

type_synonym CameraUniform = unit

record State6 = State +
  diffuseTexture6 :: "Texture option"
  diffuseBindGroup6 :: "handle option"
  cameraController :: "CameraController option"
  cameraUniform :: "CameraUniform option"
  cameraBuffer :: "handle option"
  cameraBindGroup :: "handle option"
  cameraStaging :: "CameraStaging option"

definition State6_zero :: State6 where
  "State6_zero =
     \<lparr>surface = None, swapChain = None, device = None, queue = None, config = None,
      size' = \<lparr>PhysicalSize.Width = 0, PhysicalSize.Height = 0\<rparr>,
      renderPipeline = None, vertexBuffer = None, indexBuffer = None, numIndices = 0,
      diffuseTexture6 = None, diffuseBindGroup6 = None, cameraController = None,
      cameraUniform = None, cameraBuffer = None, cameraBindGroup = None,
      cameraStaging = None\<rparr>"

subsection \<open>\<open>(*State).Update\<close>\<close>

text \<open>
  The controller moves the camera (left out), the rotation grows by one step, the matrix
  is recomputed (left out) and written to the camera buffer. Reading through a \<open>nil\<close>
  controller, staging, camera or uniform, and calling a method of a \<open>nil\<close> queue, panic.
\<close>

definition Update6 :: "State6 \<Rightarrow> world \<Rightarrow> unit res \<times> State6 \<times> world" where
  "Update6 s w =
     (case cameraStaging s of
        None \<Rightarrow> (Panic NilDeref, s, w)
      | Some staging \<Rightarrow>
         (case camera staging of
            None \<Rightarrow> (Panic NilDeref, s, w)
          | Some cam \<Rightarrow>
             (case cameraController s of
                None \<Rightarrow> (Panic NilDeref, s, w)
              | Some controller \<Rightarrow>
                 (let s1 = s\<lparr>cameraStaging :=
                             Some (staging\<lparr>modelRotationDeg := modelRotationDeg staging + 1\<rparr>)\<rparr>
                  in case cameraUniform s1 of
                       None \<Rightarrow> (Panic NilDeref, s1, w)
                     | Some uniform \<Rightarrow>
                        (case queue s1 of
                           None \<Rightarrow> (Panic NilDeref, s1, w)
                         | Some q \<Rightarrow>
                            (Done (), s1, gpu_do (Call_WriteBuffer q (cameraBuffer s1)) w))))))"

subsection \<open>\<open>(*State).Resize\<close>\<close>

text \<open>The body of the other tutorials, and the new aspect ratio stored in the camera.\<close>

definition Resize6 :: "PhysicalSize \<Rightarrow> State6 \<Rightarrow> world \<Rightarrow> unit res \<times> State6 \<times> world" where
  "Resize6 newSize s0 w0 =
     (let w1 = w0\<lparr>resize_calls := resize_calls w0 @ [newSize]\<rparr> in
      if 0 < PhysicalSize.Width newSize \<and> 0 < PhysicalSize.Height newSize then
        (let s1 = s0\<lparr>size' := newSize\<rparr> in
         case config s1 of
           None \<Rightarrow> (Panic NilDeref, s1, w1)
         | Some c \<Rightarrow>
            (let cfg = c\<lparr>Width := PhysicalSize.Width newSize,
                         Height := PhysicalSize.Height newSize\<rparr>;
                 s2 = s1\<lparr>config := Some cfg\<rparr>;
                 w2 = (case swapChain s2 of None \<Rightarrow> w1 | Some sc \<Rightarrow> Drop sc w1)
             in case device s2 of
                  None \<Rightarrow> (Panic NilDeref, s2, w2)
                | Some d \<Rightarrow>
                   (case CreateSwapChain d (surface s2) cfg w2 of
                      (Inl err, w3) \<Rightarrow> (Panic (PanicErr err), s2\<lparr>swapChain := None\<rparr>, w3)
                    | (Inr sc, w3) \<Rightarrow>
                       (let s3 = s2\<lparr>swapChain := Some sc\<rparr>
                        in case cameraStaging s3 of
                             None \<Rightarrow> (Panic NilDeref, s3, w3)
                           | Some staging \<Rightarrow>
                              (case camera staging of
                                 None \<Rightarrow> (Panic NilDeref, s3, w3)
                               | Some cam \<Rightarrow>
                                  (Done (),
                                   s3\<lparr>cameraStaging := Some (staging\<lparr>camera := Some
                                        (cam\<lparr>aspect := Aspect (PhysicalSize.Width newSize)
                                                              (PhysicalSize.Height newSize)\<rparr>)\<rparr>)\<rparr>,
                                   w3))))))
      else (Done (), s0, w1))"

subsection \<open>\<open>(*State).Render\<close>\<close>

definition Render6_body :: "handle \<Rightarrow> handle \<Rightarrow> State6 \<Rightarrow> world \<Rightarrow> string option res \<times> world" where
  "Render6_body sc view_h s w1 =
     (case device s of
        None \<Rightarrow> (Panic NilDeref, w1)
      | Some d \<Rightarrow>
         (case gpu_try (Call_CreateCommandEncoder d) w1 of
            (Inl err, w2) \<Rightarrow> (Done (Some err), w2)
          | (Inr encoder, w2) \<Rightarrow>
             (case gpu_new (Call_BeginRenderPass encoder view_h LoadOp_Clear StoreOp_Store) w2 of
                (renderPass, w3) \<Rightarrow>
                  (let w4 = gpu_do (Call_SetPipeline renderPass (renderPipeline s)) w3;
                       w5 = gpu_do (Call_SetBindGroup renderPass 0 (diffuseBindGroup6 s)) w4;
                       w6 = gpu_do (Call_SetBindGroup renderPass 1 (cameraBindGroup s)) w5;
                       w7 = gpu_do (Call_SetVertexBuffer renderPass 0 (vertexBuffer s)) w6;
                       w8 = gpu_do (Call_SetIndexBuffer renderPass (indexBuffer s)) w7;
                       w9 = gpu_do (Call_DrawIndexed renderPass (numIndices s) 1 0 0 0) w8;
                       w10 = gpu_do (Call_End renderPass) w9
                   in case gpu_new (Call_Finish encoder) w10 of
                        (cb, w11) \<Rightarrow>
                          (case queue s of
                             None \<Rightarrow> (Panic NilDeref, w11)
                           | Some q \<Rightarrow>
                              (Done None, gpu_do (Call_Present sc) (gpu_do (Call_Submit q cb) w11)))))))"

definition Render6 :: "State6 \<Rightarrow> world \<Rightarrow> string option res \<times> world" where
  "Render6 s w0 =
     (case swapChain s of
        None \<Rightarrow> (Panic NilDeref, w0)
      | Some sc \<Rightarrow>
         (case gpu_try (Call_GetCurrentTextureView sc) w0 of
            (Inl err, w1) \<Rightarrow> (Done (Some err), w1)
          | (Inr view_h, w1) \<Rightarrow>
             (case Render6_body sc view_h s w1 of (r, w2) \<Rightarrow> (r, Drop view_h w2))))"

subsection \<open>\<open>(*State).Destroy\<close>\<close>

definition Destroy6 :: "State6 \<Rightarrow> world \<Rightarrow> State6 \<times> world" where
  "Destroy6 s w0 =
     (case drop_field (indexBuffer s) w0 of (ib, w1) \<Rightarrow>
      case drop_field (vertexBuffer s) w1 of (vb, w2) \<Rightarrow>
      case drop_field (renderPipeline s) w2 of (rp, w3) \<Rightarrow>
      case drop_field (cameraBindGroup s) w3 of (cbg, w4) \<Rightarrow>
      case drop_field (cameraBuffer s) w4 of (cb, w5) \<Rightarrow>
      case drop_field (diffuseBindGroup6 s) w5 of (dbg, w6) \<Rightarrow>
      case destroy_texture_field (diffuseTexture6 s) w6 of (dt, w7) \<Rightarrow>
      case drop_field (swapChain s) w7 of (sc, w8) \<Rightarrow>
      case drop_field (device s) w8 of (dev, w9) \<Rightarrow>
      case drop_field (surface s) w9 of (surf, w10) \<Rightarrow>
        (s\<lparr>indexBuffer := ib, vertexBuffer := vb, renderPipeline := rp,
           cameraBindGroup := cbg, cameraBuffer := cb, cameraStaging := None,
           cameraUniform := None, cameraController := None,
           diffuseBindGroup6 := dbg, diffuseTexture6 := dt,
           swapChain := sc, config := None, queue := None, device := dev,
           surface := surf\<rparr>, w10))"

subsection \<open>\<open>InitState\<close>\<close>

text \<open>
  As in the textures challenge, cut into consecutive parts. \<open>TextureFromPNGBytes\<close> is the
  one of \<open>texture.go\<close>.
\<close>

type_synonym init6 = "(State6 option \<times> string option) res \<times> world"

definition InitState6_return :: "handle list \<Rightarrow> State6 \<Rightarrow> string option \<Rightarrow> world \<Rightarrow> init6" where
  "InitState6_return deferred s err w0 =
     (let w1 = fold Drop deferred w0
      in case err of
           None \<Rightarrow> (Done (Some s, None), w1)
         | Some e \<Rightarrow> (case Destroy6 s w1 of (s', w2) \<Rightarrow> (Done (None, Some e), w2)))"

definition InitState6_panic :: "handle list \<Rightarrow> world \<Rightarrow> init6" where
  "InitState6_panic deferred w0 = (Panic NilDeref, fold Drop deferred w0)"

text \<open>The vertex and index buffers, \<open>numIndices\<close> and the final \<open>return s, nil\<close>.\<close>

definition InitState6_buffers :: "handle list \<Rightarrow> handle \<Rightarrow> State6 \<Rightarrow> world \<Rightarrow> init6" where
  "InitState6_buffers deferred dev s w0 =
     (case gpu_try (Call_CreateBufferInit dev ''Vertex Buffer'' (Vertices (length VERTICES))) w0 of
        (Inl err, w1) \<Rightarrow> InitState6_return deferred (s\<lparr>vertexBuffer := None\<rparr>) (Some err) w1
      | (Inr vb, w1) \<Rightarrow>
         (case gpu_try (Call_CreateBufferInit dev ''Index Buffer'' (Indices INDICES)) w1 of
            (Inl err, w2) \<Rightarrow>
              InitState6_return deferred (s\<lparr>vertexBuffer := Some vb, indexBuffer := None\<rparr>)
                (Some err) w2
          | (Inr ib, w2) \<Rightarrow>
              InitState6_return deferred
                (s\<lparr>vertexBuffer := Some vb, indexBuffer := Some ib,
                   numIndices := of_nat (length INDICES)\<rparr>) None w2))"

text \<open>The shader module, the pipeline layout over both bind group layouts, the pipeline.\<close>

definition InitState6_pipeline ::
  "handle list \<Rightarrow> handle \<Rightarrow> handle \<Rightarrow> handle \<Rightarrow> State6 \<Rightarrow> world \<Rightarrow> init6" where
  "InitState6_pipeline deferred dev textureBindGroupLayout cameraBindGroupLayout s w0 =
     (case gpu_try (Call_CreateShaderModule dev ''shader.wgsl'') w0 of
        (Inl err, w1) \<Rightarrow> InitState6_return deferred s (Some err) w1
      | (Inr shader, w1) \<Rightarrow>
         (case gpu_try (Call_CreatePipelineLayout dev
                          [textureBindGroupLayout, cameraBindGroupLayout]) w1 of
            (Inl err, w2) \<Rightarrow> InitState6_return (shader # deferred) s (Some err) w2
          | (Inr renderPipelineLayout, w2) \<Rightarrow>
             (case gpu_try (Call_CreateRenderPipeline dev renderPipelineLayout shader) w2 of
                (Inl err, w3) \<Rightarrow>
                  InitState6_return (renderPipelineLayout # shader # deferred)
                    (s\<lparr>renderPipeline := None\<rparr>) (Some err) w3
              | (Inr rp, w3) \<Rightarrow>
                  InitState6_buffers (renderPipelineLayout # shader # deferred) dev
                    (s\<lparr>renderPipeline := Some rp\<rparr>) w3)))"

text \<open>
  The camera, its controller, uniform and staging, the camera buffer, its bind group
  layout and its bind group.
\<close>

definition InitState6_camera :: "handle list \<Rightarrow> handle \<Rightarrow> handle \<Rightarrow> State6 \<Rightarrow> world \<Rightarrow> init6" where
  "InitState6_camera deferred dev textureBindGroupLayout s w0 =
     (let cam = \<lparr>aspect = Aspect (PhysicalSize.Width (size' s)) (PhysicalSize.Height (size' s))\<rparr>;
          s1 = s\<lparr>cameraController := Some \<lparr>isForwardPressed = False, isBackwardPressed = False,
                                            isLeftPressed = False, isRightPressed = False\<rparr>,
                 cameraUniform := Some (),
                 cameraStaging := Some \<lparr>camera = Some cam, modelRotationDeg = 0\<rparr>\<rparr>
      in case gpu_try (Call_CreateBufferInit dev ''Camera Buffer'' Uniform) w0 of
           (Inl err, w1) \<Rightarrow> InitState6_return deferred (s1\<lparr>cameraBuffer := None\<rparr>) (Some err) w1
         | (Inr cb, w1) \<Rightarrow>
            (case gpu_try (Call_CreateBindGroupLayout dev ''CameraBindGroupLayout'') w1 of
               (Inl err, w2) \<Rightarrow>
                 InitState6_return deferred (s1\<lparr>cameraBuffer := Some cb\<rparr>) (Some err) w2
             | (Inr cameraBindGroupLayout, w2) \<Rightarrow>
                (case gpu_try (Call_CreateBindGroup dev ''CameraBindGroup''
                                 cameraBindGroupLayout [Some cb]) w2 of
                   (Inl err, w3) \<Rightarrow>
                     InitState6_return (cameraBindGroupLayout # deferred)
                       (s1\<lparr>cameraBuffer := Some cb, cameraBindGroup := None\<rparr>) (Some err) w3
                 | (Inr cbg, w3) \<Rightarrow>
                     InitState6_pipeline (cameraBindGroupLayout # deferred) dev
                       textureBindGroupLayout cameraBindGroupLayout
                       (s1\<lparr>cameraBuffer := Some cb, cameraBindGroup := Some cbg\<rparr>) w3)))"

text \<open>The diffuse texture, the texture bind group layout and the diffuse bind group.\<close>

definition InitState6_diffuse ::
  "handle list \<Rightarrow> handle \<Rightarrow> handle \<Rightarrow> encoded \<Rightarrow> State6 \<Rightarrow> world \<Rightarrow> init6" where
  "InitState6_diffuse deferred dev q happyTreePng s w0 =
     (case TextureFromPNGBytes dev q happyTreePng ''happy-tree.png'' w0 of
        (tx, err1, w1) \<Rightarrow>
          (case err1 of
             Some err \<Rightarrow> InitState6_return deferred (s\<lparr>diffuseTexture6 := tx\<rparr>) (Some err) w1
           | None \<Rightarrow>
              (case gpu_try (Call_CreateBindGroupLayout dev ''TextureBindGroupLayout'') w1 of
                 (Inl err, w2) \<Rightarrow>
                   InitState6_return deferred (s\<lparr>diffuseTexture6 := tx\<rparr>) (Some err) w2
               | (Inr textureBindGroupLayout, w2) \<Rightarrow>
                  (case tx of
                     None \<Rightarrow> InitState6_panic (textureBindGroupLayout # deferred) w2
                   | Some dt \<Rightarrow>
                      (case gpu_try (Call_CreateBindGroup dev ''DiffuseBindGroup''
                                       textureBindGroupLayout [view dt, sampler dt]) w2 of
                         (Inl err, w3) \<Rightarrow>
                           InitState6_return (textureBindGroupLayout # deferred)
                             (s\<lparr>diffuseTexture6 := tx, diffuseBindGroup6 := None\<rparr>) (Some err) w3
                       | (Inr dbg, w3) \<Rightarrow>
                           InitState6_camera (textureBindGroupLayout # deferred) dev
                             textureBindGroupLayout
                             (s\<lparr>diffuseTexture6 := tx, diffuseBindGroup6 := Some dbg\<rparr>) w3)))))"

text \<open>The swap chain descriptor and the swap chain.\<close>

definition InitState6_swapChain ::
  "handle list \<Rightarrow> handle \<Rightarrow> handle \<Rightarrow> TextureFormat \<Rightarrow> encoded \<Rightarrow> State6 \<Rightarrow> world \<Rightarrow> init6" where
  "InitState6_swapChain deferred dev q fmt happyTreePng s w0 =
     (let cfg = \<lparr>Usage = TextureUsage_RenderAttachment, Format = fmt,
                 Width = PhysicalSize.Width (size' s), Height = PhysicalSize.Height (size' s),
                 PresentMode = PresentMode_Fifo, AlphaMode = 0\<rparr>
      in case CreateSwapChain dev (surface s) cfg w0 of
           (Inl err, w1) \<Rightarrow>
             InitState6_return deferred (s\<lparr>config := Some cfg, swapChain := None\<rparr>) (Some err) w1
         | (Inr sc, w1) \<Rightarrow>
             InitState6_diffuse deferred dev q happyTreePng
               (s\<lparr>config := Some cfg, swapChain := Some sc\<rparr>) w1)"

text \<open>The instance, the surface, the adapter, the device and its queue.\<close>

definition InitState6 :: "PhysicalSize \<Rightarrow> TextureFormat \<Rightarrow> encoded \<Rightarrow> world \<Rightarrow> init6" where
  "InitState6 innerSize fmt happyTreePng w0 =
     (case gpu_new Call_CreateInstance w0 of
        (instance, w1) \<Rightarrow>
          (case gpu_new (Call_CreateSurface instance) w1 of
             (surf, w2) \<Rightarrow>
               (let s1 = State6_zero\<lparr>size' := innerSize, surface := Some surf\<rparr>
                in case gpu_try (Call_RequestAdapter instance (surface s1)) w2 of
                     (Inl err, w3) \<Rightarrow> InitState6_return [instance] s1 (Some err) w3
                   | (Inr adaper, w3) \<Rightarrow>
                      (case gpu_try (Call_RequestDevice adaper) w3 of
                         (Inl err, w4) \<Rightarrow>
                           InitState6_return [adaper, instance] (s1\<lparr>device := None\<rparr>) (Some err) w4
                       | (Inr dev, w4) \<Rightarrow>
                          (case gpu_new (Call_GetQueue dev) w4 of
                             (q, w5) \<Rightarrow>
                               InitState6_swapChain [adaper, instance] dev q fmt happyTreePng
                                 (s1\<lparr>device := Some dev, queue := Some q\<rparr>)
                                 (gpu_do (Call_GetPreferredFormat surf adaper) w5))))))"

subsection \<open>\<open>main\<close>\<close>

text \<open>
  The keyboard callback stores into the controller, a panic when it is \<open>nil\<close>; other keys
  store nothing.
\<close>

definition set_key ::
  "(CameraController \<Rightarrow> CameraController) \<Rightarrow> State6 \<Rightarrow> world \<Rightarrow> unit res \<times> State6 \<times> world" where
  "set_key store s w =
     (case cameraController s of
        None \<Rightarrow> (Panic NilDeref, s, w)
      | Some controller \<Rightarrow> (Done (), s\<lparr>cameraController := Some (store controller)\<rparr>, w))"

fun callback6 :: "window_event \<Rightarrow> State6 \<Rightarrow> world \<Rightarrow> unit res \<times> State6 \<times> world" where
  "callback6 (Resized physicalWidth physicalHeight) s w =
     Resize6 \<lparr>PhysicalSize.Width = physicalWidth, PhysicalSize.Height = physicalHeight\<rparr> s w"
| "callback6 (KeyboardInput state virtualKeyCode) s w =
     (let isPressed = (state = ButtonStatePressed)
      in if virtualKeyCode = VirtualKeyW \<or> virtualKeyCode = VirtualKeyUp
         then set_key (\<lambda>c. c\<lparr>isForwardPressed := isPressed\<rparr>) s w
         else if virtualKeyCode = VirtualKeyA \<or> virtualKeyCode = VirtualKeyLeft
         then set_key (\<lambda>c. c\<lparr>isLeftPressed := isPressed\<rparr>) s w
         else if virtualKeyCode = VirtualKeyS \<or> virtualKeyCode = VirtualKeyDown
         then set_key (\<lambda>c. c\<lparr>isBackwardPressed := isPressed\<rparr>) s w
         else if virtualKeyCode = VirtualKeyD \<or> virtualKeyCode = VirtualKeyRight
         then set_key (\<lambda>c. c\<lparr>isRightPressed := isPressed\<rparr>) s w
         else (Done (), s, w))"
| "callback6 CloseRequested s w = (Done (), s, w)"

fun Poll6 :: "window_event list \<Rightarrow> State6 \<Rightarrow> world \<Rightarrow> unit res \<times> State6 \<times> world" where
  "Poll6 [] s w = (Done (), s, w)"
| "Poll6 (e # es) s w =
     (case callback6 e s w of
        (Panic p, s', w') \<Rightarrow> (Panic p, s', w')
      | (Done u, s', w') \<Rightarrow> Poll6 es s' w')"

text \<open>The body of the loop from \<open>s.Render()\<close> on.\<close>

definition frame6 :: "State6 \<Rightarrow> world \<Rightarrow> unit res \<times> State6 \<times> world" where
  "frame6 s w0 =
     (case Render6 s w0 of
        (Panic p, w1) \<Rightarrow> (Panic p, s, w1)
      | (Done err, w1) \<Rightarrow>
         (case err of
            None \<Rightarrow> (Done (), s, w1)
          | Some errstr \<Rightarrow>
             (let w2 = Println errstr w1
              in if Contains errstr ''Lost'' then Resize6 (size' s) s w2
                 else if Contains errstr ''Outdated'' then Resize6 (size' s) s w2
                 else if Contains errstr ''Timeout'' then (Done (), s, w2)
                 else (Panic (PanicErr errstr), s, w2))))"

text \<open>The loop: \<open>Poll\<close>, \<open>s.Update()\<close>, then the body above.\<close>

fun main_loop6 :: "poll list \<Rightarrow> State6 \<Rightarrow> world \<Rightarrow> exit \<times> State6 \<times> world" where
  "main_loop6 [] s w = (Running, s, w)"
| "main_loop6 ((events, alive) # polls) s w =
     (case Poll6 events s w of
        (Panic p, s1, w1) \<Rightarrow> (Crashed p, Destroy6 s1 w1)
      | (Done u, s1, w1) \<Rightarrow>
         (if \<not> alive then (Exited, Destroy6 s1 w1)
          else (case Update6 s1 w1 of
                  (Panic p, s2, w2) \<Rightarrow> (Crashed p, Destroy6 s2 w2)
                | (Done u', s2, w2) \<Rightarrow>
                   (case frame6 s2 w2 of
                      (Panic p, s3, w3) \<Rightarrow> (Crashed p, Destroy6 s3 w3)
                    | (Done u'', s3, w3) \<Rightarrow> main_loop6 polls s3 w3))))"

definition main6 ::
  "PhysicalSize \<Rightarrow> TextureFormat \<Rightarrow> encoded \<Rightarrow> poll list \<Rightarrow> world \<Rightarrow>
   exit \<times> State6 option \<times> world" where
  "main6 innerSize fmt happyTreePng polls w0 =
     (case InitState6 innerSize fmt happyTreePng w0 of
        (Panic p, w1) \<Rightarrow> (Crashed p, None, w1)
      | (Done (sp, err), w1) \<Rightarrow>
         (case err of
            Some e \<Rightarrow> (Crashed (PanicErr e), sp, w1)
          | None \<Rightarrow>
             (case sp of
                None \<Rightarrow> (Crashed NilDeref, None, w1)
              | Some s \<Rightarrow>
                 (case main_loop6 polls s w1 of (x, s', w') \<Rightarrow> (x, Some s', w')))))"


section \<open>Vocabulary of the properties\<close>

text \<open>The objects a state owns, in the order in which \<open>Destroy\<close> releases them.\<close>

definition handles :: "handle option \<Rightarrow> handle list" where
  "handles p = (case p of None \<Rightarrow> [] | Some h \<Rightarrow> [h])"

definition owned_Texture :: "Texture \<Rightarrow> handle list" where
  "owned_Texture t = handles (sampler t) @ handles (view t) @ handles (texture t)"

definition owned_Texture_field :: "Texture option \<Rightarrow> handle list" where
  "owned_Texture_field p = (case p of None \<Rightarrow> [] | Some t \<Rightarrow> owned_Texture t)"

definition owned5 :: "State5 \<Rightarrow> handle list" where
  "owned5 s =
     handles (indexBuffer s) @ handles (vertexBuffer s) @ handles (renderPipeline s) @
     handles (cartoonBindGroup s) @ owned_Texture_field (cartoonTexture s) @
     handles (diffuseBindGroup s) @ owned_Texture_field (diffuseTexture s) @
     handles (swapChain s) @ handles (device s) @ handles (surface s)"

definition owned4 :: "State4 \<Rightarrow> handle list" where
  "owned4 s =
     handles (challengeIndexBuffer s) @ handles (challengeVertexBuffer s) @
     handles (indexBuffer s) @ handles (vertexBuffer s) @ handles (renderPipeline s) @
     handles (swapChain s) @ handles (device s) @ handles (surface s)"

text \<open>A healthy backend: every call to come succeeds.\<close>

definition healthy :: "world \<Rightarrow> bool" where
  "healthy w = list_all (\<lambda>outcome. outcome = None) (script w)"

text \<open>
  The textures challenge run for \<open>n\<close> iterations of its loop in which the window
  delivers no event and stays alive, both embedded images decoding.
\<close>

definition run5 ::
  "PhysicalSize \<Rightarrow> TextureFormat \<Rightarrow> Image \<Rightarrow> Image \<Rightarrow> nat \<Rightarrow> world \<Rightarrow>
   exit \<times> State5 option \<times> world" where
  "run5 innerSize fmt img1 img2 n w =
     main5 innerSize fmt (Inr img1) (Inr img2) (replicate n ([], True)) w"

text \<open>Kinds of calls, for counting them in a log.\<close>

fun is_CreateSwapChain :: "gpu_call \<Rightarrow> bool" where
  "is_CreateSwapChain (Call_CreateSwapChain d sf c r) = True"
| "is_CreateSwapChain c = False"

fun is_GetCurrentTextureView :: "gpu_call \<Rightarrow> bool" where
  "is_GetCurrentTextureView (Call_GetCurrentTextureView sc r) = True"
| "is_GetCurrentTextureView c = False"

fun is_BeginRenderPass :: "gpu_call \<Rightarrow> bool" where
  "is_BeginRenderPass (Call_BeginRenderPass e v l st p) = True"
| "is_BeginRenderPass c = False"

fun is_Submit :: "gpu_call \<Rightarrow> bool" where
  "is_Submit (Call_Submit q cb) = True"
| "is_Submit c = False"

fun is_Present :: "gpu_call \<Rightarrow> bool" where
  "is_Present (Call_Present sc) = True"
| "is_Present c = False"

fun is_Drop :: "gpu_call \<Rightarrow> bool" where
  "is_Drop (Call_Drop h) = True"
| "is_Drop c = False"

text \<open>
  The objects a log creates that the program has to release with \<open>Drop\<close> (encoders,
  passes and command buffers are consumed by the calls that finish them, and the queue
  of a device is not an object of its own), and the objects a log drops. A log is
  \<open>settled\<close> for the objects \<open>held\<close> before it when its drops are, one for one, what it
  created and what was held.
\<close>

fun created :: "gpu_call \<Rightarrow> handle list" where
  "created (Call_CreateInstance h) = [h]"
| "created (Call_CreateSurface i h) = [h]"
| "created (Call_RequestAdapter i sf (Inr h)) = [h]"
| "created (Call_RequestDevice a (Inr h)) = [h]"
| "created (Call_CreateSwapChain d sf c (Inr h)) = [h]"
| "created (Call_CreateBindGroupLayout d l (Inr h)) = [h]"
| "created (Call_CreateTexture d l wd ht (Inr h)) = [h]"
| "created (Call_CreateView t h) = [h]"
| "created (Call_CreateSampler d (Inr h)) = [h]"
| "created (Call_CreateBindGroup d l lay es (Inr h)) = [h]"
| "created (Call_CreateShaderModule d l (Inr h)) = [h]"
| "created (Call_CreatePipelineLayout d ls (Inr h)) = [h]"
| "created (Call_CreateRenderPipeline d l sh (Inr h)) = [h]"
| "created (Call_CreateBufferInit d l c (Inr h)) = [h]"
| "created (Call_GetCurrentTextureView sc (Inr h)) = [h]"
| "created c = []"

definition acquired :: "gpu_call list \<Rightarrow> handle list" where
  "acquired cs = concat (map created cs)"

fun dropped :: "gpu_call list \<Rightarrow> handle list" where
  "dropped [] = []"
| "dropped (Call_Drop h # cs) = h # dropped cs"
| "dropped (c # cs) = dropped cs"


text \<open>The index counts of the \<open>DrawIndexed\<close> calls of a log.\<close>

fun draw_counts :: "gpu_call list \<Rightarrow> u32 list" where
  "draw_counts [] = []"
| "draw_counts (Call_DrawIndexed p n i f b fi # cs) = n # draw_counts cs"
| "draw_counts (c # cs) = draw_counts cs"

definition count_calls :: "(gpu_call \<Rightarrow> bool) \<Rightarrow> gpu_call list \<Rightarrow> nat" where
  "count_calls P cs = length (filter P cs)"

definition owned6 :: "State6 \<Rightarrow> handle list" where
  "owned6 s =
     handles (indexBuffer s) @ handles (vertexBuffer s) @ handles (renderPipeline s) @
     handles (cameraBindGroup s) @ handles (cameraBuffer s) @
     handles (diffuseBindGroup6 s) @ owned_Texture_field (diffuseTexture6 s) @
     handles (swapChain s) @ handles (device s) @ handles (surface s)"

text \<open>
  A state of the camera challenge in which \<open>Update\<close> and \<open>Render\<close> find every object
  they read through.
\<close>

definition usable6 :: "State6 \<Rightarrow> bool" where
  "usable6 s =
     (swapChain s \<noteq> None \<and> device s \<noteq> None \<and> queue s \<noteq> None \<and>
      cameraController s \<noteq> None \<and> cameraUniform s \<noteq> None \<and>
      (case cameraStaging s of None \<Rightarrow> False | Some staging \<Rightarrow> camera staging \<noteq> None))"

text \<open>The state has a camera for \<open>Resize\<close> to store the aspect ratio in.\<close>

definition has_camera :: "State6 \<Rightarrow> bool" where
  "has_camera s = (case cameraStaging s of None \<Rightarrow> False | Some staging \<Rightarrow> camera staging \<noteq> None)"

text \<open>The camera challenge run as \<open>run5\<close> runs the textures challenge.\<close>

definition run6 ::
  "PhysicalSize \<Rightarrow> TextureFormat \<Rightarrow> Image \<Rightarrow> nat \<Rightarrow> world \<Rightarrow> exit \<times> State6 option \<times> world" where
  "run6 innerSize fmt img n w = main6 innerSize fmt (Inr img) (replicate n ([], True)) w"

text \<open>The triangle fan around vertex 0: the triples \<open>(i + 1, i, 0)\<close> for \<open>i\<close> from 1 to 98.\<close>

definition fan :: "u16 list" where
  "fan = concat (map (\<lambda>i. [of_nat i + 1, of_nat i, 0]) [1..<99])"

section \<open>Example states\<close>

text \<open>
  The state a healthy \<open>InitState\<close> returns for a 640 by 480 window, and a backend that
  has handed out the twenty objects of that initialization, seen from an empty log.
\<close>

definition ready5 :: State5 where
  "ready5 =
     \<lparr>surface = Some 1, swapChain = Some 5, device = Some 3, queue = Some 4,
      config = Some \<lparr>Usage = TextureUsage_RenderAttachment, Format = 7, Width = 640,
                      Height = 480, PresentMode = PresentMode_Fifo, AlphaMode = 0\<rparr>,
      size' = \<lparr>PhysicalSize.Width = 640, PhysicalSize.Height = 480\<rparr>,
      renderPipeline = Some 17, vertexBuffer = Some 18, indexBuffer = Some 19, numIndices = 9,
      diffuseTexture = Some \<lparr>texture = Some 7, view = Some 8, sampler = Some 9\<rparr>,
      diffuseBindGroup = Some 10,
      cartoonTexture = Some \<lparr>texture = Some 11, view = Some 12, sampler = Some 13\<rparr>,
      cartoonBindGroup = Some 14, isSpacePressed = False\<rparr>"

definition started :: "string option list \<Rightarrow> world" where
  "started sc = \<lparr>script = sc, next_id = 20, gpu_log = [], stdout = [], resize_calls = []\<rparr>"

text \<open>The same for tutorial4-challenge, which creates thirteen objects.\<close>

definition ready4 :: State4 where
  "ready4 =
     \<lparr>surface = Some 1, swapChain = Some 5, device = Some 3, queue = Some 4,
      config = Some \<lparr>Usage = TextureUsage_RenderAttachment, Format = 7, Width = 640,
                      Height = 480, PresentMode = PresentMode_Fifo, AlphaMode = 1\<rparr>,
      size' = \<lparr>PhysicalSize.Width = 640, PhysicalSize.Height = 480\<rparr>,
      renderPipeline = Some 8, vertexBuffer = Some 9, indexBuffer = Some 10, numIndices = 9,
      challengeVertexBuffer = Some 11, challengeIndexBuffer = Some 12,
      numChallengeIndices = 0, useComplex = False\<rparr>"

definition started4 :: "string option list \<Rightarrow> world" where
  "started4 sc = \<lparr>script = sc, next_id = 13, gpu_log = [], stdout = [], resize_calls = []\<rparr>"

text \<open>The same for the camera challenge, which creates nineteen objects.\<close>

definition ready6 :: State6 where
  "ready6 =
     \<lparr>surface = Some 1, swapChain = Some 5, device = Some 3, queue = Some 4,
      config = Some \<lparr>Usage = TextureUsage_RenderAttachment, Format = 7, Width = 640,
                      Height = 480, PresentMode = PresentMode_Fifo, AlphaMode = 0\<rparr>,
      size' = \<lparr>PhysicalSize.Width = 640, PhysicalSize.Height = 480\<rparr>,
      renderPipeline = Some 16, vertexBuffer = Some 17, indexBuffer = Some 18, numIndices = 9,
      diffuseTexture6 = Some \<lparr>texture = Some 6, view = Some 7, sampler = Some 8\<rparr>,
      diffuseBindGroup6 = Some 10,
      cameraController = Some \<lparr>isForwardPressed = False, isBackwardPressed = False,
                                 isLeftPressed = False, isRightPressed = False\<rparr>,
      cameraUniform = Some (), cameraBuffer = Some 11, cameraBindGroup = Some 13,
      cameraStaging = Some \<lparr>camera = Some \<lparr>aspect = Aspect 640 480\<rparr>,
                              modelRotationDeg = 0\<rparr>\<rparr>"

definition started6 :: "string option list \<Rightarrow> world" where
  "started6 sc = \<lparr>script = sc, next_id = 19, gpu_log = [], stdout = [], resize_calls = []\<rparr>"


section \<open>Properties\<close>

subsection \<open>The backend\<close>

lemma gpu_try_ok:
  "next_error w = None \<Longrightarrow>
   gpu_try c w = (Inr (next_id w),
     w\<lparr>script := tl (script w), next_id := Suc (next_id w),
       gpu_log := gpu_log w @ [c (Inr (next_id w))]\<rparr>)"
  by (auto simp: next_error_def gpu_try_def fallible_def emit_def split: list.splits option.splits)

lemma gpu_try_fail:
  "next_error w = Some msg \<Longrightarrow>
   gpu_try c w = (Inl msg, w\<lparr>script := tl (script w), gpu_log := gpu_log w @ [c (Inl msg)]\<rparr>)"
  by (auto simp: next_error_def gpu_try_def fallible_def emit_def split: list.splits option.splits)

lemma next_error_upd [simp]:
  "next_error (w\<lparr>resize_calls := x\<rparr>) = next_error w"
  "next_error (w\<lparr>gpu_log := y\<rparr>) = next_error w"
  "next_error (w\<lparr>stdout := z\<rparr>) = next_error w"
  "next_error (w\<lparr>next_id := n\<rparr>) = next_error w"
  by (simp_all add: next_error_def)

lemma next_error_Drop [simp]: "next_error (Drop h w) = next_error w"
  by (simp add: Drop_def gpu_do_def emit_def)

lemma next_error_started [simp]:
  "next_error (started []) = None"
  "next_error (started (None # sc)) = None"
  "next_error (started (Some msg # sc)) = Some msg"
  by (simp_all add: next_error_def started_def)

subsection \<open>\<open>Resize\<close>\<close>

lemma Resize_zero_noop_5:
  "PhysicalSize.Width newSize = 0 \<or> PhysicalSize.Height newSize = 0 \<Longrightarrow>
   (case Resize newSize s w of
      (r, s', w') \<Rightarrow>
        r = Done () \<and> s' = s \<and> size' s' = size' s \<and> config s' = config s \<and>
        swapChain s' = swapChain s \<and> new_calls w w' = [] \<and> gpu_log w' = gpu_log w \<and>
        script w' = script w \<and> next_id w' = next_id w)"
  by (auto simp: Resize_def Let_def new_calls_def)

text \<open>
  C4. For a new size with positive width and height, on a state whose descriptor and
  device exist: when the device accepts the configuration, \<open>Resize\<close> stores the new size in
  \<open>s.size\<close> and in \<open>s.config\<close>, drops the old swap chain if there is one, and then creates
  one swap chain from the updated descriptor, which carries exactly the new width and
  height, and keeps it in \<open>s.swapChain\<close>; when the device rejects the configuration with an
  error, \<open>Resize\<close> panics with that error.
\<close>

theorem Resize_positive:
  assumes "0 < PhysicalSize.Width newSize" "0 < PhysicalSize.Height newSize"
    and "config s = Some c" "device s = Some d"
  shows "(next_error w = None \<longrightarrow>
           (case Resize newSize s w of
              (r, s', w') \<Rightarrow>
                r = Done () \<and>
                s' = s\<lparr>size' := newSize,
                       config := Some (c\<lparr>Width := PhysicalSize.Width newSize,
                                         Height := PhysicalSize.Height newSize\<rparr>),
                       swapChain := Some (next_id w)\<rparr> \<and>
                new_calls w w' =
                  (case swapChain s of None \<Rightarrow> [] | Some old \<Rightarrow> [Call_Drop old]) @
                  [Call_CreateSwapChain d (surface s)
                     (c\<lparr>Width := PhysicalSize.Width newSize,
                        Height := PhysicalSize.Height newSize\<rparr>) (Inr (next_id w))]))
       \<and> (\<forall>msg. next_error w = Some msg \<longrightarrow>
             fst (Resize newSize s w) = Panic (PanicErr msg))"
  using assms
  by (auto simp: Resize_def Let_def CreateSwapChain_def gpu_try_ok gpu_try_fail new_calls_def
      Drop_def gpu_do_def emit_def split: option.splits)

theorem Resize_positive_witness:
  "Resize \<lparr>PhysicalSize.Width = 800, PhysicalSize.Height = 600\<rparr> ready5 (started []) =
     (Done (),
      ready5\<lparr>size' := \<lparr>PhysicalSize.Width = 800, PhysicalSize.Height = 600\<rparr>,
             config := Some \<lparr>Usage = TextureUsage_RenderAttachment, Format = 7, Width = 800,
                              Height = 600, PresentMode = PresentMode_Fifo, AlphaMode = 0\<rparr>,
             swapChain := Some 20\<rparr>,
      \<lparr>script = [], next_id = 21,
       gpu_log = [Call_Drop 5,
                  Call_CreateSwapChain 3 (Some 1)
                    \<lparr>Usage = TextureUsage_RenderAttachment, Format = 7, Width = 800,
                      Height = 600, PresentMode = PresentMode_Fifo, AlphaMode = 0\<rparr> (Inr 20)],
       stdout = [],
       resize_calls = [\<lparr>PhysicalSize.Width = 800, PhysicalSize.Height = 600\<rparr>]\<rparr>)
   \<and> fst (Resize \<lparr>PhysicalSize.Width = 800, PhysicalSize.Height = 600\<rparr> ready5
            (started [Some ''device rejected''])) = Panic (PanicErr ''device rejected'')"
proof -
  let ?sz = "\<lparr>PhysicalSize.Width = 800, PhysicalSize.Height = 600\<rparr>"
  let ?c = "\<lparr>Usage = TextureUsage_RenderAttachment, Format = 7, Width = 640,
             Height = 480, PresentMode = PresentMode_Fifo, AlphaMode = 0\<rparr>"
  have pos: "0 < PhysicalSize.Width ?sz" "0 < PhysicalSize.Height ?sz" by simp_all
  have st: "config ready5 = Some ?c" "device ready5 = Some 3" by (simp_all add: ready5_def)
  note ok = Resize_positive [OF pos st, of "started []"]
  note ko = Resize_positive [OF pos st, of "started [Some ''device rejected'']"]
  have 1: "fst (Resize ?sz ready5 (started [Some ''device rejected''])) =
           Panic (PanicErr ''device rejected'')"
    using ko by simp
  have 2: "Resize ?sz ready5 (started []) =
     (Done (),
      ready5\<lparr>size' := ?sz,
             config := Some \<lparr>Usage = TextureUsage_RenderAttachment, Format = 7, Width = 800,
                              Height = 600, PresentMode = PresentMode_Fifo, AlphaMode = 0\<rparr>,
             swapChain := Some 20\<rparr>,
      \<lparr>script = [], next_id = 21,
       gpu_log = [Call_Drop 5,
                  Call_CreateSwapChain 3 (Some 1)
                    \<lparr>Usage = TextureUsage_RenderAttachment, Format = 7, Width = 800,
                      Height = 600, PresentMode = PresentMode_Fifo, AlphaMode = 0\<rparr> (Inr 20)],
       stdout = [], resize_calls = [?sz]\<rparr>)"
    by (simp add: Resize_def Let_def ready5_def started_def CreateSwapChain_def gpu_try_def
        fallible_def emit_def Drop_def gpu_do_def)
  show ?thesis using 1 2 by simp
qed

subsection \<open>The challenge geometry\<close>

text \<open>
  C10. With 100 vertices and 98 triangles the loop fills \<open>challengeIndices\<close> without
  leaving the array, with the 294 entries \<open>(i + 1, i, 0)\<close> for \<open>i\<close> from 1 to 98, and every
  entry is below \<open>numVertices\<close>, at most 99.
\<close>

theorem challengeIndices_in_bounds:
  "numVertices = 100 \<and> numTriangles = 98 \<and>
   challengeIndices = Done fan \<and> length fan = 294 \<and> length fan = 3 * numTriangles \<and>
   list_all (\<lambda>x. unat x < numVertices) fan \<and> list_all (\<lambda>x. 0 \<le> x \<and> x \<le> 99) fan"
proof -
  have 1: "challengeIndices = Done fan" by code_simp
  have 2: "length fan = 294" by code_simp
  have 3: "list_all (\<lambda>x. unat x < numVertices) fan" by code_simp
  have 4: "list_all (\<lambda>x. 0 \<le> x \<and> x \<le> 99) fan" by code_simp
  show ?thesis using 1 2 3 4 by (simp add: numVertices_def numTriangles_def)
qed

subsection \<open>\<open>Destroy\<close>\<close>

lemma fold_Drop:
  "fold Drop hs w = w\<lparr>gpu_log := gpu_log w @ map Call_Drop hs\<rparr>"
  by (induction hs arbitrary: w) (simp_all add: Drop_def gpu_do_def emit_def)

lemma new_calls_fold_Drop [simp]: "new_calls w (fold Drop hs w) = map Call_Drop hs"
  by (simp add: fold_Drop new_calls_def)

lemma drop_field_eq: "drop_field p w = (None, fold Drop (handles p) w)"
  by (simp add: drop_field_def handles_def split: option.splits)

lemma Texture_Destroy_eq:
  "Texture_Destroy t w =
     (t\<lparr>sampler := None, view := None, texture := None\<rparr>, fold Drop (owned_Texture t) w)"
  by (simp add: Texture_Destroy_def drop_field_eq owned_Texture_def)

lemma destroy_texture_field_eq:
  "destroy_texture_field p w = (None, fold Drop (owned_Texture_field p) w)"
  by (simp add: destroy_texture_field_def Texture_Destroy_eq owned_Texture_field_def
      split: option.splits)

lemma Destroy5_eq:
  "Destroy5 s w =
     (s\<lparr>indexBuffer := None, vertexBuffer := None, renderPipeline := None,
        cartoonBindGroup := None, cartoonTexture := None,
        diffuseBindGroup := None, diffuseTexture := None,
        swapChain := None, config := None, queue := None, device := None,
        surface := None\<rparr>, fold Drop (owned5 s) w)"
  by (simp add: Destroy5_def drop_field_eq destroy_texture_field_eq owned5_def)

lemma Destroy4_eq:
  "Destroy4 s w =
     (s\<lparr>challengeIndexBuffer := None, challengeVertexBuffer := None,
        indexBuffer := None, vertexBuffer := None, renderPipeline := None,
        swapChain := None, config := None, queue := None, device := None,
        surface := None\<rparr>, fold Drop (owned4 s) w)"
  by (simp add: Destroy4_def drop_field_eq owned4_def)

lemma distinct_Drops: "distinct hs \<Longrightarrow> distinct (map Call_Drop hs)"
  by (simp add: distinct_map inj_on_def)

lemma Destroy_idempotent_5:
  "(case Destroy5 s w of
      (s', w') \<Rightarrow>
        surface s' = None \<and> swapChain s' = None \<and> device s' = None \<and> queue s' = None \<and>
        config s' = None \<and> renderPipeline s' = None \<and> vertexBuffer s' = None \<and>
        indexBuffer s' = None \<and> diffuseTexture s' = None \<and> diffuseBindGroup s' = None \<and>
        cartoonTexture s' = None \<and> cartoonBindGroup s' = None \<and>
        new_calls w w' = map Call_Drop (owned5 s) \<and>
        (distinct (owned5 s) \<longrightarrow> distinct (new_calls w w')) \<and>
        Destroy5 s' w' = (s', w'))
   \<and> (case Texture_Destroy t w of
        (t', w') \<Rightarrow>
          texture t' = None \<and> view t' = None \<and> sampler t' = None \<and>
          new_calls w w' = map Call_Drop (owned_Texture t) \<and>
          (distinct (owned_Texture t) \<longrightarrow> distinct (new_calls w w')) \<and>
          Texture_Destroy t' w' = (t', w'))
   \<and> (case Destroy4 u w of
        (s', w') \<Rightarrow>
          surface s' = None \<and> swapChain s' = None \<and> device s' = None \<and> queue s' = None \<and>
          config s' = None \<and> renderPipeline s' = None \<and> vertexBuffer s' = None \<and>
          indexBuffer s' = None \<and> challengeVertexBuffer s' = None \<and>
          challengeIndexBuffer s' = None \<and>
          new_calls w w' = map Call_Drop (owned4 u) \<and>
          (distinct (owned4 u) \<longrightarrow> distinct (new_calls w w')) \<and>
          Destroy4 s' w' = (s', w'))"
proof -
  have a: "case Destroy5 s w of
      (s', w') \<Rightarrow>
        surface s' = None \<and> swapChain s' = None \<and> device s' = None \<and> queue s' = None \<and>
        config s' = None \<and> renderPipeline s' = None \<and> vertexBuffer s' = None \<and>
        indexBuffer s' = None \<and> diffuseTexture s' = None \<and> diffuseBindGroup s' = None \<and>
        cartoonTexture s' = None \<and> cartoonBindGroup s' = None \<and>
        new_calls w w' = map Call_Drop (owned5 s) \<and>
        (distinct (owned5 s) \<longrightarrow> distinct (new_calls w w')) \<and>
        Destroy5 s' w' = (s', w')"
    by (simp add: Destroy5_eq distinct_Drops)
      (simp add: owned5_def handles_def owned_Texture_field_def)
  have b: "case Texture_Destroy t w of
        (t', w') \<Rightarrow>
          texture t' = None \<and> view t' = None \<and> sampler t' = None \<and>
          new_calls w w' = map Call_Drop (owned_Texture t) \<and>
          (distinct (owned_Texture t) \<longrightarrow> distinct (new_calls w w')) \<and>
          Texture_Destroy t' w' = (t', w')"
    by (simp add: Texture_Destroy_eq distinct_Drops)
      (simp add: owned_Texture_def handles_def)
  have c: "case Destroy4 u w of
        (s', w') \<Rightarrow>
          surface s' = None \<and> swapChain s' = None \<and> device s' = None \<and> queue s' = None \<and>
          config s' = None \<and> renderPipeline s' = None \<and> vertexBuffer s' = None \<and>
          indexBuffer s' = None \<and> challengeVertexBuffer s' = None \<and>
          challengeIndexBuffer s' = None \<and>
          new_calls w w' = map Call_Drop (owned4 u) \<and>
          (distinct (owned4 u) \<longrightarrow> distinct (new_calls w w')) \<and>
          Destroy4 s' w' = (s', w')"
    by (simp add: Destroy4_eq distinct_Drops)
      (simp add: owned4_def handles_def)
  from a b c show ?thesis by blast
qed
subsection \<open>\<open>Render\<close>\<close>

lemmas gpu_defs = gpu_try_def gpu_new_def gpu_do_def fallible_def fresh_def emit_def Drop_def

lemma Render5_body_log:
  "\<exists>cs. gpu_log (snd (Render5_body sc v s w)) = gpu_log w @ cs \<and> \<not> list_ex is_Drop cs"
  by (auto simp: Render5_body_def gpu_defs Let_def split: option.splits list.splits)

lemma Render4_body_log:
  "\<exists>cs. gpu_log (snd (Render4_body sc v s w)) = gpu_log w @ cs \<and> \<not> list_ex is_Drop cs"
  by (auto simp: Render4_body_def gpu_defs Let_def split: option.splits list.splits)

lemma count_list_no_Drop: "\<not> list_ex is_Drop cs \<Longrightarrow> count_list cs (Call_Drop h) = 0"
  by (induction cs) (auto)

lemma Render5_acquired:
  assumes "swapChain s = Some sc" "next_error w = None"
  shows "\<exists>cs. new_calls w (snd (Render5 s w)) =
           Call_GetCurrentTextureView sc (Inr (next_id w)) # cs @ [Call_Drop (next_id w)] \<and>
           \<not> list_ex is_Drop cs"
proof -
  let ?w1 = "w\<lparr>script := tl (script w), next_id := Suc (next_id w),
       gpu_log := gpu_log w @ [Call_GetCurrentTextureView sc (Inr (next_id w))]\<rparr>"
  obtain cs where cs: "gpu_log (snd (Render5_body sc (next_id w) s ?w1)) = gpu_log ?w1 @ cs"
    "\<not> list_ex is_Drop cs"
    using Render5_body_log by blast
  have "new_calls w (snd (Render5 s w)) =
        Call_GetCurrentTextureView sc (Inr (next_id w)) # cs @ [Call_Drop (next_id w)]"
    using assms cs(1)
    by (simp add: Render5_def gpu_try_ok new_calls_def case_prod_unfold Drop_def gpu_do_def emit_def)
  with cs(2) show ?thesis by blast
qed

lemma Render4_acquired:
  assumes "swapChain s = Some sc" "next_error w = None"
  shows "\<exists>cs. new_calls w (snd (Render4 s w)) =
           Call_GetCurrentTextureView sc (Inr (next_id w)) # cs @ [Call_Drop (next_id w)] \<and>
           \<not> list_ex is_Drop cs"
proof -
  let ?w1 = "w\<lparr>script := tl (script w), next_id := Suc (next_id w),
       gpu_log := gpu_log w @ [Call_GetCurrentTextureView sc (Inr (next_id w))]\<rparr>"
  obtain cs where cs: "gpu_log (snd (Render4_body sc (next_id w) s ?w1)) = gpu_log ?w1 @ cs"
    "\<not> list_ex is_Drop cs"
    using Render4_body_log by blast
  have "new_calls w (snd (Render4 s w)) =
        Call_GetCurrentTextureView sc (Inr (next_id w)) # cs @ [Call_Drop (next_id w)]"
    using assms cs(1)
    by (simp add: Render4_def gpu_try_ok new_calls_def case_prod_unfold Drop_def gpu_do_def emit_def)
  with cs(2) show ?thesis by blast
qed

lemma released_once:
  assumes "calls = a # cs @ [Call_Drop v]" "\<not> list_ex is_Drop cs" "\<not> is_Drop a"
  shows "hd calls = a \<and> count_list calls (Call_Drop v) = 1 \<and> last calls = Call_Drop v"
  using assms by (auto simp: count_list_no_Drop)

lemma Render5_encoder_fails:
  assumes "swapChain s = Some sc" "device s = Some d" "script w = None # Some msg # rest"
  shows "Render5 s w =
     (Done (Some msg),
      w\<lparr>script := rest, next_id := Suc (next_id w),
        gpu_log := gpu_log w @
          [Call_GetCurrentTextureView sc (Inr (next_id w)),
           Call_CreateCommandEncoder d (Inl msg), Call_Drop (next_id w)]\<rparr>)"
  using assms by (simp add: Render5_def Render5_body_def gpu_defs)

lemma Render4_encoder_fails:
  assumes "swapChain s = Some sc" "device s = Some d" "script w = None # Some msg # rest"
  shows "Render4 s w =
     (Done (Some msg),
      w\<lparr>script := rest, next_id := Suc (next_id w),
        gpu_log := gpu_log w @
          [Call_GetCurrentTextureView sc (Inr (next_id w)),
           Call_CreateCommandEncoder d (Inl msg), Call_Drop (next_id w)]\<rparr>)"
  using assms by (simp add: Render4_def Render4_body_def gpu_defs)

lemma Render5_acquire_fails:
  assumes "swapChain s = Some sc" "next_error w = Some msg"
  shows "Render5 s w =
     (Done (Some msg),
      w\<lparr>script := tl (script w),
        gpu_log := gpu_log w @ [Call_GetCurrentTextureView sc (Inl msg)]\<rparr>)"
  using assms by (simp add: Render5_def gpu_try_fail)

lemma Render4_acquire_fails:
  assumes "swapChain s = Some sc" "next_error w = Some msg"
  shows "Render4 s w =
     (Done (Some msg),
      w\<lparr>script := tl (script w),
        gpu_log := gpu_log w @ [Call_GetCurrentTextureView sc (Inl msg)]\<rparr>)"
  using assms by (simp add: Render4_def gpu_try_fail)
lemma healthy_upd [simp]:
  "healthy (w\<lparr>next_id := n\<rparr>) = healthy w"
  "healthy (w\<lparr>gpu_log := l\<rparr>) = healthy w"
  "healthy (w\<lparr>stdout := out\<rparr>) = healthy w"
  "healthy (w\<lparr>resize_calls := rs\<rparr>) = healthy w"
  by (simp_all add: healthy_def)

lemma healthy_tl [simp]: "healthy w \<Longrightarrow> healthy (w\<lparr>script := tl (script w)\<rparr>)"
  by (cases "script w") (simp_all add: healthy_def)

lemma healthy_tl_tl [simp]: "healthy w \<Longrightarrow> healthy (w\<lparr>script := tl (tl (script w))\<rparr>)"
  using healthy_tl [of "w\<lparr>script := tl (script w)\<rparr>"] by simp

lemma healthy_next_error: "healthy w \<Longrightarrow> next_error w = None"
  by (cases "script w") (auto simp: healthy_def next_error_def split: option.splits)

lemma gpu_try_healthy:
  "healthy w \<Longrightarrow>
   gpu_try c w = (Inr (next_id w),
     w\<lparr>script := tl (script w), next_id := Suc (next_id w),
       gpu_log := gpu_log w @ [c (Inr (next_id w))]\<rparr>)"
  by (simp add: gpu_try_ok healthy_next_error)

lemma Render5_healthy:
  assumes "healthy w" "swapChain s = Some sc" "device s = Some d" "queue s = Some q"
  shows "Render5 s w =
     (Done None,
      w\<lparr>script := tl (tl (script w)), next_id := next_id w + 4,
        gpu_log := gpu_log w @
          [Call_GetCurrentTextureView sc (Inr (next_id w)),
           Call_CreateCommandEncoder d (Inr (next_id w + 1)),
           Call_BeginRenderPass (next_id w + 1) (next_id w) LoadOp_Clear StoreOp_Store (next_id w + 2),
           Call_SetPipeline (next_id w + 2) (renderPipeline s),
           Call_SetBindGroup (next_id w + 2) 0
             (if isSpacePressed s then cartoonBindGroup s else diffuseBindGroup s),
           Call_SetVertexBuffer (next_id w + 2) 0 (vertexBuffer s),
           Call_SetIndexBuffer (next_id w + 2) (indexBuffer s),
           Call_DrawIndexed (next_id w + 2) (numIndices s) 1 0 0 0,
           Call_End (next_id w + 2),
           Call_Finish (next_id w + 1) (next_id w + 3),
           Call_Submit q (next_id w + 3),
           Call_Present sc,
           Call_Drop (next_id w)]\<rparr>)"
  using assms
  by (simp add: Render5_def Render5_body_def gpu_try_healthy gpu_new_def gpu_do_def fresh_def
      emit_def Drop_def Let_def)
lemma Render4_healthy:
  assumes "healthy w" "swapChain s = Some sc" "device s = Some d" "queue s = Some q"
  shows "Render4 s w =
     (Done None,
      w\<lparr>script := tl (tl (script w)), next_id := next_id w + 4,
        gpu_log := gpu_log w @
          [Call_GetCurrentTextureView sc (Inr (next_id w)),
           Call_CreateCommandEncoder d (Inr (next_id w + 1)),
           Call_BeginRenderPass (next_id w + 1) (next_id w) LoadOp_Clear StoreOp_Store (next_id w + 2),
           Call_SetPipeline (next_id w + 2) (renderPipeline s),
           Call_SetVertexBuffer (next_id w + 2) 0
             (if useComplex s then challengeVertexBuffer s else vertexBuffer s),
           Call_SetIndexBuffer (next_id w + 2)
             (if useComplex s then challengeIndexBuffer s else indexBuffer s),
           Call_DrawIndexed (next_id w + 2)
             (if useComplex s then numChallengeIndices s else numIndices s) 1 0 0 0,
           Call_End (next_id w + 2),
           Call_Finish (next_id w + 1) (next_id w + 3),
           Call_Submit q (next_id w + 3),
           Call_Present sc,
           Call_Drop (next_id w)]\<rparr>)"
  using assms
  by (simp add: Render4_def Render4_body_def gpu_try_healthy gpu_new_def gpu_do_def fresh_def
      emit_def Drop_def Let_def)

text \<open>
  C6. In \<open>Render\<close> (textures challenge and tutorial4-challenge), on a state with a swap
  chain: when the acquisition succeeds, the calls of \<open>Render\<close> begin with the acquisition
  of the view and end with its \<open>Drop\<close>, and the view is dropped exactly once, however
  \<open>Render\<close> is left (normally, with an error, or by a panic on a \<open>nil\<close> device or
  queue); when the creation of the command encoder fails, \<open>Render\<close> returns that error
  and its calls are the acquisition, the failed creation and the \<open>Drop\<close> of the view,
  nothing being drawn; when the acquisition fails, \<open>Render\<close> returns that error and the
  failed acquisition is its only call.
\<close>

theorem Render_releases_view:
  assumes "swapChain s = Some sc" "swapChain u = Some sc'"
  shows "(next_error w = None \<longrightarrow>
            hd (new_calls w (snd (Render5 s w))) = Call_GetCurrentTextureView sc (Inr (next_id w)) \<and>
            count_list (new_calls w (snd (Render5 s w))) (Call_Drop (next_id w)) = 1 \<and>
            last (new_calls w (snd (Render5 s w))) = Call_Drop (next_id w))
       \<and> (\<forall>d msg rest. device s = Some d \<and> script w = None # Some msg # rest \<longrightarrow>
            fst (Render5 s w) = Done (Some msg) \<and>
            new_calls w (snd (Render5 s w)) =
              [Call_GetCurrentTextureView sc (Inr (next_id w)),
               Call_CreateCommandEncoder d (Inl msg), Call_Drop (next_id w)])
       \<and> (\<forall>msg. next_error w = Some msg \<longrightarrow>
            fst (Render5 s w) = Done (Some msg) \<and>
            new_calls w (snd (Render5 s w)) = [Call_GetCurrentTextureView sc (Inl msg)])
       \<and> (next_error w = None \<longrightarrow>
            hd (new_calls w (snd (Render4 u w))) = Call_GetCurrentTextureView sc' (Inr (next_id w)) \<and>
            count_list (new_calls w (snd (Render4 u w))) (Call_Drop (next_id w)) = 1 \<and>
            last (new_calls w (snd (Render4 u w))) = Call_Drop (next_id w))
       \<and> (\<forall>d msg rest. device u = Some d \<and> script w = None # Some msg # rest \<longrightarrow>
            fst (Render4 u w) = Done (Some msg) \<and>
            new_calls w (snd (Render4 u w)) =
              [Call_GetCurrentTextureView sc' (Inr (next_id w)),
               Call_CreateCommandEncoder d (Inl msg), Call_Drop (next_id w)])
       \<and> (\<forall>msg. next_error w = Some msg \<longrightarrow>
            fst (Render4 u w) = Done (Some msg) \<and>
            new_calls w (snd (Render4 u w)) = [Call_GetCurrentTextureView sc' (Inl msg)])"
proof -
  have a5: "hd (new_calls w (snd (Render5 s w))) = Call_GetCurrentTextureView sc (Inr (next_id w)) \<and>
            count_list (new_calls w (snd (Render5 s w))) (Call_Drop (next_id w)) = 1 \<and>
            last (new_calls w (snd (Render5 s w))) = Call_Drop (next_id w)"
    if ne: "next_error w = None"
  proof -
    obtain cs where "new_calls w (snd (Render5 s w)) =
           Call_GetCurrentTextureView sc (Inr (next_id w)) # cs @ [Call_Drop (next_id w)]"
      "\<not> list_ex is_Drop cs"
      using Render5_acquired [OF assms(1) ne] by blast
    then show ?thesis by (intro released_once) simp_all
  qed
  have a4: "hd (new_calls w (snd (Render4 u w))) = Call_GetCurrentTextureView sc' (Inr (next_id w)) \<and>
            count_list (new_calls w (snd (Render4 u w))) (Call_Drop (next_id w)) = 1 \<and>
            last (new_calls w (snd (Render4 u w))) = Call_Drop (next_id w)"
    if ne: "next_error w = None"
  proof -
    obtain cs where "new_calls w (snd (Render4 u w)) =
           Call_GetCurrentTextureView sc' (Inr (next_id w)) # cs @ [Call_Drop (next_id w)]"
      "\<not> list_ex is_Drop cs"
      using Render4_acquired [OF assms(2) ne] by blast
    then show ?thesis by (intro released_once) simp_all
  qed
  have b5: "fst (Render5 s w) = Done (Some msg) \<and>
            new_calls w (snd (Render5 s w)) =
              [Call_GetCurrentTextureView sc (Inr (next_id w)),
               Call_CreateCommandEncoder d (Inl msg), Call_Drop (next_id w)]"
    if "device s = Some d" "script w = None # Some msg # rest" for d msg rest
    by (simp add: Render5_encoder_fails [OF assms(1) that] new_calls_def)
  have b4: "fst (Render4 u w) = Done (Some msg) \<and>
            new_calls w (snd (Render4 u w)) =
              [Call_GetCurrentTextureView sc' (Inr (next_id w)),
               Call_CreateCommandEncoder d (Inl msg), Call_Drop (next_id w)]"
    if "device u = Some d" "script w = None # Some msg # rest" for d msg rest
    by (simp add: Render4_encoder_fails [OF assms(2) that] new_calls_def)
  have c5: "fst (Render5 s w) = Done (Some msg) \<and>
            new_calls w (snd (Render5 s w)) = [Call_GetCurrentTextureView sc (Inl msg)]"
    if "next_error w = Some msg" for msg
    by (simp add: Render5_acquire_fails [OF assms(1) that] new_calls_def)
  have c4: "fst (Render4 u w) = Done (Some msg) \<and>
            new_calls w (snd (Render4 u w)) = [Call_GetCurrentTextureView sc' (Inl msg)]"
    if "next_error w = Some msg" for msg
    by (simp add: Render4_acquire_fails [OF assms(2) that] new_calls_def)
  from a5 a4 b5 b4 c5 c4 show ?thesis by blast
qed
theorem Render_releases_view_witness:
  "count_list (new_calls (started []) (snd (Render5 ready5 (started [])))) (Call_Drop 20) = 1
   \<and> last (new_calls (started []) (snd (Render5 ready5 (started [])))) = Call_Drop 20
   \<and> new_calls (started [None, Some ''out of memory''])
         (snd (Render5 ready5 (started [None, Some ''out of memory'']))) =
       [Call_GetCurrentTextureView 5 (Inr 20), Call_CreateCommandEncoder 3 (Inl ''out of memory''),
        Call_Drop 20]
   \<and> new_calls (started [Some ''Timeout'']) (snd (Render5 ready5 (started [Some ''Timeout'']))) =
       [Call_GetCurrentTextureView 5 (Inl ''Timeout'')]
   \<and> count_list (new_calls (started []) (snd (Render4 ready4 (started [])))) (Call_Drop 20) = 1"
proof -
  have sc: "swapChain ready5 = Some 5" "swapChain ready4 = Some 5"
    by (simp_all add: ready5_def ready4_def)
  have dev: "device ready5 = Some 3" by (simp add: ready5_def)
  note ok = Render_releases_view [OF sc, of "started []"]
  note enc = Render_releases_view [OF sc, of "started [None, Some ''out of memory'']"]
  note acq = Render_releases_view [OF sc, of "started [Some ''Timeout'']"]
  have n: "next_id (started sc) = 20" for sc by (simp add: started_def)
  have s: "script (started sc) = sc" for sc by (simp add: started_def)
  from ok have 1: "count_list (new_calls (started []) (snd (Render5 ready5 (started [])))) (Call_Drop 20) = 1"
    and 2: "last (new_calls (started []) (snd (Render5 ready5 (started [])))) = Call_Drop 20"
    and 5: "count_list (new_calls (started []) (snd (Render4 ready4 (started [])))) (Call_Drop 20) = 1"
    by (simp_all add: n)
  from enc dev have 3: "new_calls (started [None, Some ''out of memory''])
         (snd (Render5 ready5 (started [None, Some ''out of memory'']))) =
       [Call_GetCurrentTextureView 5 (Inr 20), Call_CreateCommandEncoder 3 (Inl ''out of memory''),
        Call_Drop 20]"
    by (simp add: n s)
  from acq have 4: "new_calls (started [Some ''Timeout'']) (snd (Render5 ready5 (started [Some ''Timeout'']))) =
       [Call_GetCurrentTextureView 5 (Inl ''Timeout'')]"
    by simp
  from 1 2 3 4 5 show ?thesis by blast
qed
lemma list_all_tl: "list_all P xs \<Longrightarrow> list_all P (tl xs)"
  by (cases xs) simp_all

lemma InitState5_healthy:
  assumes "healthy w"
  shows "\<exists>w'. InitState5 sz fmt (Inr i1) (Inr i2) w =
     (Done (Some
       \<lparr>surface = Some (next_id w + 1), swapChain = Some (next_id w + 5),
        device = Some (next_id w + 3), queue = Some (next_id w + 4),
        config = Some \<lparr>Usage = TextureUsage_RenderAttachment, Format = fmt,
                        Width = PhysicalSize.Width sz, Height = PhysicalSize.Height sz,
                        PresentMode = PresentMode_Fifo, AlphaMode = 0\<rparr>,
        size' = sz,
        renderPipeline = Some (next_id w + 17), vertexBuffer = Some (next_id w + 18),
        indexBuffer = Some (next_id w + 19), numIndices = 9,
        diffuseTexture = Some \<lparr>texture = Some (next_id w + 7), view = Some (next_id w + 8),
                                sampler = Some (next_id w + 9)\<rparr>,
        diffuseBindGroup = Some (next_id w + 10),
        cartoonTexture = Some \<lparr>texture = Some (next_id w + 11), view = Some (next_id w + 12),
                                sampler = Some (next_id w + 13)\<rparr>,
        cartoonBindGroup = Some (next_id w + 14), isSpacePressed = False\<rparr>, None), w')
     \<and> healthy w' \<and> stdout w' = stdout w \<and> resize_calls w' = resize_calls w
     \<and> count_calls is_CreateSwapChain (new_calls w w') = 1
     \<and> count_calls is_Present (new_calls w w') = 0
     \<and> count_calls is_GetCurrentTextureView (new_calls w w') = 0
     \<and> count_calls is_BeginRenderPass (new_calls w w') = 0
     \<and> count_calls is_Submit (new_calls w w') = 0
     \<and> gpu_log w' = gpu_log w @ new_calls w w'"
  using assms
  by (simp add: InitState5_def InitState5_swapChain_def InitState5_diffuse_def
      InitState5_cartoon_def InitState5_pipeline_def InitState5_buffers_def InitState5_return_def
      TextureFromPNGBytes_def TextureFromImage_def Texture_return_def CreateSwapChain_def
      gpu_try_healthy gpu_new_def gpu_do_def fresh_def emit_def Drop_def Let_def
      healthy_def list_all_tl State5_zero_def INDICES_def VERTICES_def new_calls_def count_calls_def)
lemma count_calls_append [simp]: "count_calls P (xs @ ys) = count_calls P xs + count_calls P ys"
  by (simp add: count_calls_def)

lemma count_calls_Nil [simp]: "count_calls P [] = 0"
  by (simp add: count_calls_def)

lemma count_calls_Cons [simp]: "count_calls P (x # xs) = (if P x then 1 else 0) + count_calls P xs"
  by (simp add: count_calls_def)

lemma new_calls_append: "gpu_log w' = gpu_log w @ cs \<Longrightarrow> new_calls w w' = cs"
  by (simp add: new_calls_def)

lemma Render5_body_no_CreateSwapChain:
  "\<exists>cs. gpu_log (snd (Render5_body sc v s w)) = gpu_log w @ cs \<and> count_calls is_CreateSwapChain cs = 0"
  by (auto simp: Render5_body_def gpu_defs Let_def split: option.splits list.splits)

lemma Render5_no_CreateSwapChain:
  "count_calls is_CreateSwapChain (new_calls w (snd (Render5 s w))) = 0"
proof (cases "swapChain s")
  case None
  then show ?thesis by (simp add: Render5_def new_calls_def)
next
  case (Some sc)
  show ?thesis
  proof (cases "next_error w")
    case None
    let ?w1 = "w\<lparr>script := tl (script w), next_id := Suc (next_id w),
       gpu_log := gpu_log w @ [Call_GetCurrentTextureView sc (Inr (next_id w))]\<rparr>"
    obtain cs where cs: "gpu_log (snd (Render5_body sc (next_id w) s ?w1)) = gpu_log ?w1 @ cs"
      "count_calls is_CreateSwapChain cs = 0"
      using Render5_body_no_CreateSwapChain by blast
    have "new_calls w (snd (Render5 s w)) =
          Call_GetCurrentTextureView sc (Inr (next_id w)) # cs @ [Call_Drop (next_id w)]"
      using Some None cs(1)
      by (simp add: Render5_def gpu_try_ok new_calls_def case_prod_unfold Drop_def gpu_do_def emit_def)
    with cs(2) show ?thesis by simp
  next
    case (Some msg)
    with \<open>swapChain s = Some sc\<close> show ?thesis
      by (simp add: Render5_acquire_fails new_calls_def)
  qed
qed

lemma main_loop5_healthy:
  assumes "swapChain s = Some sc" "device s = Some d" "queue s = Some q"
  shows "healthy w \<Longrightarrow>
    \<exists>w' cs. main_loop5 (replicate n ([], True)) s w = (Running, s, w') \<and> healthy w' \<and>
      stdout w' = stdout w \<and> resize_calls w' = resize_calls w \<and>
      gpu_log w' = gpu_log w @ cs \<and> count_calls is_CreateSwapChain cs = 0 \<and>
      count_calls is_GetCurrentTextureView cs = n \<and> count_calls is_BeginRenderPass cs = n \<and>
      count_calls is_Submit cs = n \<and> count_calls is_Present cs = n"
proof (induction n arbitrary: w)
  case 0
  then show ?case by simp
next
  case (Suc n)
  define w1 where "w1 = snd (Render5 s w)"
  have r: "Render5 s w = (Done None, w1)" and h1: "healthy w1"
    and o1: "stdout w1 = stdout w" "resize_calls w1 = resize_calls w"
    and l1: "\<exists>c1. gpu_log w1 = gpu_log w @ c1 \<and> count_calls is_CreateSwapChain c1 = 0 \<and>
      count_calls is_GetCurrentTextureView c1 = 1 \<and> count_calls is_BeginRenderPass c1 = 1 \<and>
      count_calls is_Submit c1 = 1 \<and> count_calls is_Present c1 = 1"
    using Suc.prems by (simp_all add: w1_def Render5_healthy [OF _ assms])
  from l1 obtain c1 where c1: "gpu_log w1 = gpu_log w @ c1" "count_calls is_CreateSwapChain c1 = 0"
      "count_calls is_GetCurrentTextureView c1 = 1" "count_calls is_BeginRenderPass c1 = 1"
      "count_calls is_Submit c1 = 1" "count_calls is_Present c1 = 1"
    by blast
  from Suc.IH [OF h1] obtain w' cs where
    IH: "main_loop5 (replicate n ([], True)) s w1 = (Running, s, w')" "healthy w'"
      "stdout w' = stdout w1" "resize_calls w' = resize_calls w1"
      "gpu_log w' = gpu_log w1 @ cs" "count_calls is_CreateSwapChain cs = 0"
      "count_calls is_GetCurrentTextureView cs = n" "count_calls is_BeginRenderPass cs = n"
      "count_calls is_Submit cs = n" "count_calls is_Present cs = n"
    by blast
  have "main_loop5 (replicate (Suc n) ([], True)) s w = (Running, s, w')"
    using r IH(1) by (simp add: frame5_def)
  moreover have "gpu_log w' = gpu_log w @ (c1 @ cs)" using IH(5) c1(1) by simp
  ultimately show ?case using IH c1 o1 by (intro exI [of _ w'] exI [of _ "c1 @ cs"]) simp
qed
lemma run5_healthy:
  assumes "healthy w"
  shows "fst (run5 sz fmt i1 i2 n w) = Running \<and>
         fst (snd (run5 sz fmt i1 i2 n w)) \<noteq> None \<and>
         stdout (snd (snd (run5 sz fmt i1 i2 n w))) = stdout w \<and>
         resize_calls (snd (snd (run5 sz fmt i1 i2 n w))) = resize_calls w \<and>
         count_calls is_CreateSwapChain (new_calls w (snd (snd (run5 sz fmt i1 i2 n w)))) = 1 \<and>
         count_calls is_GetCurrentTextureView (new_calls w (snd (snd (run5 sz fmt i1 i2 n w)))) = n \<and>
         count_calls is_BeginRenderPass (new_calls w (snd (snd (run5 sz fmt i1 i2 n w)))) = n \<and>
         count_calls is_Submit (new_calls w (snd (snd (run5 sz fmt i1 i2 n w)))) = n \<and>
         count_calls is_Present (new_calls w (snd (snd (run5 sz fmt i1 i2 n w)))) = n"
proof -
  from InitState5_healthy [OF assms, of sz fmt i1 i2]
  obtain s w1 where
    init: "InitState5 sz fmt (Inr i1) (Inr i2) w = (Done (Some s, None), w1)"
    and s: "swapChain s = Some (next_id w + 5)" "device s = Some (next_id w + 3)"
      "queue s = Some (next_id w + 4)"
    and w1: "healthy w1" "stdout w1 = stdout w" "resize_calls w1 = resize_calls w"
      "count_calls is_CreateSwapChain (new_calls w w1) = 1"
      "count_calls is_Present (new_calls w w1) = 0"
      "count_calls is_GetCurrentTextureView (new_calls w w1) = 0"
      "count_calls is_BeginRenderPass (new_calls w w1) = 0" "count_calls is_Submit (new_calls w w1) = 0"
    and c0': "gpu_log w1 = gpu_log w @ new_calls w w1"
    by force
  define c0 where "c0 = new_calls w w1"
  from main_loop5_healthy [OF s w1(1), of n]
  obtain w' cs where
    loop: "main_loop5 (replicate n ([], True)) s w1 = (Running, s, w')"
      "stdout w' = stdout w1" "resize_calls w' = resize_calls w1"
      "gpu_log w' = gpu_log w1 @ cs" "count_calls is_CreateSwapChain cs = 0"
      "count_calls is_GetCurrentTextureView cs = n" "count_calls is_BeginRenderPass cs = n"
      "count_calls is_Submit cs = n" "count_calls is_Present cs = n"
    by blast
  have run: "run5 sz fmt i1 i2 n w = (Running, Some s, w')"
    by (simp add: run5_def main5_def init loop(1))
  have "gpu_log w' = gpu_log w @ (c0 @ cs)"
    using c0' loop(4) by (simp add: c0_def)
  then have nc: "new_calls w w' = c0 @ cs"
    by (rule new_calls_append)
  show ?thesis
    using w1 loop nc by (simp add: run c0_def)
qed
lemma Render_healthy_5:
  "(healthy w \<and> swapChain s = Some sc \<and> device s = Some d \<and> queue s = Some q \<longrightarrow>
      fst (Render5 s w) = Done None \<and>
      new_calls w (snd (Render5 s w)) =
        [Call_GetCurrentTextureView sc (Inr (next_id w)),
         Call_CreateCommandEncoder d (Inr (next_id w + 1)),
         Call_BeginRenderPass (next_id w + 1) (next_id w) LoadOp_Clear StoreOp_Store (next_id w + 2),
         Call_SetPipeline (next_id w + 2) (renderPipeline s),
         Call_SetBindGroup (next_id w + 2) 0
           (if isSpacePressed s then cartoonBindGroup s else diffuseBindGroup s),
         Call_SetVertexBuffer (next_id w + 2) 0 (vertexBuffer s),
         Call_SetIndexBuffer (next_id w + 2) (indexBuffer s),
         Call_DrawIndexed (next_id w + 2) (numIndices s) 1 0 0 0,
         Call_End (next_id w + 2),
         Call_Finish (next_id w + 1) (next_id w + 3),
         Call_Submit q (next_id w + 3),
         Call_Present sc,
         Call_Drop (next_id w)] \<and>
      count_calls is_BeginRenderPass (new_calls w (snd (Render5 s w))) = 1 \<and>
      count_calls is_Submit (new_calls w (snd (Render5 s w))) = 1 \<and>
      count_calls is_Present (new_calls w (snd (Render5 s w))) = 1)
   \<and> count_calls is_CreateSwapChain (new_calls w (snd (Render5 s w))) = 0
   \<and> (healthy w0 \<longrightarrow>
         fst (run5 sz fmt i1 i2 n w0) = Running \<and>
         fst (snd (run5 sz fmt i1 i2 n w0)) \<noteq> None \<and>
         stdout (snd (snd (run5 sz fmt i1 i2 n w0))) = stdout w0 \<and>
         resize_calls (snd (snd (run5 sz fmt i1 i2 n w0))) = resize_calls w0 \<and>
         count_calls is_CreateSwapChain (new_calls w0 (snd (snd (run5 sz fmt i1 i2 n w0)))) = 1 \<and>
         count_calls is_GetCurrentTextureView (new_calls w0 (snd (snd (run5 sz fmt i1 i2 n w0)))) = n \<and>
         count_calls is_BeginRenderPass (new_calls w0 (snd (snd (run5 sz fmt i1 i2 n w0)))) = n \<and>
         count_calls is_Submit (new_calls w0 (snd (snd (run5 sz fmt i1 i2 n w0)))) = n \<and>
         count_calls is_Present (new_calls w0 (snd (snd (run5 sz fmt i1 i2 n w0)))) = n)"
proof -
  have a: "fst (Render5 s w) = Done None \<and>
      new_calls w (snd (Render5 s w)) =
        [Call_GetCurrentTextureView sc (Inr (next_id w)),
         Call_CreateCommandEncoder d (Inr (next_id w + 1)),
         Call_BeginRenderPass (next_id w + 1) (next_id w) LoadOp_Clear StoreOp_Store (next_id w + 2),
         Call_SetPipeline (next_id w + 2) (renderPipeline s),
         Call_SetBindGroup (next_id w + 2) 0
           (if isSpacePressed s then cartoonBindGroup s else diffuseBindGroup s),
         Call_SetVertexBuffer (next_id w + 2) 0 (vertexBuffer s),
         Call_SetIndexBuffer (next_id w + 2) (indexBuffer s),
         Call_DrawIndexed (next_id w + 2) (numIndices s) 1 0 0 0,
         Call_End (next_id w + 2),
         Call_Finish (next_id w + 1) (next_id w + 3),
         Call_Submit q (next_id w + 3),
         Call_Present sc,
         Call_Drop (next_id w)] \<and>
      count_calls is_BeginRenderPass (new_calls w (snd (Render5 s w))) = 1 \<and>
      count_calls is_Submit (new_calls w (snd (Render5 s w))) = 1 \<and>
      count_calls is_Present (new_calls w (snd (Render5 s w))) = 1"
    if "healthy w" "swapChain s = Some sc" "device s = Some d" "queue s = Some q"
    by (simp add: Render5_healthy [OF that] new_calls_def)
  note b = Render5_no_CreateSwapChain [of w s]
  note c = run5_healthy [of w0 sz fmt i1 i2 n]
  from a b c show ?thesis by blast
qed

subsection \<open>The loop\<close>

lemma gpu_log_Println [simp]: "gpu_log (Println m w) = gpu_log w"
  and script_Println [simp]: "script (Println m w) = script w"
  and next_id_Println [simp]: "next_id (Println m w) = next_id w"
  and resize_calls_Println [simp]: "resize_calls (Println m w) = resize_calls w"
  and next_error_Println [simp]: "next_error (Println m w) = next_error w"
  by (simp_all add: Println_def)

lemma resize_calls_Resize:
  "resize_calls (snd (snd (Resize newSize s w))) = resize_calls w @ [newSize]"
  by (simp add: Resize_def Let_def CreateSwapChain_def gpu_defs
      split: option.splits list.splits prod.splits sum.splits)

lemma Resize_no_panic:
  assumes "PhysicalSize.Width newSize = 0 \<or> PhysicalSize.Height newSize = 0 \<or>
           (config s \<noteq> None \<and> device s \<noteq> None \<and> next_error w = None)"
  shows "fst (Resize newSize s w) = Done ()"
proof (cases "PhysicalSize.Width newSize = 0 \<or> PhysicalSize.Height newSize = 0")
  case True
  then show ?thesis by (auto simp: Resize_def Let_def)
next
  case False
  with assms obtain c d where "config s = Some c" "device s = Some d" "next_error w = None"
    by auto
  with False show ?thesis
    by (auto simp: Resize_def Let_def CreateSwapChain_def gpu_try_ok word_greater_zero_iff
        split: option.splits)
qed

lemma frame_recovery_5:
  assumes "swapChain s = Some sc" "next_error w = Some msg"
  shows "fst (Render5 s w) = Done (Some msg)
     \<and> (Contains msg ''Lost'' \<or> Contains msg ''Outdated'' \<longrightarrow>
          frame5 s w = Resize (size' s) s (Println msg (snd (Render5 s w))) \<and>
          resize_calls (snd (snd (frame5 s w))) = resize_calls w @ [size' s] \<and>
          (PhysicalSize.Width (size' s) = 0 \<or> PhysicalSize.Height (size' s) = 0 \<or>
           (config s \<noteq> None \<and> device s \<noteq> None \<and>
            next_error (w\<lparr>script := tl (script w)\<rparr>) = None) \<longrightarrow>
             fst (frame5 s w) = Done () \<and>
             main_loop5 (([], True) # polls) s w =
               main_loop5 polls (fst (snd (frame5 s w))) (snd (snd (frame5 s w)))))
     \<and> (Contains msg ''Timeout'' \<and> \<not> Contains msg ''Lost'' \<and> \<not> Contains msg ''Outdated'' \<longrightarrow>
          frame5 s w = (Done (), s, Println msg (snd (Render5 s w))) \<and>
          resize_calls (snd (snd (frame5 s w))) = resize_calls w \<and>
          main_loop5 (([], True) # polls) s w =
            main_loop5 polls s (Println msg (snd (Render5 s w))))"
proof -
  let ?w1 = "w\<lparr>script := tl (script w),
        gpu_log := gpu_log w @ [Call_GetCurrentTextureView sc (Inl msg)]\<rparr>"
  have r: "Render5 s w = (Done (Some msg), ?w1)"
    by (rule Render5_acquire_fails [OF assms])
  have a: "fst (Render5 s w) = Done (Some msg)" by (simp add: r)
  have b: "frame5 s w = Resize (size' s) s (Println msg (snd (Render5 s w)))"
    if "Contains msg ''Lost'' \<or> Contains msg ''Outdated''"
    using that by (auto simp: frame5_def r Let_def)
  have b2: "resize_calls (snd (snd (frame5 s w))) = resize_calls w @ [size' s]"
    if "Contains msg ''Lost'' \<or> Contains msg ''Outdated''"
    by (simp add: b [OF that] resize_calls_Resize r)
  have b3: "fst (frame5 s w) = Done () \<and>
            main_loop5 (([], True) # polls) s w =
              main_loop5 polls (fst (snd (frame5 s w))) (snd (snd (frame5 s w)))"
    if lo: "Contains msg ''Lost'' \<or> Contains msg ''Outdated''"
      and ok: "PhysicalSize.Width (size' s) = 0 \<or> PhysicalSize.Height (size' s) = 0 \<or>
           (config s \<noteq> None \<and> device s \<noteq> None \<and>
            next_error (w\<lparr>script := tl (script w)\<rparr>) = None)"
  proof -
    have "fst (Resize (size' s) s (Println msg ?w1)) = Done ()"
      using ok by (intro Resize_no_panic) simp
    then have d: "fst (frame5 s w) = Done ()" by (simp add: b [OF lo] r)
    then show ?thesis by (cases "frame5 s w") simp
  qed
  have c: "frame5 s w = (Done (), s, Println msg (snd (Render5 s w))) \<and>
          resize_calls (snd (snd (frame5 s w))) = resize_calls w \<and>
          main_loop5 (([], True) # polls) s w =
            main_loop5 polls s (Println msg (snd (Render5 s w)))"
    if "Contains msg ''Timeout''" "\<not> Contains msg ''Lost''" "\<not> Contains msg ''Outdated''"
    using that by (simp add: frame5_def r Let_def)
  from a b b2 b3 c show ?thesis by blast
qed
text \<open>
  C1, as stated, fails twice. A message that contains \<open>Timeout\<close> and \<open>Lost\<close> is answered
  by one call of \<open>Resize\<close>, not by none: the \<open>switch\<close> takes its first matching case.
  And after a message that contains \<open>Lost\<close> the loop does not continue when the device
  rejects the new swap chain: \<open>Resize\<close> panics.
\<close>

theorem frame_recovery_counterexample:
  "Contains ''Timeout, surface Lost'' ''Timeout''
   \<and> fst (Render5 ready5 (started [Some ''Timeout, surface Lost''])) =
       Done (Some ''Timeout, surface Lost'')
   \<and> resize_calls (snd (snd (frame5 ready5 (started [Some ''Timeout, surface Lost''])))) =
       [size' ready5]
   \<and> Contains ''Surface Lost'' ''Lost''
   \<and> fst (Render5 ready5 (started [Some ''Surface Lost'', Some ''rejected''])) =
       Done (Some ''Surface Lost'')
   \<and> fst (frame5 ready5 (started [Some ''Surface Lost'', Some ''rejected''])) =
       Panic (PanicErr ''rejected'')
   \<and> fst (main_loop5 [([], True), ([], True)] ready5
            (started [Some ''Surface Lost'', Some ''rejected''])) =
       Crashed (PanicErr ''rejected'')"
  by (simp add: frame5_def Render5_def Resize_def CreateSwapChain_def gpu_defs Println_def
      ready5_def started_def Let_def Destroy5_eq)
lemma frame5_fatal:
  assumes "Render5 s w = (Done (Some msg), w1)"
    and "\<not> Contains msg ''Lost''" "\<not> Contains msg ''Outdated''" "\<not> Contains msg ''Timeout''"
  shows "frame5 s w = (Panic (PanicErr msg), s, Println msg w1)"
  using assms by (simp add: frame5_def Let_def)

lemma frame4_fatal:
  assumes "Render4 s w = (Done (Some msg), w1)"
    and "\<not> Contains msg ''Lost''" "\<not> Contains msg ''Outdated''" "\<not> Contains msg ''Timeout''"
  shows "frame4 s w = (Panic (PanicErr msg), s, Println msg w1)"
  using assms by (simp add: frame4_def Let_def)

lemma count_calls_map_Drop [simp]:
  "count_calls is_GetCurrentTextureView (map Call_Drop hs) = 0"
  by (induction hs) simp_all

text \<open>
  C2. When \<open>Render\<close> returns an error whose message contains none of \<open>Lost\<close>,
  \<open>Outdated\<close> and \<open>Timeout\<close>, the iteration panics with that error: whatever the
  window would deliver afterwards, the run ends crashed with the error, and between the
  failed \<open>Render\<close> and the end of the process (the deferred \<open>Destroy\<close>) no further
  acquisition is attempted. The same holds in the textures challenge and in
  tutorial4-challenge.
\<close>

theorem frame_fatal:
  assumes "\<not> Contains msg ''Lost''" "\<not> Contains msg ''Outdated''" "\<not> Contains msg ''Timeout''"
  shows "(Poll5 events s0 w0 = (Done (), s, w) \<and> Render5 s w = (Done (Some msg), w1) \<longrightarrow>
            frame5 s w = (Panic (PanicErr msg), s, Println msg w1) \<and>
            main_loop5 ((events, True) # polls) s0 w0 =
              (Crashed (PanicErr msg), Destroy5 s (Println msg w1)) \<and>
            count_calls is_GetCurrentTextureView
              (gpu_log (snd (snd (main_loop5 ((events, True) # polls) s0 w0)))) =
            count_calls is_GetCurrentTextureView (gpu_log w1))
       \<and> (Poll4 events u0 w0 = (Done (), u, w) \<and> Render4 u w = (Done (Some msg), w1) \<longrightarrow>
            frame4 u w = (Panic (PanicErr msg), u, Println msg w1) \<and>
            main_loop4 ((events, True) # polls) u0 w0 =
              (Crashed (PanicErr msg), Destroy4 u (Println msg w1)) \<and>
            count_calls is_GetCurrentTextureView
              (gpu_log (snd (snd (main_loop4 ((events, True) # polls) u0 w0)))) =
            count_calls is_GetCurrentTextureView (gpu_log w1))"
proof -
  have a: "frame5 s w = (Panic (PanicErr msg), s, Println msg w1) \<and>
            main_loop5 ((events, True) # polls) s0 w0 =
              (Crashed (PanicErr msg), Destroy5 s (Println msg w1)) \<and>
            count_calls is_GetCurrentTextureView
              (gpu_log (snd (snd (main_loop5 ((events, True) # polls) s0 w0)))) =
            count_calls is_GetCurrentTextureView (gpu_log w1)"
    if p: "Poll5 events s0 w0 = (Done (), s, w)" and r: "Render5 s w = (Done (Some msg), w1)"
  proof -
    note f = frame5_fatal [OF r assms]
    have m: "main_loop5 ((events, True) # polls) s0 w0 =
              (Crashed (PanicErr msg), Destroy5 s (Println msg w1))"
      by (simp add: p f)
    show ?thesis unfolding m by (simp add: f Destroy5_eq fold_Drop)
  qed
  have b: "frame4 u w = (Panic (PanicErr msg), u, Println msg w1) \<and>
            main_loop4 ((events, True) # polls) u0 w0 =
              (Crashed (PanicErr msg), Destroy4 u (Println msg w1)) \<and>
            count_calls is_GetCurrentTextureView
              (gpu_log (snd (snd (main_loop4 ((events, True) # polls) u0 w0)))) =
            count_calls is_GetCurrentTextureView (gpu_log w1)"
    if p: "Poll4 events u0 w0 = (Done (), u, w)" and r: "Render4 u w = (Done (Some msg), w1)"
  proof -
    note f = frame4_fatal [OF r assms]
    have m: "main_loop4 ((events, True) # polls) u0 w0 =
              (Crashed (PanicErr msg), Destroy4 u (Println msg w1))"
      by (simp add: p f)
    show ?thesis unfolding m by (simp add: f Destroy4_eq fold_Drop)
  qed
  from a b show ?thesis by blast
qed

theorem frame_fatal_witness:
  "fst (main_loop5 [([], True), ([], True)] ready5 (started [Some ''out of memory''])) =
     Crashed (PanicErr ''out of memory'')
   \<and> count_calls is_GetCurrentTextureView
        (gpu_log (snd (snd (main_loop5 [([], True), ([], True)] ready5
           (started [Some ''out of memory''])))))
      = 1
   \<and> fst (main_loop4 [([], True), ([], True)] ready4 (started [None, Some ''validation error''])) =
     Crashed (PanicErr ''validation error'')"
proof -
  have n: "\<not> Contains ''out of memory'' ''Lost''" "\<not> Contains ''out of memory'' ''Outdated''"
    "\<not> Contains ''out of memory'' ''Timeout''" by simp_all
  have n4: "\<not> Contains ''validation error'' ''Lost''" "\<not> Contains ''validation error'' ''Outdated''"
    "\<not> Contains ''validation error'' ''Timeout''" by simp_all
  let ?w1 = "(started [Some ''out of memory''])\<lparr>script := [],
      gpu_log := [Call_GetCurrentTextureView 5 (Inl ''out of memory'')]\<rparr>"
  let ?w4 = "(started [None, Some ''validation error''])\<lparr>script := [], next_id := 21,
      gpu_log := [Call_GetCurrentTextureView 5 (Inr 20),
                  Call_CreateCommandEncoder 3 (Inl ''validation error''), Call_Drop 20]\<rparr>"
  have r5: "Render5 ready5 (started [Some ''out of memory'']) = (Done (Some ''out of memory''), ?w1)"
    by (simp add: Render5_def gpu_defs ready5_def started_def)
  have r4: "Render4 ready4 (started [None, Some ''validation error'']) =
      (Done (Some ''validation error''), ?w4)"
    by (simp add: Render4_def Render4_body_def gpu_defs ready4_def started_def)
  have p5: "Poll5 [] ready5 (started [Some ''out of memory'']) =
      (Done (), ready5, started [Some ''out of memory''])" by simp
  have p4: "Poll4 [] ready4 (started [None, Some ''validation error'']) =
      (Done (), ready4, started [None, Some ''validation error''])" by simp
  note t5 = frame_fatal [OF n, where events = "[]" and ?s0.0 = ready5 and s = ready5
      and ?w0.0 = "started [Some ''out of memory'']" and w = "started [Some ''out of memory'']"
      and ?w1.0 = ?w1 and polls = "[([], True)]"]
  note t4 = frame_fatal [OF n4, where events = "[]" and ?u0.0 = ready4 and u = ready4
      and ?w0.0 = "started [None, Some ''validation error'']"
      and w = "started [None, Some ''validation error'']"
      and ?w1.0 = ?w4 and polls = "[([], True)]"]
  from t5 p5 r5 have 1:
    "main_loop5 [([], True), ([], True)] ready5 (started [Some ''out of memory'']) =
      (Crashed (PanicErr ''out of memory''), Destroy5 ready5 (Println ''out of memory'' ?w1))"
    "count_calls is_GetCurrentTextureView
        (gpu_log (snd (snd (main_loop5 [([], True), ([], True)] ready5
           (started [Some ''out of memory''])))))
      = count_calls is_GetCurrentTextureView (gpu_log ?w1)"
    by blast+
  from t4 p4 r4 have 2:
    "main_loop4 [([], True), ([], True)] ready4 (started [None, Some ''validation error'']) =
      (Crashed (PanicErr ''validation error''), Destroy4 ready4 (Println ''validation error'' ?w4))"
    by blast
  show ?thesis unfolding 1 2 by (simp add: Destroy5_eq fold_Drop)
qed

subsection \<open>The challenge index count\<close>

lemma Resize_numChallengeIndices:
  "numChallengeIndices (fst (snd (Resize sz u w))) = numChallengeIndices u"
  by (simp add: Resize_def Let_def split: option.splits prod.splits sum.splits)

lemma callback4_numChallengeIndices:
  "numChallengeIndices (fst (snd (callback4 e u w))) = numChallengeIndices u"
  by (cases e) (simp_all add: Resize_numChallengeIndices)

lemma Poll4_numChallengeIndices:
  "numChallengeIndices (fst (snd (Poll4 es u w))) = numChallengeIndices u"
proof (induction es arbitrary: u w)
  case Nil
  show ?case by simp
next
  case (Cons e es)
  obtain r u' w' where c: "callback4 e u w = (r, u', w')" by (cases "callback4 e u w")
  with callback4_numChallengeIndices [of e u w]
  have "numChallengeIndices u' = numChallengeIndices u" by simp
  with c Cons.IH [of u' w'] show ?case by (cases r) simp_all
qed

lemma frame4_numChallengeIndices:
  "numChallengeIndices (fst (snd (frame4 u w))) = numChallengeIndices u"
  by (simp add: frame4_def Let_def Resize_numChallengeIndices
      split: prod.splits res.splits option.splits)

lemma Destroy4_numChallengeIndices:
  "numChallengeIndices (fst (Destroy4 u w)) = numChallengeIndices u"
  by (simp add: Destroy4_eq)

lemma main_loop4_numChallengeIndices:
  "numChallengeIndices (fst (snd (main_loop4 polls u w))) = numChallengeIndices u"
proof (induction polls arbitrary: u w)
  case Nil
  show ?case by simp
next
  case (Cons p polls)
  obtain events alive where p: "p = (events, alive)" by (cases p)
  obtain r1 u1 w1 where a: "Poll4 events u w = (r1, u1, w1)" by (cases "Poll4 events u w")
  with Poll4_numChallengeIndices [of events u w]
  have n1: "numChallengeIndices u1 = numChallengeIndices u" by simp
  obtain r2 u2 w2 where b: "frame4 u1 w1 = (r2, u2, w2)" by (cases "frame4 u1 w1")
  with frame4_numChallengeIndices [of u1 w1]
  have n2: "numChallengeIndices u2 = numChallengeIndices u1" by simp
  show ?case
    using a b n1 n2 Cons.IH [of u2 w2]
    by (cases r1; cases r2; cases alive)
      (simp_all add: p Destroy4_numChallengeIndices fst_def [symmetric] case_prod_unfold)
qed
lemma InitState4_return_num:
  "InitState4_return deferred s err w = (Done (Some s', e), w') \<Longrightarrow> s' = s \<and> err = None \<and> e = None"
  by (auto simp: InitState4_return_def Let_def split: option.splits prod.splits)

lemma InitState4_challenge_num:
  "InitState4_challenge deferred dev s w = (Done (Some s', e), w') \<Longrightarrow>
   numChallengeIndices s' = numChallengeIndices s"
  by (auto simp: InitState4_challenge_def InitState4_panic_def
      split: res.splits prod.splits sum.splits dest!: InitState4_return_num)

lemma InitState4_buffers_num:
  "InitState4_buffers deferred dev s w = (Done (Some s', e), w') \<Longrightarrow>
   numChallengeIndices s' = numChallengeIndices s"
  by (auto simp: InitState4_buffers_def
      split: prod.splits sum.splits dest!: InitState4_return_num InitState4_challenge_num)

lemma InitState4_pipeline_num:
  "InitState4_pipeline deferred dev s w = (Done (Some s', e), w') \<Longrightarrow>
   numChallengeIndices s' = numChallengeIndices s"
  by (auto simp: InitState4_pipeline_def
      split: prod.splits sum.splits dest!: InitState4_return_num InitState4_buffers_num)

lemma InitState4_swapChain_num:
  "InitState4_swapChain deferred dev caps s w = (Done (Some s', e), w') \<Longrightarrow>
   numChallengeIndices s' = numChallengeIndices s"
  by (auto simp: InitState4_swapChain_def InitState4_panic_def Let_def
      split: list.splits prod.splits sum.splits dest!: InitState4_return_num InitState4_pipeline_num)

lemma InitState4_num:
  "InitState4 sz caps w = (Done (Some s', e), w') \<Longrightarrow> numChallengeIndices s' = 0"
  by (auto simp: InitState4_def Let_def State4_zero_def
      split: prod.splits sum.splits dest!: InitState4_return_num InitState4_swapChain_num)

lemma main4_num:
  assumes "main4 sz caps polls w = (x, Some s', w')"
  shows "numChallengeIndices s' = 0"
proof -
  from assms consider
      (failed) e w1 where "InitState4 sz caps w = (Done (Some s', Some e), w1)"
    | (looped) s w1 where "InitState4 sz caps w = (Done (Some s, None), w1)"
        "main_loop4 polls s w1 = (x, s', w')"
    by (auto simp: main4_def split: prod.splits res.splits option.splits)
  then show ?thesis
  proof cases
    case failed
    then show ?thesis by (rule InitState4_num)
  next
    case looped
    with main_loop4_numChallengeIndices [of polls s w1] InitState4_num [OF looped(1)]
    show ?thesis by simp
  qed
qed
lemma draw_counts_append [simp]: "draw_counts (xs @ ys) = draw_counts xs @ draw_counts ys"
  by (induction xs rule: draw_counts.induct) simp_all

lemma Render4_body_draws:
  "useComplex s \<Longrightarrow>
   \<exists>cs. gpu_log (snd (Render4_body sc v s w)) = gpu_log w @ cs \<and>
        (draw_counts cs = [] \<or> draw_counts cs = [numChallengeIndices s])"
  by (auto simp: Render4_body_def gpu_defs Let_def split: option.splits list.splits)

lemma Render4_draws:
  assumes "useComplex u"
  shows "draw_counts (new_calls w (snd (Render4 u w))) = [] \<or>
         draw_counts (new_calls w (snd (Render4 u w))) = [numChallengeIndices u]"
proof (cases "swapChain u")
  case None
  then show ?thesis by (simp add: Render4_def new_calls_def)
next
  case (Some sc)
  show ?thesis
  proof (cases "next_error w")
    case None
    let ?w1 = "w\<lparr>script := tl (script w), next_id := Suc (next_id w),
       gpu_log := gpu_log w @ [Call_GetCurrentTextureView sc (Inr (next_id w))]\<rparr>"
    obtain cs where cs: "gpu_log (snd (Render4_body sc (next_id w) u ?w1)) = gpu_log ?w1 @ cs"
      "draw_counts cs = [] \<or> draw_counts cs = [numChallengeIndices u]"
      using Render4_body_draws [OF assms] by blast
    have "new_calls w (snd (Render4 u w)) =
          Call_GetCurrentTextureView sc (Inr (next_id w)) # cs @ [Call_Drop (next_id w)]"
      using Some None cs(1)
      by (simp add: Render4_def gpu_try_ok new_calls_def case_prod_unfold Drop_def gpu_do_def emit_def)
    with cs(2) show ?thesis by auto
  next
    case (Some msg)
    with \<open>swapChain u = Some sc\<close> show ?thesis
      by (simp add: Render4_acquire_fails new_calls_def)
  qed
qed

lemma InitState4_healthy:
  assumes "healthy w" "Formats caps = f # fs" "PresentModes caps = pm # pms"
    "AlphaModes caps = am # ams"
  shows "fst (InitState4 sz caps w) =
     Done (Some
       \<lparr>surface = Some (next_id w + 1), swapChain = Some (next_id w + 5),
        device = Some (next_id w + 3), queue = Some (next_id w + 4),
        config = Some \<lparr>Usage = TextureUsage_RenderAttachment, Format = f,
                        Width = PhysicalSize.Width sz, Height = PhysicalSize.Height sz,
                        PresentMode = pm, AlphaMode = am\<rparr>,
        size' = sz,
        renderPipeline = Some (next_id w + 8), vertexBuffer = Some (next_id w + 9),
        indexBuffer = Some (next_id w + 10), numIndices = 9,
        challengeVertexBuffer = Some (next_id w + 11),
        challengeIndexBuffer = Some (next_id w + 12),
        numChallengeIndices = 0, useComplex = False\<rparr>, None)"
proof -
  have ci: "challengeIndices = Done fan" by code_simp
  show ?thesis
    using assms
    by (simp add: InitState4_def InitState4_swapChain_def InitState4_pipeline_def
      InitState4_buffers_def InitState4_challenge_def InitState4_return_def ci
      CreateSwapChain_def
      gpu_try_healthy gpu_new_def gpu_do_def fresh_def emit_def Drop_def Let_def
      healthy_def list_all_tl State4_zero_def INDICES_def VERTICES_def)
qed
text \<open>
  C9. In tutorial4-challenge nothing assigns \<open>numChallengeIndices\<close>: a healthy
  \<open>InitState\<close> returns a state whose challenge vertex and index buffers exist and whose
  \<open>numChallengeIndices\<close> is 0; every state \<open>InitState\<close> returns has it 0; the callbacks,
  the loop body and the loop leave it as it is, so it is 0 in the state of every run of
  \<open>main\<close>. A \<open>Render\<close> with \<open>useComplex\<close> set issues no \<open>DrawIndexed\<close> other than one
  with index count \<open>numChallengeIndices\<close>; on a healthy backend, with the count 0, it binds
  the challenge vertex and index buffers and draws 0 indices.
\<close>

theorem numChallengeIndices_never_set:
  "(healthy w0 \<and> Formats caps = f # fs \<and> PresentModes caps = pm # pms \<and>
    AlphaModes caps = am # ams \<longrightarrow>
      (\<exists>s. fst (InitState4 sz caps w0) = Done (Some s, None) \<and>
           challengeVertexBuffer s = Some (next_id w0 + 11) \<and>
           challengeIndexBuffer s = Some (next_id w0 + 12) \<and>
           numChallengeIndices s = 0))
   \<and> (\<forall>s e w1. InitState4 sz caps w0 = (Done (Some s, e), w1) \<longrightarrow> numChallengeIndices s = 0)
   \<and> numChallengeIndices (fst (snd (Poll4 events u w))) = numChallengeIndices u
   \<and> numChallengeIndices (fst (snd (frame4 u w))) = numChallengeIndices u
   \<and> numChallengeIndices (fst (snd (main_loop4 polls u w))) = numChallengeIndices u
   \<and> (\<forall>x s' w'. main4 sz caps polls w0 = (x, Some s', w') \<longrightarrow> numChallengeIndices s' = 0)
   \<and> (useComplex u \<longrightarrow>
         draw_counts (new_calls w (snd (Render4 u w))) = [] \<or>
         draw_counts (new_calls w (snd (Render4 u w))) = [numChallengeIndices u])
   \<and> (useComplex u \<and> numChallengeIndices u = 0 \<and> healthy w \<and>
       swapChain u = Some sc \<and> device u = Some d \<and> queue u = Some q \<longrightarrow>
         fst (Render4 u w) = Done None \<and>
         new_calls w (snd (Render4 u w)) =
           [Call_GetCurrentTextureView sc (Inr (next_id w)),
            Call_CreateCommandEncoder d (Inr (next_id w + 1)),
            Call_BeginRenderPass (next_id w + 1) (next_id w) LoadOp_Clear StoreOp_Store (next_id w + 2),
            Call_SetPipeline (next_id w + 2) (renderPipeline u),
            Call_SetVertexBuffer (next_id w + 2) 0 (challengeVertexBuffer u),
            Call_SetIndexBuffer (next_id w + 2) (challengeIndexBuffer u),
            Call_DrawIndexed (next_id w + 2) 0 1 0 0 0,
            Call_End (next_id w + 2),
            Call_Finish (next_id w + 1) (next_id w + 3),
            Call_Submit q (next_id w + 3),
            Call_Present sc,
            Call_Drop (next_id w)])"
proof -
  have a: "\<exists>s. fst (InitState4 sz caps w0) = Done (Some s, None) \<and>
           challengeVertexBuffer s = Some (next_id w0 + 11) \<and>
           challengeIndexBuffer s = Some (next_id w0 + 12) \<and>
           numChallengeIndices s = 0"
    if "healthy w0" "Formats caps = f # fs" "PresentModes caps = pm # pms"
      "AlphaModes caps = am # ams"
    by (simp add: InitState4_healthy [OF that])
  have b: "numChallengeIndices s = 0" if "InitState4 sz caps w0 = (Done (Some s, e), w1)"
    for s e w1 using that by (rule InitState4_num)
  note c = Poll4_numChallengeIndices [of events u w]
  note d = frame4_numChallengeIndices [of u w]
  note e = main_loop4_numChallengeIndices [of polls u w]
  have f: "numChallengeIndices s' = 0" if "main4 sz caps polls w0 = (x, Some s', w')"
    for x s' w' using that by (rule main4_num)
  have g: "draw_counts (new_calls w (snd (Render4 u w))) = [] \<or>
         draw_counts (new_calls w (snd (Render4 u w))) = [numChallengeIndices u]"
    if "useComplex u" using that by (rule Render4_draws)
  have h: "fst (Render4 u w) = Done None \<and>
         new_calls w (snd (Render4 u w)) =
           [Call_GetCurrentTextureView sc (Inr (next_id w)),
            Call_CreateCommandEncoder d (Inr (next_id w + 1)),
            Call_BeginRenderPass (next_id w + 1) (next_id w) LoadOp_Clear StoreOp_Store (next_id w + 2),
            Call_SetPipeline (next_id w + 2) (renderPipeline u),
            Call_SetVertexBuffer (next_id w + 2) 0 (challengeVertexBuffer u),
            Call_SetIndexBuffer (next_id w + 2) (challengeIndexBuffer u),
            Call_DrawIndexed (next_id w + 2) 0 1 0 0 0,
            Call_End (next_id w + 2),
            Call_Finish (next_id w + 1) (next_id w + 3),
            Call_Submit q (next_id w + 3),
            Call_Present sc,
            Call_Drop (next_id w)]"
    if "useComplex u" "numChallengeIndices u = 0" "healthy w"
      "swapChain u = Some sc" "device u = Some d" "queue u = Some q"
    using that(1,2) by (simp add: Render4_healthy [OF that(3-6)] new_calls_def)
  from a b c d e f g h show ?thesis by blast
qed

theorem numChallengeIndices_never_set_witness:
  "numChallengeIndices (ready4\<lparr>useComplex := True\<rparr>) = 0
   \<and> fst (Render4 (ready4\<lparr>useComplex := True\<rparr>) (started4 [])) = Done None
   \<and> new_calls (started4 []) (snd (Render4 (ready4\<lparr>useComplex := True\<rparr>) (started4 []))) =
       [Call_GetCurrentTextureView 5 (Inr 13), Call_CreateCommandEncoder 3 (Inr 14),
        Call_BeginRenderPass 14 13 LoadOp_Clear StoreOp_Store 15,
        Call_SetPipeline 15 (Some 8), Call_SetVertexBuffer 15 0 (Some 11),
        Call_SetIndexBuffer 15 (Some 12), Call_DrawIndexed 15 0 1 0 0 0,
        Call_End 15, Call_Finish 14 16, Call_Submit 4 16, Call_Present 5, Call_Drop 13]
   \<and> (\<exists>s. fst (InitState4 \<lparr>PhysicalSize.Width = 640, PhysicalSize.Height = 480\<rparr>
              \<lparr>Formats = [7], PresentModes = [PresentMode_Fifo], AlphaModes = [1]\<rparr> (boot [])) =
            Done (Some s, None) \<and>
          challengeVertexBuffer s = Some 11 \<and> challengeIndexBuffer s = Some 12 \<and>
          numChallengeIndices s = 0)"
proof -
  let ?u = "ready4\<lparr>useComplex := True\<rparr>"
  let ?caps = "\<lparr>Formats = [7], PresentModes = [PresentMode_Fifo], AlphaModes = [1]\<rparr>"
  note th = numChallengeIndices_never_set [where u = ?u and w = "started4 []" and sc = 5 and d = 3
      and q = 4 and ?w0.0 = "boot []" and caps = ?caps and f = 7 and fs = "[]"
      and pm = PresentMode_Fifo and pms = "[]" and am = 1 and ams = "[]"
      and sz = "\<lparr>PhysicalSize.Width = 640, PhysicalSize.Height = 480\<rparr>"]
  have p: "useComplex ?u" "numChallengeIndices ?u = 0" "healthy (started4 [])"
    "swapChain ?u = Some 5" "device ?u = Some 3" "queue ?u = Some 4"
    "healthy (boot [])" "Formats ?caps = [7]" "PresentModes ?caps = [PresentMode_Fifo]"
    "AlphaModes ?caps = [1]"
    by (simp_all add: ready4_def healthy_def started4_def boot_def)
  have n: "next_id (started4 []) = 13" "next_id (boot []) = 0"
    by (simp_all add: started4_def boot_def)
  from th p have
    1: "fst (Render4 ?u (started4 [])) = Done None" and
    2: "new_calls (started4 []) (snd (Render4 ?u (started4 []))) =
           [Call_GetCurrentTextureView 5 (Inr (next_id (started4 []))),
            Call_CreateCommandEncoder 3 (Inr (next_id (started4 []) + 1)),
            Call_BeginRenderPass (next_id (started4 []) + 1) (next_id (started4 [])) LoadOp_Clear
              StoreOp_Store (next_id (started4 []) + 2),
            Call_SetPipeline (next_id (started4 []) + 2) (renderPipeline ?u),
            Call_SetVertexBuffer (next_id (started4 []) + 2) 0 (challengeVertexBuffer ?u),
            Call_SetIndexBuffer (next_id (started4 []) + 2) (challengeIndexBuffer ?u),
            Call_DrawIndexed (next_id (started4 []) + 2) 0 1 0 0 0,
            Call_End (next_id (started4 []) + 2),
            Call_Finish (next_id (started4 []) + 1) (next_id (started4 []) + 3),
            Call_Submit 4 (next_id (started4 []) + 3),
            Call_Present 5,
            Call_Drop (next_id (started4 []))]" and
    3: "\<exists>s. fst (InitState4 \<lparr>PhysicalSize.Width = 640, PhysicalSize.Height = 480\<rparr> ?caps (boot [])) =
            Done (Some s, None) \<and>
          challengeVertexBuffer s = Some (next_id (boot []) + 11) \<and>
          challengeIndexBuffer s = Some (next_id (boot []) + 12) \<and>
          numChallengeIndices s = 0"
    by blast+
  from 1 2 3 p(2) show ?thesis by (simp add: n ready4_def)
qed

subsection \<open>Initialization\<close>

lemma dropped_append [simp]: "dropped (xs @ ys) = dropped xs @ dropped ys"
  by (induction xs rule: dropped.induct) simp_all

lemma dropped_map_Drop [simp]: "dropped (map Call_Drop hs) = hs"
  by (induction hs) simp_all

lemma acquired_simps [simp]:
  "acquired [] = []"
  "acquired (c # cs) = created c @ acquired cs"
  "acquired (xs @ ys) = acquired xs @ acquired ys"
  by (simp_all add: acquired_def)

lemma acquired_map_Drop [simp]: "acquired (map Call_Drop hs) = []"
  by (induction hs) simp_all



lemma gpu_log_gpu_do [simp]: "gpu_log (gpu_do c w) = gpu_log w @ [c]"
  by (simp add: gpu_do_def emit_def)

lemma gpu_log_fold_Drop [simp]: "gpu_log (fold Drop hs w) = gpu_log w @ map Call_Drop hs"
  by (simp add: fold_Drop)

text \<open>The log of \<open>w'\<close> continues the log of \<open>w\<close>.\<close>

lemma new_calls_step:
  assumes "gpu_log w1 = gpu_log w @ a" "gpu_log w' = gpu_log w1 @ b"
  shows "new_calls w w' = a @ b" "new_calls w1 w' = b"
  using assms by (simp_all add: new_calls_def)














section \<open>Properties of the camera challenge, and of all three programs\<close>

subsection \<open>\<open>Resize\<close>\<close>

lemma Resize_zero_noop_6:
  "PhysicalSize.Width newSize = 0 \<or> PhysicalSize.Height newSize = 0 \<Longrightarrow>
   (case Resize6 newSize s w of
      (r, s', w') \<Rightarrow>
        r = Done () \<and> s' = s \<and> size' s' = size' s \<and> config s' = config s \<and>
        swapChain s' = swapChain s \<and> new_calls w w' = [] \<and> gpu_log w' = gpu_log w \<and>
        script w' = script w \<and> next_id w' = next_id w)"
  by (auto simp: Resize6_def Let_def new_calls_def)

text \<open>
  C3. When the new width or the new height is 0, \<open>Resize\<close> returns normally and changes
  nothing: the state (so \<open>s.size\<close>, every field of \<open>s.config\<close>, \<open>s.swapChain\<close> and, in the
  camera challenge, the camera) is the one it was given, and the backend has received
  no call, handed out no object and consumed no outcome. This holds for the \<open>Resize\<close> of
  the textures challenge and tutorial4-challenge, and for the \<open>Resize\<close> of
  tutorial6-challenge.
\<close>

theorem Resize_zero_noop:
  "PhysicalSize.Width newSize = 0 \<or> PhysicalSize.Height newSize = 0 \<Longrightarrow>
   (case Resize newSize s w of
      (r, s', w') \<Rightarrow>
        r = Done () \<and> s' = s \<and> size' s' = size' s \<and> config s' = config s \<and>
        swapChain s' = swapChain s \<and> new_calls w w' = [] \<and> gpu_log w' = gpu_log w \<and>
        script w' = script w \<and> next_id w' = next_id w)
   \<and> (case Resize6 newSize v w of
      (r, v', w') \<Rightarrow>
        r = Done () \<and> v' = v \<and> size' v' = size' v \<and> config v' = config v \<and>
        swapChain v' = swapChain v \<and> cameraStaging v' = cameraStaging v \<and>
        new_calls w w' = [] \<and> gpu_log w' = gpu_log w \<and>
        script w' = script w \<and> next_id w' = next_id w)"
  using Resize_zero_noop_5 [of newSize s w] Resize_zero_noop_6 [of newSize v w]
  by (auto simp: case_prod_unfold)

theorem Resize_zero_noop_witness:
  "(case Resize \<lparr>PhysicalSize.Width = 0, PhysicalSize.Height = 480\<rparr> ready5 (started []) of
      (r, s', w') \<Rightarrow>
        r = Done () \<and> s' = ready5 \<and> size' s' = size' ready5 \<and> config s' = config ready5 \<and>
        swapChain s' = swapChain ready5 \<and> new_calls (started []) w' = [] \<and>
        gpu_log w' = gpu_log (started []) \<and> script w' = script (started []) \<and>
        next_id w' = next_id (started []))
   \<and> (case Resize6 \<lparr>PhysicalSize.Width = 0, PhysicalSize.Height = 480\<rparr> ready6 (started []) of
      (r, v', w') \<Rightarrow>
        r = Done () \<and> v' = ready6 \<and> size' v' = size' ready6 \<and> config v' = config ready6 \<and>
        swapChain v' = swapChain ready6 \<and> cameraStaging v' = cameraStaging ready6 \<and>
        new_calls (started []) w' = [] \<and>
        gpu_log w' = gpu_log (started []) \<and> script w' = script (started []) \<and>
        next_id w' = next_id (started []))"
  using Resize_zero_noop [of "\<lparr>PhysicalSize.Width = 0, PhysicalSize.Height = 480\<rparr>"
      ready5 "started []" ready6]
  by simp

subsection \<open>\<open>Destroy\<close>\<close>

lemma Destroy6_eq:
  "Destroy6 s w =
     (s\<lparr>indexBuffer := None, vertexBuffer := None, renderPipeline := None,
        cameraBindGroup := None, cameraBuffer := None, cameraStaging := None,
        cameraUniform := None, cameraController := None,
        diffuseBindGroup6 := None, diffuseTexture6 := None,
        swapChain := None, config := None, queue := None, device := None,
        surface := None\<rparr>, fold Drop (owned6 s) w)"
  by (simp add: Destroy6_def drop_field_eq destroy_texture_field_eq owned6_def)

lemma Destroy_idempotent_6:
  "(case Destroy6 v w of
      (v', w') \<Rightarrow>
        surface v' = None \<and> swapChain v' = None \<and> device v' = None \<and> queue v' = None \<and>
        config v' = None \<and> renderPipeline v' = None \<and> vertexBuffer v' = None \<and>
        indexBuffer v' = None \<and> diffuseTexture6 v' = None \<and> diffuseBindGroup6 v' = None \<and>
        cameraController v' = None \<and> cameraUniform v' = None \<and> cameraBuffer v' = None \<and>
        cameraBindGroup v' = None \<and> cameraStaging v' = None \<and>
        new_calls w w' = map Call_Drop (owned6 v) \<and>
        (distinct (owned6 v) \<longrightarrow> distinct (new_calls w w')) \<and>
        Destroy6 v' w' = (v', w'))"
  by (simp add: Destroy6_eq distinct_Drops)
    (simp add: owned6_def handles_def owned_Texture_field_def)

text \<open>
  C7. \<open>Destroy\<close> cannot fail. It leaves every handle field \<open>nil\<close>; the calls it makes are
  one \<open>Drop\<close> for each field that was not \<open>nil\<close>, so no object is dropped twice when the
  fields hold different objects; and calling it again on the result makes no call and
  changes nothing. This holds for \<open>State.Destroy\<close> of the textures challenge, of
  tutorial4-challenge and of tutorial6-challenge, and for \<open>Texture.Destroy\<close>.
\<close>

theorem Destroy_idempotent:
  "(case Destroy5 s w of
      (s', w') \<Rightarrow>
        surface s' = None \<and> swapChain s' = None \<and> device s' = None \<and> queue s' = None \<and>
        config s' = None \<and> renderPipeline s' = None \<and> vertexBuffer s' = None \<and>
        indexBuffer s' = None \<and> diffuseTexture s' = None \<and> diffuseBindGroup s' = None \<and>
        cartoonTexture s' = None \<and> cartoonBindGroup s' = None \<and>
        new_calls w w' = map Call_Drop (owned5 s) \<and>
        (distinct (owned5 s) \<longrightarrow> distinct (new_calls w w')) \<and>
        Destroy5 s' w' = (s', w'))
   \<and> (case Texture_Destroy t w of
        (t', w') \<Rightarrow>
          texture t' = None \<and> view t' = None \<and> sampler t' = None \<and>
          new_calls w w' = map Call_Drop (owned_Texture t) \<and>
          (distinct (owned_Texture t) \<longrightarrow> distinct (new_calls w w')) \<and>
          Texture_Destroy t' w' = (t', w'))
   \<and> (case Destroy4 u w of
        (s', w') \<Rightarrow>
          surface s' = None \<and> swapChain s' = None \<and> device s' = None \<and> queue s' = None \<and>
          config s' = None \<and> renderPipeline s' = None \<and> vertexBuffer s' = None \<and>
          indexBuffer s' = None \<and> challengeVertexBuffer s' = None \<and>
          challengeIndexBuffer s' = None \<and>
          new_calls w w' = map Call_Drop (owned4 u) \<and>
          (distinct (owned4 u) \<longrightarrow> distinct (new_calls w w')) \<and>
          Destroy4 s' w' = (s', w'))
   \<and> (case Destroy6 v w of
        (v', w') \<Rightarrow>
          surface v' = None \<and> swapChain v' = None \<and> device v' = None \<and> queue v' = None \<and>
          config v' = None \<and> renderPipeline v' = None \<and> vertexBuffer v' = None \<and>
          indexBuffer v' = None \<and> diffuseTexture6 v' = None \<and> diffuseBindGroup6 v' = None \<and>
          cameraController v' = None \<and> cameraUniform v' = None \<and> cameraBuffer v' = None \<and>
          cameraBindGroup v' = None \<and> cameraStaging v' = None \<and>
          new_calls w w' = map Call_Drop (owned6 v) \<and>
          (distinct (owned6 v) \<longrightarrow> distinct (new_calls w w')) \<and>
          Destroy6 v' w' = (v', w'))"
  using Destroy_idempotent_5 [where s = s and w = w and t = t and u = u]
    Destroy_idempotent_6 [where v = v and w = w]
  by (elim conjE, intro conjI) assumption+

theorem Destroy_idempotent_witness:
  "new_calls (started []) (snd (Destroy5 ready5 (started []))) =
     map Call_Drop [19, 18, 17, 14, 13, 12, 11, 10, 9, 8, 7, 5, 3, 1]
   \<and> distinct (new_calls (started []) (snd (Destroy5 ready5 (started []))))
   \<and> Destroy5 (fst (Destroy5 ready5 (started []))) (snd (Destroy5 ready5 (started []))) =
       Destroy5 ready5 (started [])
   \<and> distinct (new_calls (started [])
        (snd (Texture_Destroy \<lparr>texture = Some 7, view = Some 8, sampler = Some 9\<rparr> (started []))))
   \<and> distinct (new_calls (started4 []) (snd (Destroy4 ready4 (started4 []))))
   \<and> new_calls (started6 []) (snd (Destroy6 ready6 (started6 []))) =
     map Call_Drop [18, 17, 16, 13, 11, 10, 8, 7, 6, 5, 3, 1]
   \<and> distinct (new_calls (started6 []) (snd (Destroy6 ready6 (started6 []))))
   \<and> Destroy6 (fst (Destroy6 ready6 (started6 []))) (snd (Destroy6 ready6 (started6 []))) =
       Destroy6 ready6 (started6 [])"
proof -
  let ?t = "\<lparr>texture = Some 7, view = Some 8, sampler = Some 9\<rparr>"
  note th = Destroy_idempotent [where s = ready5 and w = "started []" and t = ?t and u = ready4
      and v = ready6]
  note th4 = Destroy_idempotent [where s = ready5 and w = "started4 []" and t = ?t and u = ready4
      and v = ready6]
  note th6 = Destroy_idempotent [where s = ready5 and w = "started6 []" and t = ?t and u = ready4
      and v = ready6]
  have o5: "owned5 ready5 = [19, 18, 17, 14, 13, 12, 11, 10, 9, 8, 7, 5, 3, 1]"
    by (simp add: owned5_def ready5_def handles_def owned_Texture_field_def owned_Texture_def)
  have ot: "owned_Texture ?t = [9, 8, 7]"
    by (simp add: handles_def owned_Texture_def)
  have o4: "owned4 ready4 = [12, 11, 10, 9, 8, 5, 3, 1]"
    by (simp add: owned4_def ready4_def handles_def)
  have o6: "owned6 ready6 = [18, 17, 16, 13, 11, 10, 8, 7, 6, 5, 3, 1]"
    by (simp add: owned6_def ready6_def handles_def owned_Texture_field_def owned_Texture_def)
  from th have a: "new_calls (started []) (snd (Destroy5 ready5 (started []))) =
     map Call_Drop [19, 18, 17, 14, 13, 12, 11, 10, 9, 8, 7, 5, 3, 1]"
    and b: "distinct (new_calls (started []) (snd (Destroy5 ready5 (started []))))"
    and c: "Destroy5 (fst (Destroy5 ready5 (started []))) (snd (Destroy5 ready5 (started []))) =
       Destroy5 ready5 (started [])"
    and d: "distinct (new_calls (started [])
        (snd (Texture_Destroy ?t (started []))))"
    by (simp_all add: case_prod_unfold o5 ot)
  from th4 have e: "distinct (new_calls (started4 []) (snd (Destroy4 ready4 (started4 []))))"
    by (simp add: case_prod_unfold o4)
  from th6 have f: "new_calls (started6 []) (snd (Destroy6 ready6 (started6 []))) =
     map Call_Drop [18, 17, 16, 13, 11, 10, 8, 7, 6, 5, 3, 1]"
    and g: "distinct (new_calls (started6 []) (snd (Destroy6 ready6 (started6 []))))"
    and h: "Destroy6 (fst (Destroy6 ready6 (started6 []))) (snd (Destroy6 ready6 (started6 []))) =
       Destroy6 ready6 (started6 [])"
    by (simp_all add: case_prod_unfold o6)
  from a b c d e f g h show ?thesis by blast
qed

subsection \<open>\<open>Render\<close> and \<open>Update\<close>\<close>

lemma Render6_acquire_fails:
  assumes "swapChain s = Some sc" "next_error w = Some msg"
  shows "Render6 s w =
     (Done (Some msg),
      w\<lparr>script := tl (script w),
        gpu_log := gpu_log w @ [Call_GetCurrentTextureView sc (Inl msg)]\<rparr>)"
  using assms by (simp add: Render6_def gpu_try_fail)

lemma Render6_healthy:
  assumes "healthy w" "swapChain s = Some sc" "device s = Some d" "queue s = Some q"
  shows "Render6 s w =
     (Done None,
      w\<lparr>script := tl (tl (script w)), next_id := next_id w + 4,
        gpu_log := gpu_log w @
          [Call_GetCurrentTextureView sc (Inr (next_id w)),
           Call_CreateCommandEncoder d (Inr (next_id w + 1)),
           Call_BeginRenderPass (next_id w + 1) (next_id w) LoadOp_Clear StoreOp_Store (next_id w + 2),
           Call_SetPipeline (next_id w + 2) (renderPipeline s),
           Call_SetBindGroup (next_id w + 2) 0 (diffuseBindGroup6 s),
           Call_SetBindGroup (next_id w + 2) 1 (cameraBindGroup s),
           Call_SetVertexBuffer (next_id w + 2) 0 (vertexBuffer s),
           Call_SetIndexBuffer (next_id w + 2) (indexBuffer s),
           Call_DrawIndexed (next_id w + 2) (numIndices s) 1 0 0 0,
           Call_End (next_id w + 2),
           Call_Finish (next_id w + 1) (next_id w + 3),
           Call_Submit q (next_id w + 3),
           Call_Present sc,
           Call_Drop (next_id w)]\<rparr>)"
  using assms
  by (simp add: Render6_def Render6_body_def gpu_try_healthy gpu_new_def gpu_do_def fresh_def
      emit_def Drop_def Let_def)

lemma Render6_body_no_CreateSwapChain:
  "\<exists>cs. gpu_log (snd (Render6_body sc v s w)) = gpu_log w @ cs \<and>
        count_calls is_CreateSwapChain cs = 0"
  by (auto simp: Render6_body_def gpu_defs Let_def split: option.splits list.splits)

lemma Render6_no_CreateSwapChain:
  "count_calls is_CreateSwapChain (new_calls w (snd (Render6 s w))) = 0"
proof (cases "swapChain s")
  case None
  then show ?thesis by (simp add: Render6_def new_calls_def)
next
  case (Some sc)
  show ?thesis
  proof (cases "next_error w")
    case None
    let ?w1 = "w\<lparr>script := tl (script w), next_id := Suc (next_id w),
       gpu_log := gpu_log w @ [Call_GetCurrentTextureView sc (Inr (next_id w))]\<rparr>"
    obtain cs where cs: "gpu_log (snd (Render6_body sc (next_id w) s ?w1)) = gpu_log ?w1 @ cs"
      "count_calls is_CreateSwapChain cs = 0"
      using Render6_body_no_CreateSwapChain by blast
    have "new_calls w (snd (Render6 s w)) =
          Call_GetCurrentTextureView sc (Inr (next_id w)) # cs @ [Call_Drop (next_id w)]"
      using Some None cs(1)
      by (simp add: Render6_def gpu_try_ok new_calls_def case_prod_unfold Drop_def gpu_do_def emit_def)
    with cs(2) show ?thesis by simp
  next
    case (Some msg)
    with \<open>swapChain s = Some sc\<close> show ?thesis
      by (simp add: Render6_acquire_fails new_calls_def)
  qed
qed

lemma Update6_usable:
  assumes "usable6 s"
  shows "\<exists>s' q. Update6 s w = (Done (), s', gpu_do (Call_WriteBuffer q (cameraBuffer s)) w) \<and>
           queue s = Some q \<and> usable6 s' \<and> swapChain s' = swapChain s \<and>
           device s' = device s \<and> queue s' = queue s"
  using assms
  by (auto simp: usable6_def Update6_def Let_def split: option.splits)

lemma main_loop6_healthy:
  "usable6 s \<Longrightarrow> healthy w \<Longrightarrow>
    \<exists>s' w' cs. main_loop6 (replicate n ([], True)) s w = (Running, s', w') \<and> healthy w' \<and>
      stdout w' = stdout w \<and> resize_calls w' = resize_calls w \<and>
      gpu_log w' = gpu_log w @ cs \<and> count_calls is_CreateSwapChain cs = 0 \<and>
      count_calls is_GetCurrentTextureView cs = n \<and> count_calls is_BeginRenderPass cs = n \<and>
      count_calls is_Submit cs = n \<and> count_calls is_Present cs = n"
proof (induction n arbitrary: s w)
  case 0
  then show ?case by simp
next
  case (Suc n)
  from Update6_usable [OF Suc.prems(1), of w] obtain s1 q where
    u: "Update6 s w = (Done (), s1, gpu_do (Call_WriteBuffer q (cameraBuffer s)) w)"
    and us: "usable6 s1" "queue s1 = Some q"
    by auto
  define w0 where "w0 = gpu_do (Call_WriteBuffer q (cameraBuffer s)) w"
  have h0: "healthy w0" "stdout w0 = stdout w" "resize_calls w0 = resize_calls w"
    "gpu_log w0 = gpu_log w @ [Call_WriteBuffer q (cameraBuffer s)]"
    using Suc.prems(2) by (simp_all add: w0_def gpu_do_def emit_def)
  from us obtain sc d where r: "swapChain s1 = Some sc" "device s1 = Some d"
    by (auto simp: usable6_def)
  define w1 where "w1 = snd (Render6 s1 w0)"
  have rr: "Render6 s1 w0 = (Done None, w1)" and h1: "healthy w1"
    and o1: "stdout w1 = stdout w0" "resize_calls w1 = resize_calls w0"
    and l1: "\<exists>c1. gpu_log w1 = gpu_log w0 @ c1 \<and> count_calls is_CreateSwapChain c1 = 0 \<and>
      count_calls is_GetCurrentTextureView c1 = 1 \<and> count_calls is_BeginRenderPass c1 = 1 \<and>
      count_calls is_Submit c1 = 1 \<and> count_calls is_Present c1 = 1"
    using h0(1) by (simp_all add: w1_def Render6_healthy [OF _ r us(2)])
  from l1 obtain c1 where c1: "gpu_log w1 = gpu_log w0 @ c1" "count_calls is_CreateSwapChain c1 = 0"
      "count_calls is_GetCurrentTextureView c1 = 1" "count_calls is_BeginRenderPass c1 = 1"
      "count_calls is_Submit c1 = 1" "count_calls is_Present c1 = 1"
    by blast
  from Suc.IH [OF us(1) h1] obtain s' w' cs where
    IH: "main_loop6 (replicate n ([], True)) s1 w1 = (Running, s', w')" "healthy w'"
      "stdout w' = stdout w1" "resize_calls w' = resize_calls w1"
      "gpu_log w' = gpu_log w1 @ cs" "count_calls is_CreateSwapChain cs = 0"
      "count_calls is_GetCurrentTextureView cs = n" "count_calls is_BeginRenderPass cs = n"
      "count_calls is_Submit cs = n" "count_calls is_Present cs = n"
    by blast
  have "main_loop6 (replicate (Suc n) ([], True)) s w = (Running, s', w')"
    using u rr IH(1) by (simp add: frame6_def w0_def)
  moreover have "gpu_log w' = gpu_log w @ (Call_WriteBuffer q (cameraBuffer s) # c1 @ cs)"
    using IH(5) c1(1) h0(4) by simp
  ultimately show ?case
    using IH c1 o1 h0
    by (intro exI [of _ s'] exI [of _ w'] exI [of _ "Call_WriteBuffer q (cameraBuffer s) # c1 @ cs"])
      simp
qed

lemma InitState6_healthy:
  assumes "healthy w"
  shows "\<exists>s w'. InitState6 sz fmt (Inr img) w = (Done (Some s, None), w')
     \<and> usable6 s
     \<and> healthy w' \<and> stdout w' = stdout w \<and> resize_calls w' = resize_calls w
     \<and> count_calls is_CreateSwapChain (new_calls w w') = 1
     \<and> count_calls is_Present (new_calls w w') = 0
     \<and> count_calls is_GetCurrentTextureView (new_calls w w') = 0
     \<and> count_calls is_BeginRenderPass (new_calls w w') = 0
     \<and> count_calls is_Submit (new_calls w w') = 0
     \<and> gpu_log w' = gpu_log w @ new_calls w w'"
  using assms
  by (simp add: InitState6_def InitState6_swapChain_def InitState6_diffuse_def
      InitState6_camera_def InitState6_pipeline_def InitState6_buffers_def InitState6_return_def
      TextureFromPNGBytes_def TextureFromImage_def Texture_return_def CreateSwapChain_def
      gpu_try_healthy gpu_new_def gpu_do_def fresh_def emit_def Drop_def Let_def
      healthy_def list_all_tl State6_zero_def INDICES_def VERTICES_def new_calls_def
      count_calls_def usable6_def)

lemma run6_healthy:
  assumes "healthy w"
  shows "fst (run6 sz fmt img n w) = Running \<and>
         fst (snd (run6 sz fmt img n w)) \<noteq> None \<and>
         stdout (snd (snd (run6 sz fmt img n w))) = stdout w \<and>
         resize_calls (snd (snd (run6 sz fmt img n w))) = resize_calls w \<and>
         count_calls is_CreateSwapChain (new_calls w (snd (snd (run6 sz fmt img n w)))) = 1 \<and>
         count_calls is_GetCurrentTextureView (new_calls w (snd (snd (run6 sz fmt img n w)))) = n \<and>
         count_calls is_BeginRenderPass (new_calls w (snd (snd (run6 sz fmt img n w)))) = n \<and>
         count_calls is_Submit (new_calls w (snd (snd (run6 sz fmt img n w)))) = n \<and>
         count_calls is_Present (new_calls w (snd (snd (run6 sz fmt img n w)))) = n"
proof -
  from InitState6_healthy [OF assms, of sz fmt img]
  obtain s w1 where
    init: "InitState6 sz fmt (Inr img) w = (Done (Some s, None), w1)"
    and s: "usable6 s"
    and w1: "healthy w1" "stdout w1 = stdout w" "resize_calls w1 = resize_calls w"
      "count_calls is_CreateSwapChain (new_calls w w1) = 1"
      "count_calls is_Present (new_calls w w1) = 0"
      "count_calls is_GetCurrentTextureView (new_calls w w1) = 0"
      "count_calls is_BeginRenderPass (new_calls w w1) = 0"
      "count_calls is_Submit (new_calls w w1) = 0"
    and c0': "gpu_log w1 = gpu_log w @ new_calls w w1"
    by blast
  define c0 where "c0 = new_calls w w1"
  from main_loop6_healthy [OF s w1(1), of n]
  obtain s' w' cs where
    loop: "main_loop6 (replicate n ([], True)) s w1 = (Running, s', w')"
      "stdout w' = stdout w1" "resize_calls w' = resize_calls w1"
      "gpu_log w' = gpu_log w1 @ cs" "count_calls is_CreateSwapChain cs = 0"
      "count_calls is_GetCurrentTextureView cs = n" "count_calls is_BeginRenderPass cs = n"
      "count_calls is_Submit cs = n" "count_calls is_Present cs = n"
    by blast
  have run: "run6 sz fmt img n w = (Running, Some s', w')"
    by (simp add: run6_def main6_def init loop(1))
  have "gpu_log w' = gpu_log w @ (c0 @ cs)"
    using c0' loop(4) by (simp add: c0_def)
  then have nc: "new_calls w w' = c0 @ cs"
    by (rule new_calls_append)
  show ?thesis
    using w1 loop nc by (simp add: run c0_def)
qed

lemma Render_healthy_6:
  "(healthy w \<and> swapChain v = Some sc \<and> device v = Some d \<and> queue v = Some q \<longrightarrow>
      fst (Render6 v w) = Done None \<and>
      new_calls w (snd (Render6 v w)) =
        [Call_GetCurrentTextureView sc (Inr (next_id w)),
         Call_CreateCommandEncoder d (Inr (next_id w + 1)),
         Call_BeginRenderPass (next_id w + 1) (next_id w) LoadOp_Clear StoreOp_Store (next_id w + 2),
         Call_SetPipeline (next_id w + 2) (renderPipeline v),
         Call_SetBindGroup (next_id w + 2) 0 (diffuseBindGroup6 v),
         Call_SetBindGroup (next_id w + 2) 1 (cameraBindGroup v),
         Call_SetVertexBuffer (next_id w + 2) 0 (vertexBuffer v),
         Call_SetIndexBuffer (next_id w + 2) (indexBuffer v),
         Call_DrawIndexed (next_id w + 2) (numIndices v) 1 0 0 0,
         Call_End (next_id w + 2),
         Call_Finish (next_id w + 1) (next_id w + 3),
         Call_Submit q (next_id w + 3),
         Call_Present sc,
         Call_Drop (next_id w)] \<and>
      count_calls is_BeginRenderPass (new_calls w (snd (Render6 v w))) = 1 \<and>
      count_calls is_Submit (new_calls w (snd (Render6 v w))) = 1 \<and>
      count_calls is_Present (new_calls w (snd (Render6 v w))) = 1)
   \<and> count_calls is_CreateSwapChain (new_calls w (snd (Render6 v w))) = 0
   \<and> (healthy w0 \<longrightarrow>
         fst (run6 sz fmt img n w0) = Running \<and>
         fst (snd (run6 sz fmt img n w0)) \<noteq> None \<and>
         stdout (snd (snd (run6 sz fmt img n w0))) = stdout w0 \<and>
         resize_calls (snd (snd (run6 sz fmt img n w0))) = resize_calls w0 \<and>
         count_calls is_CreateSwapChain (new_calls w0 (snd (snd (run6 sz fmt img n w0)))) = 1 \<and>
         count_calls is_GetCurrentTextureView (new_calls w0 (snd (snd (run6 sz fmt img n w0)))) = n \<and>
         count_calls is_BeginRenderPass (new_calls w0 (snd (snd (run6 sz fmt img n w0)))) = n \<and>
         count_calls is_Submit (new_calls w0 (snd (snd (run6 sz fmt img n w0)))) = n \<and>
         count_calls is_Present (new_calls w0 (snd (snd (run6 sz fmt img n w0)))) = n)"
proof -
  have a: "fst (Render6 v w) = Done None \<and>
      new_calls w (snd (Render6 v w)) =
        [Call_GetCurrentTextureView sc (Inr (next_id w)),
         Call_CreateCommandEncoder d (Inr (next_id w + 1)),
         Call_BeginRenderPass (next_id w + 1) (next_id w) LoadOp_Clear StoreOp_Store (next_id w + 2),
         Call_SetPipeline (next_id w + 2) (renderPipeline v),
         Call_SetBindGroup (next_id w + 2) 0 (diffuseBindGroup6 v),
         Call_SetBindGroup (next_id w + 2) 1 (cameraBindGroup v),
         Call_SetVertexBuffer (next_id w + 2) 0 (vertexBuffer v),
         Call_SetIndexBuffer (next_id w + 2) (indexBuffer v),
         Call_DrawIndexed (next_id w + 2) (numIndices v) 1 0 0 0,
         Call_End (next_id w + 2),
         Call_Finish (next_id w + 1) (next_id w + 3),
         Call_Submit q (next_id w + 3),
         Call_Present sc,
         Call_Drop (next_id w)] \<and>
      count_calls is_BeginRenderPass (new_calls w (snd (Render6 v w))) = 1 \<and>
      count_calls is_Submit (new_calls w (snd (Render6 v w))) = 1 \<and>
      count_calls is_Present (new_calls w (snd (Render6 v w))) = 1"
    if "healthy w" "swapChain v = Some sc" "device v = Some d" "queue v = Some q"
    by (simp add: Render6_healthy [OF that] new_calls_def)
  note b = Render6_no_CreateSwapChain [of w v]
  note c = run6_healthy [of w0 sz fmt img n]
  from a b c show ?thesis by blast
qed

text \<open>
  C5. In the textures challenge and in tutorial6-challenge alike: on a healthy backend
  and a state with swap chain, device and queue, \<open>Render\<close> returns \<open>nil\<close> after exactly
  these calls: it acquires the view, creates an encoder, begins one render pass on the
  view with load operation \<open>Clear\<close>, draws, ends the pass, submits the one finished
  command buffer, presents once and drops the view. \<open>Render\<close> never creates a swap
  chain, on any state and backend. A run of the program on a healthy backend through
  \<open>n\<close> iterations without window events is still running, has printed no error, has
  made \<open>n\<close> acquisitions, render passes, submissions and presentations, and has created
  the swap chain exactly once, in \<open>InitState\<close>.
\<close>

theorem Render_healthy:
  "((healthy w \<and> swapChain s = Some sc \<and> device s = Some d \<and> queue s = Some q \<longrightarrow>
      fst (Render5 s w) = Done None \<and>
      new_calls w (snd (Render5 s w)) =
        [Call_GetCurrentTextureView sc (Inr (next_id w)),
         Call_CreateCommandEncoder d (Inr (next_id w + 1)),
         Call_BeginRenderPass (next_id w + 1) (next_id w) LoadOp_Clear StoreOp_Store (next_id w + 2),
         Call_SetPipeline (next_id w + 2) (renderPipeline s),
         Call_SetBindGroup (next_id w + 2) 0
           (if isSpacePressed s then cartoonBindGroup s else diffuseBindGroup s),
         Call_SetVertexBuffer (next_id w + 2) 0 (vertexBuffer s),
         Call_SetIndexBuffer (next_id w + 2) (indexBuffer s),
         Call_DrawIndexed (next_id w + 2) (numIndices s) 1 0 0 0,
         Call_End (next_id w + 2),
         Call_Finish (next_id w + 1) (next_id w + 3),
         Call_Submit q (next_id w + 3),
         Call_Present sc,
         Call_Drop (next_id w)] \<and>
      count_calls is_BeginRenderPass (new_calls w (snd (Render5 s w))) = 1 \<and>
      count_calls is_Submit (new_calls w (snd (Render5 s w))) = 1 \<and>
      count_calls is_Present (new_calls w (snd (Render5 s w))) = 1)
   \<and> count_calls is_CreateSwapChain (new_calls w (snd (Render5 s w))) = 0
   \<and> (healthy w0 \<longrightarrow>
         fst (run5 sz fmt i1 i2 n w0) = Running \<and>
         fst (snd (run5 sz fmt i1 i2 n w0)) \<noteq> None \<and>
         stdout (snd (snd (run5 sz fmt i1 i2 n w0))) = stdout w0 \<and>
         resize_calls (snd (snd (run5 sz fmt i1 i2 n w0))) = resize_calls w0 \<and>
         count_calls is_CreateSwapChain (new_calls w0 (snd (snd (run5 sz fmt i1 i2 n w0)))) = 1 \<and>
         count_calls is_GetCurrentTextureView (new_calls w0 (snd (snd (run5 sz fmt i1 i2 n w0)))) = n \<and>
         count_calls is_BeginRenderPass (new_calls w0 (snd (snd (run5 sz fmt i1 i2 n w0)))) = n \<and>
         count_calls is_Submit (new_calls w0 (snd (snd (run5 sz fmt i1 i2 n w0)))) = n \<and>
         count_calls is_Present (new_calls w0 (snd (snd (run5 sz fmt i1 i2 n w0)))) = n))
   \<and> ((healthy w \<and> swapChain v = Some sc \<and> device v = Some d \<and> queue v = Some q \<longrightarrow>
      fst (Render6 v w) = Done None \<and>
      new_calls w (snd (Render6 v w)) =
        [Call_GetCurrentTextureView sc (Inr (next_id w)),
         Call_CreateCommandEncoder d (Inr (next_id w + 1)),
         Call_BeginRenderPass (next_id w + 1) (next_id w) LoadOp_Clear StoreOp_Store (next_id w + 2),
         Call_SetPipeline (next_id w + 2) (renderPipeline v),
         Call_SetBindGroup (next_id w + 2) 0 (diffuseBindGroup6 v),
         Call_SetBindGroup (next_id w + 2) 1 (cameraBindGroup v),
         Call_SetVertexBuffer (next_id w + 2) 0 (vertexBuffer v),
         Call_SetIndexBuffer (next_id w + 2) (indexBuffer v),
         Call_DrawIndexed (next_id w + 2) (numIndices v) 1 0 0 0,
         Call_End (next_id w + 2),
         Call_Finish (next_id w + 1) (next_id w + 3),
         Call_Submit q (next_id w + 3),
         Call_Present sc,
         Call_Drop (next_id w)] \<and>
      count_calls is_BeginRenderPass (new_calls w (snd (Render6 v w))) = 1 \<and>
      count_calls is_Submit (new_calls w (snd (Render6 v w))) = 1 \<and>
      count_calls is_Present (new_calls w (snd (Render6 v w))) = 1)
   \<and> count_calls is_CreateSwapChain (new_calls w (snd (Render6 v w))) = 0
   \<and> (healthy w0 \<longrightarrow>
         fst (run6 sz fmt img n w0) = Running \<and>
         fst (snd (run6 sz fmt img n w0)) \<noteq> None \<and>
         stdout (snd (snd (run6 sz fmt img n w0))) = stdout w0 \<and>
         resize_calls (snd (snd (run6 sz fmt img n w0))) = resize_calls w0 \<and>
         count_calls is_CreateSwapChain (new_calls w0 (snd (snd (run6 sz fmt img n w0)))) = 1 \<and>
         count_calls is_GetCurrentTextureView (new_calls w0 (snd (snd (run6 sz fmt img n w0)))) = n \<and>
         count_calls is_BeginRenderPass (new_calls w0 (snd (snd (run6 sz fmt img n w0)))) = n \<and>
         count_calls is_Submit (new_calls w0 (snd (snd (run6 sz fmt img n w0)))) = n \<and>
         count_calls is_Present (new_calls w0 (snd (snd (run6 sz fmt img n w0)))) = n))"
  by (rule conjI [OF Render_healthy_5 Render_healthy_6])

theorem Render_healthy_witness:
  "fst (Render5 ready5 (started [])) = Done None
   \<and> count_calls is_BeginRenderPass (new_calls (started []) (snd (Render5 ready5 (started [])))) = 1
   \<and> count_calls is_Submit (new_calls (started []) (snd (Render5 ready5 (started [])))) = 1
   \<and> count_calls is_Present (new_calls (started []) (snd (Render5 ready5 (started [])))) = 1
   \<and> fst (run5 \<lparr>PhysicalSize.Width = 640, PhysicalSize.Height = 480\<rparr> 7
            \<lparr>Dx = 256, Dy = 256\<rparr> \<lparr>Dx = 256, Dy = 256\<rparr> 10 (boot [])) = Running
   \<and> count_calls is_CreateSwapChain (new_calls (boot [])
        (snd (snd (run5 \<lparr>PhysicalSize.Width = 640, PhysicalSize.Height = 480\<rparr> 7
            \<lparr>Dx = 256, Dy = 256\<rparr> \<lparr>Dx = 256, Dy = 256\<rparr> 10 (boot []))))) = 1
   \<and> count_calls is_Present (new_calls (boot [])
        (snd (snd (run5 \<lparr>PhysicalSize.Width = 640, PhysicalSize.Height = 480\<rparr> 7
            \<lparr>Dx = 256, Dy = 256\<rparr> \<lparr>Dx = 256, Dy = 256\<rparr> 10 (boot []))))) = 10
   \<and> fst (Render6 ready6 (started [])) = Done None
   \<and> count_calls is_BeginRenderPass (new_calls (started []) (snd (Render6 ready6 (started [])))) = 1
   \<and> count_calls is_Submit (new_calls (started []) (snd (Render6 ready6 (started [])))) = 1
   \<and> count_calls is_Present (new_calls (started []) (snd (Render6 ready6 (started [])))) = 1
   \<and> fst (run6 \<lparr>PhysicalSize.Width = 640, PhysicalSize.Height = 480\<rparr> 7
            \<lparr>Dx = 256, Dy = 256\<rparr> 10 (boot [])) = Running
   \<and> count_calls is_CreateSwapChain (new_calls (boot [])
        (snd (snd (run6 \<lparr>PhysicalSize.Width = 640, PhysicalSize.Height = 480\<rparr> 7
            \<lparr>Dx = 256, Dy = 256\<rparr> 10 (boot []))))) = 1
   \<and> count_calls is_Present (new_calls (boot [])
        (snd (snd (run6 \<lparr>PhysicalSize.Width = 640, PhysicalSize.Height = 480\<rparr> 7
            \<lparr>Dx = 256, Dy = 256\<rparr> 10 (boot []))))) = 10"
proof -
  have h: "healthy (started [])" "healthy (boot [])"
    by (simp_all add: healthy_def started_def boot_def)
  have r: "swapChain ready5 = Some 5" "device ready5 = Some 3" "queue ready5 = Some 4"
    "swapChain ready6 = Some 5" "device ready6 = Some 3" "queue ready6 = Some 4"
    by (simp_all add: ready5_def ready6_def)
  note th = Render_healthy [where w = "started []" and s = ready5 and v = ready6
      and sc = 5 and d = 3 and q = 4
      and ?w0.0 = "boot []" and sz = "\<lparr>PhysicalSize.Width = 640, PhysicalSize.Height = 480\<rparr>"
      and fmt = 7 and ?i1.0 = "\<lparr>Dx = 256, Dy = 256\<rparr>" and ?i2.0 = "\<lparr>Dx = 256, Dy = 256\<rparr>"
      and img = "\<lparr>Dx = 256, Dy = 256\<rparr>" and n = 10]
  from th h r show ?thesis by blast
qed

subsection \<open>The loop\<close>

lemma resize_calls_Resize6:
  "resize_calls (snd (snd (Resize6 newSize s w))) = resize_calls w @ [newSize]"
  by (simp add: Resize6_def Let_def CreateSwapChain_def gpu_defs
      split: option.splits list.splits prod.splits sum.splits)

lemma Resize6_no_panic:
  assumes "PhysicalSize.Width newSize = 0 \<or> PhysicalSize.Height newSize = 0 \<or>
           (config s \<noteq> None \<and> device s \<noteq> None \<and> has_camera s \<and> next_error w = None)"
  shows "fst (Resize6 newSize s w) = Done ()"
proof (cases "PhysicalSize.Width newSize = 0 \<or> PhysicalSize.Height newSize = 0")
  case True
  then show ?thesis by (auto simp: Resize6_def Let_def)
next
  case False
  with assms obtain c d st cam where "config s = Some c" "device s = Some d"
    "cameraStaging s = Some st" "camera st = Some cam" "next_error w = None"
    by (auto simp: has_camera_def split: option.splits)
  with False show ?thesis
    by (auto simp: Resize6_def Let_def CreateSwapChain_def gpu_try_ok word_greater_zero_iff
        split: option.splits)
qed

lemma frame_recovery_6:
  assumes "swapChain v = Some sc" "next_error w = Some msg"
  shows "fst (Render6 v w) = Done (Some msg)
     \<and> (Contains msg ''Lost'' \<or> Contains msg ''Outdated'' \<longrightarrow>
          frame6 v w = Resize6 (size' v) v (Println msg (snd (Render6 v w))) \<and>
          resize_calls (snd (snd (frame6 v w))) = resize_calls w @ [size' v] \<and>
          (PhysicalSize.Width (size' v) = 0 \<or> PhysicalSize.Height (size' v) = 0 \<or>
           (config v \<noteq> None \<and> device v \<noteq> None \<and> has_camera v \<and>
            next_error (w\<lparr>script := tl (script w)\<rparr>) = None) \<longrightarrow>
             fst (frame6 v w) = Done () \<and>
             (Update6 v0 w0 = (Done (), v, w) \<longrightarrow>
                main_loop6 (([], True) # polls) v0 w0 =
                  main_loop6 polls (fst (snd (frame6 v w))) (snd (snd (frame6 v w))))))
     \<and> (Contains msg ''Timeout'' \<and> \<not> Contains msg ''Lost'' \<and> \<not> Contains msg ''Outdated'' \<longrightarrow>
          frame6 v w = (Done (), v, Println msg (snd (Render6 v w))) \<and>
          resize_calls (snd (snd (frame6 v w))) = resize_calls w \<and>
          (Update6 v0 w0 = (Done (), v, w) \<longrightarrow>
             main_loop6 (([], True) # polls) v0 w0 =
               main_loop6 polls v (Println msg (snd (Render6 v w)))))"
proof -
  let ?w1 = "w\<lparr>script := tl (script w),
        gpu_log := gpu_log w @ [Call_GetCurrentTextureView sc (Inl msg)]\<rparr>"
  have r: "Render6 v w = (Done (Some msg), ?w1)"
    by (rule Render6_acquire_fails [OF assms])
  have a: "fst (Render6 v w) = Done (Some msg)" by (simp add: r)
  have b: "frame6 v w = Resize6 (size' v) v (Println msg (snd (Render6 v w)))"
    if "Contains msg ''Lost'' \<or> Contains msg ''Outdated''"
    using that by (auto simp: frame6_def r Let_def)
  have b2: "resize_calls (snd (snd (frame6 v w))) = resize_calls w @ [size' v]"
    if "Contains msg ''Lost'' \<or> Contains msg ''Outdated''"
    by (simp add: b [OF that] resize_calls_Resize6 r)
  have b3: "fst (frame6 v w) = Done () \<and>
            (Update6 v0 w0 = (Done (), v, w) \<longrightarrow>
               main_loop6 (([], True) # polls) v0 w0 =
                 main_loop6 polls (fst (snd (frame6 v w))) (snd (snd (frame6 v w))))"
    if lo: "Contains msg ''Lost'' \<or> Contains msg ''Outdated''"
      and ok: "PhysicalSize.Width (size' v) = 0 \<or> PhysicalSize.Height (size' v) = 0 \<or>
           (config v \<noteq> None \<and> device v \<noteq> None \<and> has_camera v \<and>
            next_error (w\<lparr>script := tl (script w)\<rparr>) = None)"
  proof -
    have "fst (Resize6 (size' v) v (Println msg ?w1)) = Done ()"
      using ok by (intro Resize6_no_panic) simp
    then have d: "fst (frame6 v w) = Done ()" by (simp add: b [OF lo] r)
    then show ?thesis by (cases "frame6 v w") simp
  qed
  have c: "frame6 v w = (Done (), v, Println msg (snd (Render6 v w))) \<and>
          resize_calls (snd (snd (frame6 v w))) = resize_calls w \<and>
          (Update6 v0 w0 = (Done (), v, w) \<longrightarrow>
             main_loop6 (([], True) # polls) v0 w0 =
               main_loop6 polls v (Println msg (snd (Render6 v w))))"
    if "Contains msg ''Timeout''" "\<not> Contains msg ''Lost''" "\<not> Contains msg ''Outdated''"
    using that by (simp add: frame6_def r Let_def)
  from a b b2 b3 c show ?thesis by blast
qed

text \<open>
  C1, as amended. In the textures challenge and in tutorial6-challenge alike, when the
  acquisition of a \<open>Render\<close> fails with the message \<open>msg\<close>: if \<open>msg\<close> contains \<open>Lost\<close> or
  \<open>Outdated\<close>, the rest of the iteration is exactly one call of \<open>Resize\<close>, with \<open>s.size\<close>,
  and the loop continues with the next iteration unless that \<open>Resize\<close> panics; it does not
  panic when \<open>s.size\<close> has a zero dimension, or the state has its descriptor and device
  (and, in tutorial6-challenge, its camera) and the device accepts the configuration.
  If \<open>msg\<close> contains \<open>Timeout\<close> and neither \<open>Lost\<close> nor \<open>Outdated\<close>, \<open>Resize\<close> is not
  called, the state is unchanged and the loop continues. In tutorial6-challenge the
  iteration begins with \<open>s.Update()\<close>, here taken to have returned.
\<close>

theorem frame_recovery:
  assumes "swapChain s = Some sc" "swapChain v = Some sc'" "next_error w = Some msg"
  shows "(fst (Render5 s w) = Done (Some msg)
     \<and> (Contains msg ''Lost'' \<or> Contains msg ''Outdated'' \<longrightarrow>
          frame5 s w = Resize (size' s) s (Println msg (snd (Render5 s w))) \<and>
          resize_calls (snd (snd (frame5 s w))) = resize_calls w @ [size' s] \<and>
          (PhysicalSize.Width (size' s) = 0 \<or> PhysicalSize.Height (size' s) = 0 \<or>
           (config s \<noteq> None \<and> device s \<noteq> None \<and>
            next_error (w\<lparr>script := tl (script w)\<rparr>) = None) \<longrightarrow>
             fst (frame5 s w) = Done () \<and>
             main_loop5 (([], True) # polls) s w =
               main_loop5 polls (fst (snd (frame5 s w))) (snd (snd (frame5 s w)))))
     \<and> (Contains msg ''Timeout'' \<and> \<not> Contains msg ''Lost'' \<and> \<not> Contains msg ''Outdated'' \<longrightarrow>
          frame5 s w = (Done (), s, Println msg (snd (Render5 s w))) \<and>
          resize_calls (snd (snd (frame5 s w))) = resize_calls w \<and>
          main_loop5 (([], True) # polls) s w =
            main_loop5 polls s (Println msg (snd (Render5 s w)))))
     \<and> (fst (Render6 v w) = Done (Some msg)
     \<and> (Contains msg ''Lost'' \<or> Contains msg ''Outdated'' \<longrightarrow>
          frame6 v w = Resize6 (size' v) v (Println msg (snd (Render6 v w))) \<and>
          resize_calls (snd (snd (frame6 v w))) = resize_calls w @ [size' v] \<and>
          (PhysicalSize.Width (size' v) = 0 \<or> PhysicalSize.Height (size' v) = 0 \<or>
           (config v \<noteq> None \<and> device v \<noteq> None \<and> has_camera v \<and>
            next_error (w\<lparr>script := tl (script w)\<rparr>) = None) \<longrightarrow>
             fst (frame6 v w) = Done () \<and>
             (Update6 v0 w0 = (Done (), v, w) \<longrightarrow>
                main_loop6 (([], True) # polls) v0 w0 =
                  main_loop6 polls (fst (snd (frame6 v w))) (snd (snd (frame6 v w))))))
     \<and> (Contains msg ''Timeout'' \<and> \<not> Contains msg ''Lost'' \<and> \<not> Contains msg ''Outdated'' \<longrightarrow>
          frame6 v w = (Done (), v, Println msg (snd (Render6 v w))) \<and>
          resize_calls (snd (snd (frame6 v w))) = resize_calls w \<and>
          (Update6 v0 w0 = (Done (), v, w) \<longrightarrow>
             main_loop6 (([], True) # polls) v0 w0 =
               main_loop6 polls v (Println msg (snd (Render6 v w))))))"
  by (rule conjI [OF frame_recovery_5 [OF assms(1,3)] frame_recovery_6 [OF assms(2,3)]])

theorem frame_recovery_witness:
  "fst (Render5 ready5 (started [Some ''Surface Outdated''])) = Done (Some ''Surface Outdated'')
   \<and> resize_calls (snd (snd (frame5 ready5 (started [Some ''Surface Outdated''])))) = [size' ready5]
   \<and> fst (frame5 ready5 (started [Some ''Surface Outdated''])) = Done ()
   \<and> resize_calls (snd (snd (frame5 ready5 (started [Some ''Surface Timeout''])))) = []
   \<and> fst (frame5 ready5 (started [Some ''Surface Timeout''])) = Done ()
   \<and> fst (Render6 ready6 (started [Some ''Surface Outdated''])) = Done (Some ''Surface Outdated'')
   \<and> resize_calls (snd (snd (frame6 ready6 (started [Some ''Surface Outdated''])))) = [size' ready6]
   \<and> fst (frame6 ready6 (started [Some ''Surface Outdated''])) = Done ()
   \<and> resize_calls (snd (snd (frame6 ready6 (started [Some ''Surface Timeout''])))) = []
   \<and> fst (frame6 ready6 (started [Some ''Surface Timeout''])) = Done ()"
proof -
  have sc: "swapChain ready5 = Some 5" "swapChain ready6 = Some 5"
    by (simp_all add: ready5_def ready6_def)
  have st: "config ready5 \<noteq> None" "device ready5 \<noteq> None"
    "config ready6 \<noteq> None" "device ready6 \<noteq> None" "has_camera ready6"
    by (simp_all add: ready5_def ready6_def has_camera_def)
  have ne: "next_error ((started [Some m])\<lparr>script := tl (script (started [Some m]))\<rparr>) = None"
    for m by (simp add: started_def next_error_def)
  have rc: "resize_calls (started x) = []" for x by (simp add: started_def)
  have o: "Contains ''Surface Outdated'' ''Outdated''" by simp
  have t: "Contains ''Surface Timeout'' ''Timeout''" "\<not> Contains ''Surface Timeout'' ''Lost''"
    "\<not> Contains ''Surface Timeout'' ''Outdated''" by simp_all
  have f: "next_error (started [Some m]) = Some m" for m by simp
  note out = frame_recovery [OF sc f, where msg = "''Surface Outdated''" and polls = "[]"
      and ?v0.0 = ready6 and ?w0.0 = "started []"]
  note tmo = frame_recovery [OF sc f, where msg = "''Surface Timeout''" and polls = "[]"
      and ?v0.0 = ready6 and ?w0.0 = "started []"]
  from out o st ne [of "''Surface Outdated''"] have 1:
    "fst (Render5 ready5 (started [Some ''Surface Outdated''])) = Done (Some ''Surface Outdated'')"
    "resize_calls (snd (snd (frame5 ready5 (started [Some ''Surface Outdated''])))) =
       resize_calls (started [Some ''Surface Outdated'']) @ [size' ready5]"
    "fst (frame5 ready5 (started [Some ''Surface Outdated''])) = Done ()"
    "fst (Render6 ready6 (started [Some ''Surface Outdated''])) = Done (Some ''Surface Outdated'')"
    "resize_calls (snd (snd (frame6 ready6 (started [Some ''Surface Outdated''])))) =
       resize_calls (started [Some ''Surface Outdated'']) @ [size' ready6]"
    "fst (frame6 ready6 (started [Some ''Surface Outdated''])) = Done ()"
    by blast+
  from tmo t have 2:
    "resize_calls (snd (snd (frame5 ready5 (started [Some ''Surface Timeout''])))) =
       resize_calls (started [Some ''Surface Timeout''])"
    "resize_calls (snd (snd (frame6 ready6 (started [Some ''Surface Timeout''])))) =
       resize_calls (started [Some ''Surface Timeout''])"
    by blast+
  from tmo t have 3:
    "frame5 ready5 (started [Some ''Surface Timeout'']) =
      (Done (), ready5, Println ''Surface Timeout''
         (snd (Render5 ready5 (started [Some ''Surface Timeout'']))))"
    "frame6 ready6 (started [Some ''Surface Timeout'']) =
      (Done (), ready6, Println ''Surface Timeout''
         (snd (Render6 ready6 (started [Some ''Surface Timeout'']))))"
    by blast+
  have 4: "fst (frame5 ready5 (started [Some ''Surface Timeout''])) = Done ()"
    "fst (frame6 ready6 (started [Some ''Surface Timeout''])) = Done ()"
    unfolding 3 by simp_all
  from 1 2 4 show ?thesis by (simp add: rc)
qed

end
